theory Spec2Isabelle
  imports Complex_Main "HOL-Library.Multiset"
begin

section \<open>Numbers, errors and vectors\<close>

text \<open>
  The engine computes with JavaScript Numbers. They are modelled as \<^typ>\<open>real\<close>: exact
  arithmetic, no rounding, no infinities and no NaN. The one exception is the friction of
  a body, whose effect over many calls depends on rounding: the section on binary64
  arithmetic models the physics step again, on binary64 values.

  Where the source tests a value for
  \<^verbatim>\<open>undefined\<close> the model uses an explicit three-valued type (\<open>jsnum\<close>, below).
  A thrown exception is a value: \<open>Error msg\<close> for \<^verbatim>\<open>throw new Error(msg)\<close> and
  \<^verbatim>\<open>throw new me.Error(msg)\<close>, \<open>TypeError\<close> for the run-time error of reading a
  property of \<^verbatim>\<open>undefined\<close> or \<^verbatim>\<open>null\<close>. A method that mutates its receiver takes the
  receiver as its last argument and returns the new receiver; one that can throw returns
  the outcome together with the receiver as the throw left it.
\<close>

datatype error = Error string | TypeError

text \<open>
  \<^verbatim>\<open>a || b\<close> on Numbers: \<open>a\<close> when it is truthy (not zero), else \<open>b\<close>.
\<close>

definition js_or :: "real \<Rightarrow> real \<Rightarrow> real" where
  "js_or a b = (if a \<noteq> 0 then a else b)"

text \<open>
  \<^verbatim>\<open>~~v\<close> is ECMAScript's ToInt32 applied twice through bitwise NOT: truncate towards
  zero, reduce modulo \<open>2^32\<close>, read the result as a signed 32-bit integer.
\<close>

definition ToInt32 :: "real \<Rightarrow> int" where
  "ToInt32 v =
     (let n = (if v < 0 then \<lceil>v\<rceil> else \<lfloor>v\<rfloor>);
          m = n mod 2 ^ 32
      in if m \<ge> 2 ^ 31 then m - 2 ^ 32 else m)"

definition double_tilde :: "real \<Rightarrow> real" where
  "double_tilde v = of_int (ToInt32 v)"

text \<open>
  Modelled from the spec: \<^verbatim>\<open>me.Vector2d\<close> (the 2D vectors of the data model) is not among
  the sources. Its fields \<^verbatim>\<open>x\<close> and \<^verbatim>\<open>y\<close> are \<open>vx\<close> and \<open>vy\<close> here; \<^verbatim>\<open>add\<close> and
  \<^verbatim>\<open>sub\<close> are componentwise.
\<close>

record Vector2d =
  vx :: real
  vy :: real

definition Vector2d_add :: "Vector2d \<Rightarrow> Vector2d \<Rightarrow> Vector2d" where
  "Vector2d_add v this = \<lparr>vx = vx this + vx v, vy = vy this + vy v\<rparr>"

definition Vector2d_sub :: "Vector2d \<Rightarrow> Vector2d \<Rightarrow> Vector2d" where
  "Vector2d_sub v this = \<lparr>vx = vx this - vx v, vy = vy this - vy v\<rparr>"

text \<open>
  Modelled from the spec: \<^verbatim>\<open>me.Math.clamp\<close> is not among the sources; the spec says the
  velocity is clamped to \<open>[-maxVel, maxVel]\<close>.
\<close>

definition clamp :: "real \<Rightarrow> real \<Rightarrow> real \<Rightarrow> real" where
  "clamp val low high = (if val < low then low else if val > high then high else val)"

section \<open>Rectangles\<close>

text \<open>
  Modelled from the spec: \<^verbatim>\<open>me.Rect\<close> (\<^verbatim>\<open>../shapes/rectangle\<close>) is not among the sources.
  The spec describes it as an axis-aligned rectangle with position, size and union.
  \<open>resize\<close> sets the size; \<open>union_rect\<close> grows the receiver to the smallest axis-aligned
  rectangle that covers both the receiver and the argument. Both work on every record
  that extends \<open>Rect\<close>, as the methods are inherited by \<^verbatim>\<open>Body\<close> and \<^verbatim>\<open>Pointer\<close>.
\<close>

record Rect =
  pos :: Vector2d
  width :: real
  height :: real

definition rect_left :: "'a Rect_scheme \<Rightarrow> real" where
  "rect_left r = vx (pos r)"

definition rect_right :: "'a Rect_scheme \<Rightarrow> real" where
  "rect_right r = vx (pos r) + width r"

definition rect_top :: "'a Rect_scheme \<Rightarrow> real" where
  "rect_top r = vy (pos r)"

definition rect_bottom :: "'a Rect_scheme \<Rightarrow> real" where
  "rect_bottom r = vy (pos r) + height r"

definition resize :: "real \<Rightarrow> real \<Rightarrow> 'a Rect_scheme \<Rightarrow> 'a Rect_scheme" where
  "resize w h this = this\<lparr>width := w, height := h\<rparr>"

definition union_rect :: "Rect \<Rightarrow> 'a Rect_scheme \<Rightarrow> 'a Rect_scheme" where
  "union_rect r this =
     (let x1 = min (rect_left this) (rect_left r);
          y1 = min (rect_top this) (rect_top r);
          this1 = resize (max (rect_right this) (rect_right r) - x1)
                         (max (rect_bottom this) (rect_bottom r) - y1) this
      in this1\<lparr>pos := \<lparr>vx = x1, vy = y1\<rparr>\<rparr>)"

section \<open>The physics body (src/src/physics/body.js)\<close>

text \<open>
  A collision shape is opaque to the body: it only calls \<^verbatim>\<open>getBounds()\<close>, \<^verbatim>\<open>clone()\<close>,
  \<^verbatim>\<open>toPolygon()\<close>, tests \<^verbatim>\<open>instanceof me.Rect\<close>, and builds shapes with
  \<^verbatim>\<open>new me.Polygon(x, y, points)\<close> and \<^verbatim>\<open>new me.Ellipse(x, y, w, h)\<close>. The shape classes are
  not among the sources, so the type of shapes is a parameter \<open>'s\<close> and these operations
  are passed in as a record.
\<close>

record 's shape_ops =
  getBounds :: "'s \<Rightarrow> Rect"
  clone :: "'s \<Rightarrow> 's"
  instanceofRect :: "'s \<Rightarrow> bool"
  toPolygon :: "'s \<Rightarrow> 's"
  Polygon_new :: "real \<Rightarrow> real \<Rightarrow> Vector2d list \<Rightarrow> 's"
  Ellipse_new :: "real \<Rightarrow> real \<Rightarrow> real \<Rightarrow> real \<Rightarrow> 's"

text \<open>
  The engine globals the body reads: \<^verbatim>\<open>me.timer.tick\<close>, \<^verbatim>\<open>me.sys.gravity\<close> (\<open>None\<close> when
  undefined) and two constants of \<^verbatim>\<open>me.collision.types\<close>.
\<close>

record engine =
  tick :: real
  sys_gravity :: "real option"
  ALL_OBJECT :: int
  ENEMY_OBJECT :: int

text \<open>
  \<^verbatim>\<open>class Body extends Rect\<close>. \<open>ancestor\<close> holds the state of the parent renderable the
  body points to (\<open>None\<close> once \<^verbatim>\<open>destroy\<close> has set the reference to null). The callback
  \<open>onBodyUpdate\<close> is host code: it is a handle (\<open>None\<close> when the field is not a function),
  and every invocation is recorded in \<open>onBodyUpdate_calls\<close> with the rectangle the body
  had when it was called. The one callback in the sources, \<^verbatim>\<open>Entity.onBodyUpdate\<close>, reads
  \<^verbatim>\<open>body.width\<close>, \<^verbatim>\<open>body.height\<close> and \<^verbatim>\<open>body.pos\<close> and changes the entity only.
\<close>

record 's Body = Rect +
  ancestor :: "Rect option"
  shapes :: "'s list"
  collisionMask :: int
  collisionType :: int
  vel :: Vector2d
  accel :: Vector2d
  friction :: Vector2d
  bounce :: real
  maxVel :: Vector2d
  gravity :: real
  falling :: bool
  jumping :: bool
  onBodyUpdate :: "nat option"
  onBodyUpdate_calls :: "(nat \<times> Rect) list"

text \<open>\<^verbatim>\<open>updateBounds\<close>, lines 406-424. The loop over \<open>shapes[1..]\<close> is \<open>updateBounds_loop\<close>.\<close>

fun updateBounds_loop :: "'s shape_ops \<Rightarrow> 's list \<Rightarrow> 's Body \<Rightarrow> 's Body" where
  "updateBounds_loop ops [] this = this"
| "updateBounds_loop ops (s # rest) this = updateBounds_loop ops rest (union_rect (getBounds ops s) this)"

definition updateBounds :: "'s shape_ops \<Rightarrow> 's Body \<Rightarrow> 's Body" where
  "updateBounds ops this =
     (let this1 =
        (case shapes this of
           [] \<Rightarrow> this
         | s0 # rest \<Rightarrow>
             (let bounds = getBounds ops s0;
                  this' = resize (width bounds) (height bounds) (this\<lparr>pos := pos bounds\<rparr>)
              in updateBounds_loop ops rest this'))
      in (case onBodyUpdate this1 of
            None \<Rightarrow> this1
          | Some f \<Rightarrow>
              this1\<lparr>onBodyUpdate_calls := onBodyUpdate_calls this1 @ [(f, Rect.truncate this1)]\<rparr>))"

text \<open>
  \<^verbatim>\<open>addShape\<close>, lines 198-213. \<open>batchInsert\<close> is \<open>True\<close> exactly when the argument is the
  value \<^verbatim>\<open>true\<close>. The result is the returned length and the body.
\<close>

definition addShape :: "'s shape_ops \<Rightarrow> 's \<Rightarrow> bool \<Rightarrow> 's Body \<Rightarrow> nat \<times> 's Body" where
  "addShape ops shape batchInsert this =
     (let this1 =
        (if instanceofRect ops shape
         then this\<lparr>shapes := shapes this @ [toPolygon ops shape]\<rparr>
         else this\<lparr>shapes := shapes this @ [shape]\<rparr>);
          this2 = (if batchInsert \<noteq> True then updateBounds ops this1 else this1)
      in (length (shapes this2), this2))"

text \<open>The constructor, lines 24-186; the loop over the initial shapes is \<open>addShapes_batch\<close>.\<close>

fun addShapes_batch :: "'s shape_ops \<Rightarrow> 's list \<Rightarrow> 's Body \<Rightarrow> 's Body" where
  "addShapes_batch ops [] this = this"
| "addShapes_batch ops (s # rest) this =
     addShapes_batch ops rest (snd (addShape ops (clone ops s) True this))"

definition Body_new ::
  "engine \<Rightarrow> 's shape_ops \<Rightarrow> Rect \<Rightarrow> 's list option \<Rightarrow> nat option \<Rightarrow> 's Body" where
  "Body_new me ops parent shapes0 onBodyUpdate0 =
     (let this =
        \<lparr>pos = \<lparr>vx = 0, vy = 0\<rparr>, width = width parent, height = height parent,
         ancestor = Some parent,
         shapes = [],
         collisionMask = ALL_OBJECT me,
         collisionType = ENEMY_OBJECT me,
         vel = \<lparr>vx = 0, vy = 0\<rparr>,
         accel = \<lparr>vx = 0, vy = 0\<rparr>,
         friction = \<lparr>vx = 0, vy = 0\<rparr>,
         bounce = 0,
         maxVel = \<lparr>vx = 1000, vy = 1000\<rparr>,
         gravity = (case sys_gravity me of Some g \<Rightarrow> g | None \<Rightarrow> 98 / 100),
         falling = False,
         jumping = False,
         onBodyUpdate = onBodyUpdate0,
         onBodyUpdate_calls = []\<rparr>
      in (case shapes0 of
            None \<Rightarrow> this
          | Some ss \<Rightarrow> updateBounds ops (addShapes_batch ops ss this)))"

text \<open>
  \<^verbatim>\<open>addShapesFromJSON\<close>, lines 229-293. The JSON document is one of the two formats the
  function tells apart by \<^verbatim>\<open>typeof(json.rigidBodies)\<close>: the Physics Editor format, an
  object that maps an identifier to a list of fixtures, each with a flat \<^verbatim>\<open>shape\<close> array
  of coordinates; or the Physics Body Editor format, a list of rigid bodies with a name,
  an origin, polygons and circles (each a triple \<open>(cx, cy, r)\<close>). The argument \<^verbatim>\<open>id\<close> is
  \<open>ident\<close>; \<open>scale\<close> is \<open>None\<close> when the argument is undefined.
  The loop over a \<^verbatim>\<open>shape\<close> array takes two coordinates at a time; a single trailing
  coordinate is paired with \<^verbatim>\<open>undefined\<close>, which the vector constructor of the engine
  (not among the sources) stores as 0.
\<close>

record RigidBody =
  rb_name :: string
  rb_origin :: Vector2d
  rb_polygons :: "Vector2d list list"
  rb_circles :: "(real \<times> real \<times> real) list"

datatype PhysicsJSON =
    PhysicsEditor "string \<Rightarrow> real list list option"
  | PhysicsBodyEditor "RigidBody list"

fun shape_points :: "real list \<Rightarrow> Vector2d list" where
  "shape_points (x # y # rest) = \<lparr>vx = x, vy = y\<rparr> # shape_points rest"
| "shape_points [x] = [\<lparr>vx = x, vy = 0\<rparr>]"
| "shape_points [] = []"

fun addFixtures :: "'s shape_ops \<Rightarrow> real list list \<Rightarrow> 's Body \<Rightarrow> 's Body" where
  "addFixtures ops [] this = this"
| "addFixtures ops (fixture # rest) this =
     addFixtures ops rest
       (snd (addShape ops (Polygon_new ops 0 0 (shape_points fixture)) True this))"

fun findRigidBody :: "string \<Rightarrow> RigidBody list \<Rightarrow> RigidBody option \<Rightarrow> RigidBody option" where
  "findRigidBody ident [] data = data"
| "findRigidBody ident (b # rest) data =
     findRigidBody ident rest (if rb_name b = ident then Some b else data)"

fun addPolygons :: "'s shape_ops \<Rightarrow> real \<Rightarrow> Vector2d list list \<Rightarrow> 's Body \<Rightarrow> 's Body" where
  "addPolygons ops scale [] this = this"
| "addPolygons ops scale (poly # rest) this =
     addPolygons ops scale rest
       (snd (addShape ops
          (Polygon_new ops 0 0
             (map (\<lambda>point. \<lparr>vx = vx point * scale, vy = (1 - vy point) * scale\<rparr>) poly))
          True this))"

fun addCircles :: "'s shape_ops \<Rightarrow> real \<Rightarrow> (real \<times> real \<times> real) list \<Rightarrow> 's Body \<Rightarrow> 's Body" where
  "addCircles ops scale [] this = this"
| "addCircles ops scale ((cx, cy, r) # rest) this =
     addCircles ops scale rest
       (snd (addShape ops
          (Ellipse_new ops (cx * scale) ((1 - cy) * scale) (r * 2 * scale) (r * 2 * scale))
          True this))"

definition addShapesFromJSON ::
  "'s shape_ops \<Rightarrow> PhysicsJSON \<Rightarrow> string \<Rightarrow> real option \<Rightarrow> 's Body \<Rightarrow> (error + nat) \<times> 's Body" where
  "addShapesFromJSON ops json ident scale0 this =
     (let scale = (case scale0 of Some k \<Rightarrow> js_or k 1 | None \<Rightarrow> 1);
          missing = Error (''me.Body: Identifier ('' @ ident
                             @ '') undefined for the given PhysicsEditor JSON object)'');
          finish = (\<lambda>this1. let this2 = updateBounds ops this1
                            in (Inr (length (shapes this2)), this2))
      in (case json of
            PhysicsEditor fixtures \<Rightarrow>
              (case fixtures ident of
                 None \<Rightarrow> (Inl missing, this)
               | Some data \<Rightarrow> finish (addFixtures ops data this))
          | PhysicsBodyEditor rigidBodies \<Rightarrow>
              (case findRigidBody ident rigidBodies None of
                 None \<Rightarrow> (Inl missing, this)
               | Some data \<Rightarrow>
                   (let this1 = this\<lparr>pos := \<lparr>vx = vx (rb_origin data) * scale,
                                              vy = (1 - vy (rb_origin data)) * scale\<rparr>\<rparr>;
                        this2 = addPolygons ops scale (rb_polygons data) this1;
                        this3 = addCircles ops scale (rb_circles data) this2
                    in finish this3))))"

text \<open>
  \<^verbatim>\<open>getShape\<close>, \<^verbatim>\<open>removeShape\<close>, \<^verbatim>\<open>removeShapeAt\<close>, lines 304-338. An index is \<open>None\<close> when
  the argument is undefined; a read past the end of the array is \<^verbatim>\<open>undefined\<close>, here
  \<open>None\<close>. Modelled from the spec: \<^verbatim>\<open>me.utils.array.remove\<close> is not among the sources; the
  spec calls it a stable remove that does nothing when the shape is not present, which is
  \<^const>\<open>remove1\<close> (shapes are values here, so identity is equality).
\<close>

definition getShape :: "nat option \<Rightarrow> 's Body \<Rightarrow> 's option" where
  "getShape index this =
     (let i = (case index of None \<Rightarrow> 0 | Some k \<Rightarrow> k)
      in if i < length (shapes this) then Some (shapes this ! i) else None)"

definition removeShape :: "'s shape_ops \<Rightarrow> 's option \<Rightarrow> 's Body \<Rightarrow> nat \<times> 's Body" where
  "removeShape ops shape this =
     (let this1 = (case shape of
                     None \<Rightarrow> this
                   | Some s \<Rightarrow> this\<lparr>shapes := remove1 s (shapes this)\<rparr>);
          this2 = updateBounds ops this1
      in (length (shapes this2), this2))"

definition removeShapeAt :: "'s shape_ops \<Rightarrow> nat option \<Rightarrow> 's Body \<Rightarrow> nat \<times> 's Body" where
  "removeShapeAt ops index this = removeShape ops (getShape index this) this"

text \<open>\<^verbatim>\<open>setCollisionMask\<close>, \<^verbatim>\<open>setVelocity\<close>, \<^verbatim>\<open>setMaxVelocity\<close>, \<^verbatim>\<open>setFriction\<close>, lines 357-471.\<close>

definition setCollisionMask :: "int \<Rightarrow> 's Body \<Rightarrow> 's Body" where
  "setCollisionMask bitmask this = this\<lparr>collisionMask := bitmask\<rparr>"

definition setMaxVelocity :: "real \<Rightarrow> real \<Rightarrow> 's Body \<Rightarrow> 's Body" where
  "setMaxVelocity x y this = this\<lparr>maxVel := \<lparr>vx = x, vy = y\<rparr>\<rparr>"

definition setVelocity :: "real \<Rightarrow> real \<Rightarrow> 's Body \<Rightarrow> 's Body" where
  "setVelocity x y this =
     (let this1 = this\<lparr>accel := (accel this)\<lparr>vx := (if x \<noteq> 0 then x else vx (accel this))\<rparr>\<rparr>;
          this2 = this1\<lparr>accel := (accel this1)\<lparr>vy := (if y \<noteq> 0 then y else vy (accel this1))\<rparr>\<rparr>
      in setMaxVelocity x y this2)"

definition setFriction :: "real \<Rightarrow> real \<Rightarrow> 's Body \<Rightarrow> 's Body" where
  "setFriction x y this = this\<lparr>friction := \<lparr>vx = js_or x 0, vy = js_or y 0\<rparr>\<rparr>"

text \<open>
  \<^verbatim>\<open>respondToCollision\<close>, lines 369-396. The argument is \<^verbatim>\<open>response.overlapV\<close>. The first
  statement reads \<^verbatim>\<open>this.ancestor.pos\<close>, a TypeError when the ancestor is null.
\<close>

definition respondToCollision :: "Vector2d \<Rightarrow> 's Body \<Rightarrow> (error + unit) \<times> 's Body" where
  "respondToCollision overlap this =
     (case ancestor this of
        None \<Rightarrow> (Inl TypeError, this)
      | Some a \<Rightarrow>
          (let this1 = this\<lparr>ancestor := Some (a\<lparr>pos := Vector2d_sub overlap (pos a)\<rparr>)\<rparr>;
               this2 =
                 (if vx overlap \<noteq> 0
                  then (let t = this1\<lparr>vel := (vel this1)
                                  \<lparr>vx := js_or (double_tilde (5 / 10 + vx (vel this1) - vx overlap)) 0\<rparr>\<rparr>
                        in if bounce t > 0
                           then t\<lparr>vel := (vel t)\<lparr>vx := vx (vel t) * - bounce t\<rparr>\<rparr>
                           else t)
                  else this1);
               this3 =
                 (if vy overlap \<noteq> 0
                  then (let t = this2\<lparr>vel := (vel this2)
                                  \<lparr>vy := js_or (double_tilde (5 / 10 + vy (vel this2) - vy overlap)) 0\<rparr>\<rparr>;
                            t' = (if bounce t > 0
                                  then t\<lparr>vel := (vel t)\<lparr>vy := vy (vel t) * - bounce t\<rparr>\<rparr>
                                  else t);
                            dir = js_or (sgn (gravity t')) 1
                        in t'\<lparr>falling := (vy overlap \<ge> dir), jumping := (vy overlap \<le> - dir)\<rparr>)
                  else this2)
           in (Inr (), this3)))"

text \<open>\<^verbatim>\<open>applyFriction\<close>, lines 477-493: the new value of the vector passed in.\<close>

definition applyFriction :: "engine \<Rightarrow> Vector2d \<Rightarrow> 's Body \<Rightarrow> Vector2d" where
  "applyFriction me v this =
     (let fx = vx (friction this) * tick me;
          nx = vx v + fx;
          x = vx v - fx;
          fy = vy (friction this) * tick me;
          ny = vy v + fy;
          y = vy v - fy
      in \<lparr>vx = (if nx < 0 then nx else if x > 0 then x else 0),
          vy = (if ny < 0 then ny else if y > 0 then y else 0)\<rparr>)"

text \<open>
  \<^verbatim>\<open>computeVelocity\<close>, lines 499-523: the new value of the vector passed in, and the body
  with its \<open>falling\<close> and \<open>jumping\<close> flags. The function never reads \<^verbatim>\<open>this.vel\<close>.
\<close>

definition computeVelocity :: "engine \<Rightarrow> Vector2d \<Rightarrow> 's Body \<Rightarrow> Vector2d \<times> 's Body" where
  "computeVelocity me v this =
     (let (v1, this1) =
        (if gravity this \<noteq> 0
         then (let w = v\<lparr>vy := vy v + gravity this * tick me\<rparr>;
                   t = this\<lparr>falling := (vy w * sgn (gravity this) > 0)\<rparr>
               in (w, t\<lparr>jumping := (if falling t then False else jumping t)\<rparr>))
         else (v, this));
          v2 = (if vx (friction this1) \<noteq> 0 \<or> vy (friction this1) \<noteq> 0
                then applyFriction me v1 this1 else v1);
          v3 = (if vy v2 \<noteq> 0
                then v2\<lparr>vy := clamp (vy v2) (- vy (maxVel this1)) (vy (maxVel this1))\<rparr> else v2);
          v4 = (if vx v3 \<noteq> 0
                then v3\<lparr>vx := clamp (vx v3) (- vx (maxVel this1)) (vx (maxVel this1))\<rparr> else v3)
      in (v4, this1))"

text \<open>
  \<^verbatim>\<open>update\<close>, lines 532-541. The source declares no parameter; callers pass the elapsed
  time, here \<open>dt\<close> of any type. The velocity is written before \<^verbatim>\<open>this.ancestor.pos\<close> is
  read, so a TypeError leaves the new velocity in place.
\<close>

definition update :: "engine \<Rightarrow> 'dt \<Rightarrow> 's Body \<Rightarrow> (error + bool) \<times> 's Body" where
  "update me dt this =
     (let (v, this1) = computeVelocity me (vel this) this;
          this2 = this1\<lparr>vel := v\<rparr>
      in (case ancestor this2 of
            None \<Rightarrow> (Inl TypeError, this2)
          | Some a \<Rightarrow>
              (let this3 = this2\<lparr>ancestor := Some (a\<lparr>pos := Vector2d_add (vel this2) (pos a)\<rparr>)\<rparr>
               in (Inr (vx (vel this3) \<noteq> 0 \<or> vy (vel this3) \<noteq> 0), this3))))"

text \<open>\<^verbatim>\<open>destroy\<close>, lines 547-551.\<close>

definition destroy :: "'s Body \<Rightarrow> 's Body" where
  "destroy this = this\<lparr>onBodyUpdate := None, ancestor := None, shapes := []\<rparr>"

section \<open>The physics step in binary64 arithmetic (body.js, lines 477-541)\<close>

text \<open>
  What repeated calls of \<^verbatim>\<open>update\<close> make of a velocity depends on rounding. A JavaScript
  Number is an IEEE 754 binary64 value, and every arithmetic operation rounds its exact
  result to the nearest one, ties to even. \<open>binade e x\<close> says that \<open>x\<close> is in the normal
  range with exponent \<open>e\<close>; there the binary64 values are the multiples of \<open>2^(e - 52)\<close>,
  and \<open>binary64 e x\<close> is the one nearest to \<open>x\<close>.
\<close>

definition round_ties_even :: "real \<Rightarrow> int" where
  "round_ties_even x =
     (let f = \<lfloor>x\<rfloor>; d = x - of_int f
      in if d < 1 / 2 then f else if d > 1 / 2 then f + 1 else if even f then f else f + 1)"

definition binade :: "int \<Rightarrow> real \<Rightarrow> bool" where
  "binade e x = (- 1022 \<le> e \<and> e \<le> 1023 \<and> 2 powi e \<le> \<bar>x\<bar> \<and> \<bar>x\<bar> < 2 powi (e + 1))"

definition binary64 :: "int \<Rightarrow> real \<Rightarrow> real" where
  "binary64 e x = of_int (round_ties_even (x / 2 powi (e - 52))) * 2 powi (e - 52)"

text \<open>
  \<open>expo x\<close> is the exponent of the grid on which \<open>x\<close> is rounded: the \<open>e\<close> with
  \<open>binade e x\<close>, found by searching upwards from \<open>-1022\<close>, which is also the exponent of
  the subnormal range, and at most 1023. \<open>fl x\<close> is \<open>x\<close> rounded on that grid.
\<close>

fun expo_from :: "nat \<Rightarrow> int \<Rightarrow> real \<Rightarrow> int" where
  "expo_from 0 e a = e"
| "expo_from (Suc n) e a = (if a < 2 powi (e + 1) then e else expo_from n (e + 1) a)"

definition expo :: "real \<Rightarrow> int" where
  "expo x = expo_from 2045 (- 1022) \<bar>x\<bar>"

definition fl :: "real \<Rightarrow> real" where
  "fl x = binary64 (expo x) x"

text \<open>
  A Number is a finite value, an infinity or NaN. The two zeros of binary64 are one value
  here: the methods below compare zeros and add them, and never divide by them.
  \<open>rnd x\<close> is the Number that an operation with the exact result \<open>x\<close> returns: \<open>fl x\<close>,
  or an infinity when \<open>fl x\<close> reaches \<open>2^1024\<close> in magnitude.
\<close>

datatype float64 = Finite real | PosInfinity | NegInfinity | NotANumber

definition huge64 :: real where
  "huge64 = 2 ^ 1024"

definition rnd :: "real \<Rightarrow> float64" where
  "rnd x = (let y = fl x
            in if huge64 \<le> y then PosInfinity
               else if y \<le> - huge64 then NegInfinity else Finite y)"

text \<open>
  Negation, \<^verbatim>\<open>+\<close>, \<^verbatim>\<open>-\<close>, \<^verbatim>\<open>*\<close>, \<^verbatim>\<open><\<close>, \<^verbatim>\<open>>\<close>, truthiness and \<^verbatim>\<open>Math.sign\<close> on Numbers, as
  ECMAScript defines them: NaN is contagious and compares false with everything, opposite
  infinities add up to NaN, and so does zero times an infinity.
\<close>

fun neg64 :: "float64 \<Rightarrow> float64" where
  "neg64 (Finite a) = Finite (- a)"
| "neg64 PosInfinity = NegInfinity"
| "neg64 NegInfinity = PosInfinity"
| "neg64 NotANumber = NotANumber"

fun add64 :: "float64 \<Rightarrow> float64 \<Rightarrow> float64" where
  "add64 (Finite a) (Finite b) = rnd (a + b)"
| "add64 NotANumber b = NotANumber"
| "add64 a NotANumber = NotANumber"
| "add64 PosInfinity NegInfinity = NotANumber"
| "add64 NegInfinity PosInfinity = NotANumber"
| "add64 PosInfinity b = PosInfinity"
| "add64 a PosInfinity = PosInfinity"
| "add64 NegInfinity b = NegInfinity"
| "add64 a NegInfinity = NegInfinity"

definition sub64 :: "float64 \<Rightarrow> float64 \<Rightarrow> float64" where
  "sub64 a b = add64 a (neg64 b)"

fun mul64 :: "float64 \<Rightarrow> float64 \<Rightarrow> float64" where
  "mul64 (Finite a) (Finite b) = rnd (a * b)"
| "mul64 NotANumber b = NotANumber"
| "mul64 a NotANumber = NotANumber"
| "mul64 (Finite a) b =
     (if a = 0 then NotANumber else if (0 < a) = (b = PosInfinity) then PosInfinity else NegInfinity)"
| "mul64 a (Finite b) =
     (if b = 0 then NotANumber else if (0 < b) = (a = PosInfinity) then PosInfinity else NegInfinity)"
| "mul64 a b = (if a = b then PosInfinity else NegInfinity)"

fun lt64 :: "float64 \<Rightarrow> float64 \<Rightarrow> bool" where
  "lt64 (Finite a) (Finite b) = (a < b)"
| "lt64 NotANumber b = False"
| "lt64 a NotANumber = False"
| "lt64 a PosInfinity = (a \<noteq> PosInfinity)"
| "lt64 NegInfinity b = (b \<noteq> NegInfinity)"
| "lt64 a b = False"

definition gt64 :: "float64 \<Rightarrow> float64 \<Rightarrow> bool" where
  "gt64 a b = lt64 b a"

definition truthy64 :: "float64 \<Rightarrow> bool" where
  "truthy64 a = (a \<noteq> Finite 0 \<and> a \<noteq> NotANumber)"

fun sign64 :: "float64 \<Rightarrow> float64" where
  "sign64 (Finite a) = Finite (sgn a)"
| "sign64 PosInfinity = Finite 1"
| "sign64 NegInfinity = Finite (- 1)"
| "sign64 NotANumber = NotANumber"

text \<open>
  Modelled from the spec: \<^verbatim>\<open>me.Math.clamp\<close> is not among the sources; the spec says the
  velocity is clamped to \<open>[-maxVel, maxVel]\<close>. Here it is on Numbers.
\<close>

definition clamp64 :: "float64 \<Rightarrow> float64 \<Rightarrow> float64 \<Rightarrow> float64" where
  "clamp64 val low high = (if lt64 val low then low else if gt64 val high then high else val)"

text \<open>
  Modelled from the spec: \<^verbatim>\<open>me.Vector2d\<close> is not among the sources. Here its fields are
  Numbers, \<open>x64\<close> and \<open>y64\<close>, and \<^verbatim>\<open>add\<close> is componentwise.
\<close>

record Vector64 =
  x64 :: float64
  y64 :: float64

definition Vector64_add :: "Vector64 \<Rightarrow> Vector64 \<Rightarrow> Vector64" where
  "Vector64_add v this = \<lparr>x64 = add64 (x64 this) (x64 v), y64 = add64 (y64 this) (y64 v)\<rparr>"

text \<open>
  The fields of a body that \<^verbatim>\<open>applyFriction\<close>, \<^verbatim>\<open>computeVelocity\<close> and \<^verbatim>\<open>update\<close> read and
  write, and \<open>accel\<close>, which they leave alone. \<open>ancestor64\<close> is the position of the
  ancestor, \<open>None\<close> once \<^verbatim>\<open>destroy\<close> has run. A finite Number \<open>Finite x\<close> in a field is
  meant to be a binary64 value (\<open>is64 x\<close>, below); the operations return no other, and
  the statements say so of the fields they depend on.
\<close>

record Body64 =
  ancestor64 :: "Vector64 option"
  vel64 :: Vector64
  accel64 :: Vector64
  friction64 :: Vector64
  maxVel64 :: Vector64
  gravity64 :: float64
  falling64 :: bool
  jumping64 :: bool

text \<open>
  \<^verbatim>\<open>applyFriction\<close>, lines 477-493, \<^verbatim>\<open>computeVelocity\<close>, lines 499-523, and \<^verbatim>\<open>update\<close>,
  lines 532-541, statement by statement as in the section above, every operation on
  Numbers. \<^verbatim>\<open>me.timer.tick\<close> is the first argument, \<open>tk\<close>.
\<close>

definition applyFriction64 :: "float64 \<Rightarrow> Vector64 \<Rightarrow> Body64 \<Rightarrow> Vector64" where
  "applyFriction64 tk v this =
     (let fx = mul64 (x64 (friction64 this)) tk;
          nx = add64 (x64 v) fx;
          x = sub64 (x64 v) fx;
          fy = mul64 (y64 (friction64 this)) tk;
          ny = add64 (y64 v) fy;
          y = sub64 (y64 v) fy
      in \<lparr>x64 = (if lt64 nx (Finite 0) then nx else if gt64 x (Finite 0) then x else Finite 0),
          y64 = (if lt64 ny (Finite 0) then ny else if gt64 y (Finite 0) then y else Finite 0)\<rparr>)"

definition computeVelocity64 :: "float64 \<Rightarrow> Vector64 \<Rightarrow> Body64 \<Rightarrow> Vector64 \<times> Body64" where
  "computeVelocity64 tk v this =
     (let (v1, this1) =
        (if truthy64 (gravity64 this)
         then (let w = v\<lparr>y64 := add64 (y64 v) (mul64 (gravity64 this) tk)\<rparr>;
                   t = this\<lparr>falling64 := gt64 (mul64 (y64 w) (sign64 (gravity64 this))) (Finite 0)\<rparr>
               in (w, t\<lparr>jumping64 := (if falling64 t then False else jumping64 t)\<rparr>))
         else (v, this));
          v2 = (if truthy64 (x64 (friction64 this1)) \<or> truthy64 (y64 (friction64 this1))
                then applyFriction64 tk v1 this1 else v1);
          v3 = (if y64 v2 \<noteq> Finite 0
                then v2\<lparr>y64 := clamp64 (y64 v2) (neg64 (y64 (maxVel64 this1))) (y64 (maxVel64 this1))\<rparr>
                else v2);
          v4 = (if x64 v3 \<noteq> Finite 0
                then v3\<lparr>x64 := clamp64 (x64 v3) (neg64 (x64 (maxVel64 this1))) (x64 (maxVel64 this1))\<rparr>
                else v3)
      in (v4, this1))"

definition update64 :: "float64 \<Rightarrow> Body64 \<Rightarrow> (error + bool) \<times> Body64" where
  "update64 tk this =
     (let (v, this1) = computeVelocity64 tk (vel64 this) this;
          this2 = this1\<lparr>vel64 := v\<rparr>
      in (case ancestor64 this2 of
            None \<Rightarrow> (Inl TypeError, this2)
          | Some p \<Rightarrow>
              (let this3 = this2\<lparr>ancestor64 := Some (Vector64_add (vel64 this2) p)\<rparr>
               in (Inr (x64 (vel64 this3) \<noteq> Finite 0 \<or> y64 (vel64 this3) \<noteq> Finite 0), this3))))"

text \<open>
  The body after the first \<open>n\<close> calls of \<^verbatim>\<open>update\<close>, whatever each returns. Every call
  reads \<^verbatim>\<open>me.timer.tick\<close> anew: call number \<open>i\<close>, counted from 0, finds \<open>ticks i\<close> there.
  \<open>finite_ticks t\<close> is a timer whose readings are the finite Numbers \<open>t 0\<close>, \<open>t 1\<close>, ...
\<close>

fun updates64 :: "nat \<Rightarrow> (nat \<Rightarrow> float64) \<Rightarrow> Body64 \<Rightarrow> Body64" where
  "updates64 0 ticks this = this"
| "updates64 (Suc n) ticks this = snd (update64 (ticks n) (updates64 n ticks this))"

definition finite_ticks :: "(nat \<Rightarrow> real) \<Rightarrow> nat \<Rightarrow> float64" where
  "finite_ticks t i = Finite (t i)"

section \<open>The pointer (src/unnamed/part_000, lines 1-248)\<close>

text \<open>
  A value the host may leave undefined. \<open>NaN\<close> only arises from arithmetic on
  \<^verbatim>\<open>undefined\<close>. \<open>js_truthy\<close> is the truth test of \<^verbatim>\<open>&&\<close> and \<^verbatim>\<open>||\<close>, \<open>js_times\<close> is \<^verbatim>\<open>*\<close>.
\<close>

datatype jsnum = Undefined | NaN | Num real

definition js_truthy :: "jsnum \<Rightarrow> bool" where
  "js_truthy a = (case a of Num r \<Rightarrow> r \<noteq> 0 | _ \<Rightarrow> False)"

definition js_or_num :: "jsnum \<Rightarrow> jsnum \<Rightarrow> jsnum" where
  "js_or_num a b = (if js_truthy a then a else b)"

definition js_or_real :: "jsnum \<Rightarrow> real \<Rightarrow> real" where
  "js_or_real a b = (case a of Num r \<Rightarrow> (if r \<noteq> 0 then r else b) | _ \<Rightarrow> b)"

definition js_times :: "jsnum \<Rightarrow> jsnum \<Rightarrow> jsnum" where
  "js_times a b = (case (a, b) of (Num r, Num q) \<Rightarrow> Num (r * q) | _ \<Rightarrow> NaN)"

text \<open>
  The host input event, as far as \<^verbatim>\<open>setEvent\<close> reads it. \<open>ev_instanceofPointerEvent\<close> is
  \<^verbatim>\<open>event instanceof window.PointerEvent\<close>. The sizes \<^verbatim>\<open>width\<close>, \<^verbatim>\<open>height\<close> and \<^verbatim>\<open>radiusY\<close>
  are read only where the DOM defines them, so they are Numbers; \<open>ev_radiusX\<close> is \<open>None\<close>
  when \<^verbatim>\<open>typeof(event.radiusX)\<close> is not \<^verbatim>\<open>"number"\<close>.
\<close>

record Event =
  ev_type :: string
  ev_instanceofPointerEvent :: bool
  ev_deltaX :: jsnum
  ev_wheelDelta :: jsnum
  ev_wheelDeltaX :: jsnum
  ev_isPrimary :: "bool option"
  ev_button :: jsnum
  ev_width :: real
  ev_height :: real
  ev_radiusX :: "real option"
  ev_radiusY :: real

text \<open>
  What \<^verbatim>\<open>setEvent\<close> calls outside the file: \<^verbatim>\<open>me.device.PointerEvent\<close>,
  \<^verbatim>\<open>me.input.globalToLocal(x, y, v)\<close> and \<^verbatim>\<open>me.game.viewport.localToWorld(x, y, v)\<close>, each
  of the last two as the vector it writes into \<open>v\<close>.
\<close>

record input_host =
  device_PointerEvent :: bool
  globalToLocal :: "jsnum \<Rightarrow> jsnum \<Rightarrow> Vector2d"
  localToWorld :: "real \<Rightarrow> real \<Rightarrow> Vector2d"

text \<open>
  \<^verbatim>\<open>class Pointer extends Rect\<close>. The last four fields are not set by the constructor;
  \<^verbatim>\<open>setEvent\<close> creates them.
\<close>

record Pointer = Rect +
  event :: "Event option"
  type :: "string option"
  button :: jsnum
  isPrimary :: bool
  clientX :: jsnum
  clientY :: jsnum
  gameX :: jsnum
  gameY :: jsnum
  gameScreenX :: jsnum
  gameScreenY :: jsnum
  gameWorldX :: jsnum
  gameWorldY :: jsnum
  gameLocalX :: jsnum
  gameLocalY :: jsnum
  pointerId :: jsnum
  isNormalized :: "bool option"
  deltaMode :: jsnum
  deltaX :: jsnum
  deltaY :: jsnum

text \<open>The constructor, lines 28-180.\<close>

definition Pointer_new :: "jsnum \<Rightarrow> jsnum \<Rightarrow> jsnum \<Rightarrow> jsnum \<Rightarrow> Pointer" where
  "Pointer_new x y w h =
     \<lparr>pos = \<lparr>vx = js_or_real x 0, vy = js_or_real y 0\<rparr>,
      width = js_or_real w 1, height = js_or_real h 1,
      event = None, type = None, button = Num 0, isPrimary = False,
      clientX = Undefined, clientY = Undefined,
      gameX = Undefined, gameY = Undefined,
      gameScreenX = Undefined, gameScreenY = Undefined,
      gameWorldX = Undefined, gameWorldY = Undefined,
      gameLocalX = Undefined, gameLocalY = Undefined,
      pointerId = Undefined,
      isNormalized = None, deltaMode = Undefined, deltaX = Undefined, deltaY = Undefined\<rparr>"

text \<open>
  \<^verbatim>\<open>setEvent\<close>, lines 192-247. The result is the pointer and the new value of the
  module's \<^verbatim>\<open>viewportOffset\<close>, which \<^verbatim>\<open>localToWorld\<close> overwrites before it is read.
  \<^verbatim>\<open>- 1 / 40 * w\<close> is \<^verbatim>\<open>((-1) / 40) * w\<close>.
\<close>

definition setEvent ::
  "input_host \<Rightarrow> Event \<Rightarrow> jsnum \<Rightarrow> jsnum \<Rightarrow> jsnum \<Rightarrow> Pointer \<Rightarrow> Pointer \<times> Vector2d" where
  "setEvent host ev clientX0 clientY0 pointerId0 this =
     (let this1 = this\<lparr>event := Some ev\<rparr>;
          this2 = this1\<lparr>clientX := js_or_num clientX0 (Num 0)\<rparr>;
          this3 = this2\<lparr>clientY := js_or_num clientY0 (Num 0)\<rparr>;
          this4 = this3\<lparr>pos := globalToLocal host clientX0 clientY0\<rparr>;
          this5 = this4\<lparr>isNormalized :=
                    Some (\<not> device_PointerEvent host \<or>
                          (device_PointerEvent host \<and> \<not> ev_instanceofPointerEvent ev))\<rparr>;
          this6 =
            (if ev_type ev = ''wheel''
             then (let t1 = this5\<lparr>deltaMode := Num 1\<rparr>;
                       t2 = t1\<lparr>deltaX := ev_deltaX ev\<rparr>;
                       t3 = t2\<lparr>deltaY := js_times (Num (- 1 / 40)) (ev_wheelDelta ev)\<rparr>
                   in if js_truthy (ev_wheelDeltaX ev)
                      then t3\<lparr>deltaX := js_times (Num (- 1 / 40)) (ev_wheelDeltaX ev)\<rparr>
                      else t3)
             else this5);
          this7 = this6\<lparr>pointerId := (if pointerId0 \<noteq> Undefined then pointerId0 else Num 1)\<rparr>;
          this8 = this7\<lparr>isPrimary := (case ev_isPrimary ev of Some p \<Rightarrow> p | None \<Rightarrow> True)\<rparr>;
          this9 = this8\<lparr>button := js_or_num (ev_button ev) (Num 0)\<rparr>;
          this10 = this9\<lparr>type := Some (ev_type ev)\<rparr>;
          this11 = this10\<lparr>gameScreenX := Num (vx (pos this10))\<rparr>;
          this12 = this11\<lparr>gameScreenY := Num (vy (pos this11))\<rparr>;
          viewportOffset = localToWorld host (vx (pos this12)) (vy (pos this12));
          this13 = this12\<lparr>gameWorldX := Num (vx viewportOffset)\<rparr>;
          this14 = this13\<lparr>gameWorldY := Num (vy viewportOffset)\<rparr>;
          (w, h) =
            (if isNormalized this14 = Some False
             then (ev_width ev, ev_height ev)
             else (case ev_radiusX ev of
                     Some rx \<Rightarrow> (rx * 2, ev_radiusY ev * 2)
                   | None \<Rightarrow> (1, 1)))
      in (resize w h this14, viewportOffset))"

section \<open>The state manager (src/unnamed/part_000, lines 250-819)\<close>

text \<open>
  A state identifier is an integer. The module's variables \<^verbatim>\<open>_state\<close>, \<^verbatim>\<open>_animFrameId\<close>, ...
  are the fields \<open>m_state\<close>, \<open>m_animFrameId\<close>, ... of one record; the private functions
  \<^verbatim>\<open>_startRunLoop\<close>, ... lose their underscore. A screen object is a handle; the argument
  of \<^verbatim>\<open>set\<close> is either one (\<open>ScreenObject n\<close>) or any other value, given by its string
  form. Everything the module calls on the host (the timer, the frame scheduler, the game,
  the viewport, the audio, the event bus, the screens and the user's callbacks) is an
  entry appended to the trace \<open>h_trace\<close>, in the order of the calls.
\<close>

datatype host_value = ScreenObject nat | OtherValue string

datatype lifecycle = STATE_STOP | STATE_PAUSE | STATE_RESTART | STATE_RESUME

datatype 'a effect =
    TimerReset
  | RequestAnimationFrame int
  | CancelAnimationFrame int
  | GameUpdate real
  | GameDraw
  | GameRepaint
  | ScreenDestroy nat
  | ScreenReset nat "'a list"
  | ViewportFadeIn string "real option"
  | ViewportFadeOut string "real option"
  | AudioPauseTrack
  | AudioResumeTrack
  | EventPublish lifecycle "real list"
  | UserCallback lifecycle nat

record ScreenEntry =
  screen :: nat
  transition :: bool

record Fade =
  color :: string
  duration :: "real option"

text \<open>
  \<open>m_onSwitchComplete\<close> is \<open>True\<close> once \<^verbatim>\<open>change\<close> has stored its fade-out closure (the only
  value the variable ever gets besides null). \<open>onPause\<close>, \<open>onResume\<close>, \<open>onStop\<close> and
  \<open>onRestart\<close> are handles of user functions, \<open>None\<close> when not a function.

  Modelled from the spec: \<^verbatim>\<open>me.utils.function.defer\<close> and \<^verbatim>\<open>me.game.viewport.fadeIn\<close> are
  not among the sources. The spec says a deferred call runs after the current frame has
  finished, never inside the caller, and that the fade runs over its duration before the
  switch. \<open>h_deferred\<close> is the queue of deferred \<^verbatim>\<open>_switchState(state)\<close> calls, oldest first;
  \<open>h_fadeInCallbacks\<close> holds the completion callbacks of the fades in progress, each by the
  \<open>state\<close> it captured. \<open>h_nextFrameId\<close> is the handle the next
  \<^verbatim>\<open>requestAnimationFrame\<close> returns.
\<close>

record 'a StateManager =
  m_state :: int
  m_animFrameId :: int
  m_isPaused :: bool
  m_screenObject :: "int \<Rightarrow> ScreenEntry option"
  m_fade :: Fade
  m_onSwitchComplete :: bool
  m_extraArgs :: "'a list option"
  m_pauseTime :: real
  onPause :: "nat option"
  onResume :: "nat option"
  onStop :: "nat option"
  onRestart :: "nat option"
  h_nextFrameId :: int
  h_deferred :: "int list"
  h_fadeInCallbacks :: "int list"
  h_trace :: "'a effect list"

definition sm_initial :: "'a StateManager" where
  "sm_initial =
     \<lparr>m_state = - 1, m_animFrameId = - 1, m_isPaused = False,
      m_screenObject = Map.empty,
      m_fade = \<lparr>color = [], duration = Some 0\<rparr>,
      m_onSwitchComplete = False, m_extraArgs = None, m_pauseTime = 0,
      onPause = None, onResume = None, onStop = None, onRestart = None,
      h_nextFrameId = 1, h_deferred = [], h_fadeInCallbacks = [], h_trace = []\<rparr>"

definition emit :: "'a effect list \<Rightarrow> 'a StateManager \<Rightarrow> 'a StateManager" where
  "emit es s = s\<lparr>h_trace := h_trace s @ es\<rparr>"

definition LOADING :: int where "LOADING = 0"
definition MENU :: int where "MENU = 1"
definition READY :: int where "READY = 2"
definition PLAY :: int where "PLAY = 3"
definition GAMEOVER :: int where "GAMEOVER = 4"
definition GAME_END :: int where "GAME_END = 5"
definition SCORE :: int where "SCORE = 6"
definition CREDITS :: int where "CREDITS = 7"
definition SETTINGS :: int where "SETTINGS = 8"
definition USER :: int where "USER = 100"

text \<open>The string of an integer, as \<^verbatim>\<open>"..." + state\<close> prints it.\<close>

definition digit_char :: "nat \<Rightarrow> char" where
  "digit_char d = ''0123456789'' ! d"

function show_nat :: "nat \<Rightarrow> string" where
  "show_nat n = (if n < 10 then [digit_char n] else show_nat (n div 10) @ [digit_char (n mod 10)])"
  by pat_completeness auto
termination
  by (relation "measure (\<lambda>n. n)") auto

definition show_int :: "int \<Rightarrow> string" where
  "show_int i = (if i < 0 then CHR ''-'' # show_nat (nat (- i)) else show_nat (nat i))"

text \<open>The private functions, lines 287-380.\<close>

definition isRunning :: "'a StateManager \<Rightarrow> bool" where
  "isRunning s = (m_animFrameId s \<noteq> - 1)"

definition isPaused :: "'a StateManager \<Rightarrow> bool" where
  "isPaused s = m_isPaused s"

definition isCurrent :: "int \<Rightarrow> 'a StateManager \<Rightarrow> bool" where
  "isCurrent state s = (m_state s = state)"

definition startRunLoop :: "'a StateManager \<Rightarrow> 'a StateManager" where
  "startRunLoop s =
     (if m_animFrameId s = - 1 \<and> m_state s \<noteq> - 1
      then (let s1 = emit [TimerReset] s;
                s2 = emit [RequestAnimationFrame (h_nextFrameId s1)] s1
            in s2\<lparr>m_animFrameId := h_nextFrameId s2, h_nextFrameId := h_nextFrameId s2 + 1\<rparr>)
      else s)"

definition resumeRunLoop :: "'a StateManager \<Rightarrow> 'a StateManager" where
  "resumeRunLoop s =
     (if m_isPaused s \<and> m_state s \<noteq> - 1
      then (emit [TimerReset] s)\<lparr>m_isPaused := False\<rparr>
      else s)"

definition pauseRunLoop :: "'a StateManager \<Rightarrow> 'a StateManager" where
  "pauseRunLoop s = s\<lparr>m_isPaused := True\<rparr>"

definition renderFrame :: "real \<Rightarrow> 'a StateManager \<Rightarrow> 'a StateManager" where
  "renderFrame time s =
     (let s1 = emit [GameUpdate time] s;
          s2 = emit [GameDraw] s1
      in if m_animFrameId s2 \<noteq> - 1
         then (emit [RequestAnimationFrame (h_nextFrameId s2)] s2)
                \<lparr>m_animFrameId := h_nextFrameId s2, h_nextFrameId := h_nextFrameId s2 + 1\<rparr>
         else s2)"

definition stopRunLoop :: "'a StateManager \<Rightarrow> 'a StateManager" where
  "stopRunLoop s = (emit [CancelAnimationFrame (m_animFrameId s)] s)\<lparr>m_animFrameId := - 1\<rparr>"

definition switchState :: "int \<Rightarrow> 'a StateManager \<Rightarrow> 'a StateManager" where
  "switchState state s =
     (let s1 = stopRunLoop s;
          s2 = (case m_screenObject s1 (m_state s1) of
                  Some old \<Rightarrow> emit [ScreenDestroy (screen old)] s1
                | None \<Rightarrow> s1)
      in (case m_screenObject s2 state of
            Some new \<Rightarrow>
              (let s3 = s2\<lparr>m_state := state\<rparr>;
                   s4 = emit [ScreenReset (screen new)
                                (case m_extraArgs s3 of None \<Rightarrow> [] | Some as \<Rightarrow> as)] s3;
                   s5 = startRunLoop s4;
                   s6 = (if m_onSwitchComplete s5
                         then emit [ViewportFadeOut (color (m_fade s5)) (duration (m_fade s5))] s5
                         else s5)
               in emit [GameRepaint] s6)
          | None \<Rightarrow> s2))"

text \<open>
  The exported functions, lines 509-819. \<^verbatim>\<open>set\<close> is \<open>set_so\<close> and \<^verbatim>\<open>transition\<close> is
  \<open>transition_fn\<close> (the names are taken). \<open>music\<close> is \<open>True\<close> exactly when the argument is
  the value \<^verbatim>\<open>true\<close>; \<open>now\<close> is what \<^verbatim>\<open>window.performance.now()\<close> returns. A function that
  can throw returns its outcome and the state.
\<close>

definition set_so ::
  "int \<Rightarrow> host_value \<Rightarrow> 'a StateManager \<Rightarrow> (error + unit) \<times> 'a StateManager" where
  "set_so state so s =
     (case so of
        OtherValue str \<Rightarrow> (Inl (Error (str @ '' is not an instance of me.ScreenObject'')), s)
      | ScreenObject n \<Rightarrow>
          (Inr (), s\<lparr>m_screenObject := (m_screenObject s)(state \<mapsto> \<lparr>screen = n, transition = True\<rparr>)\<rparr>))"

definition init :: "nat \<Rightarrow> 'a StateManager \<Rightarrow> (error + unit) \<times> 'a StateManager" where
  "init loadingScreen s = set_so LOADING (ScreenObject loadingScreen) s"

definition stop :: "bool \<Rightarrow> real \<Rightarrow> 'a StateManager \<Rightarrow> 'a StateManager" where
  "stop music now s =
     (if m_state s \<noteq> LOADING \<and> isRunning s
      then (let s1 = stopRunLoop s;
                s2 = (if music = True then emit [AudioPauseTrack] s1 else s1);
                s3 = s2\<lparr>m_pauseTime := now\<rparr>;
                s4 = emit [EventPublish STATE_STOP []] s3
            in (case onStop s4 of Some f \<Rightarrow> emit [UserCallback STATE_STOP f] s4 | None \<Rightarrow> s4))
      else s)"

definition pause :: "bool \<Rightarrow> real \<Rightarrow> 'a StateManager \<Rightarrow> 'a StateManager" where
  "pause music now s =
     (if m_state s \<noteq> LOADING \<and> \<not> isPaused s
      then (let s1 = pauseRunLoop s;
                s2 = (if music = True then emit [AudioPauseTrack] s1 else s1);
                s3 = s2\<lparr>m_pauseTime := now\<rparr>;
                s4 = emit [EventPublish STATE_PAUSE []] s3
            in (case onPause s4 of Some f \<Rightarrow> emit [UserCallback STATE_PAUSE f] s4 | None \<Rightarrow> s4))
      else s)"

definition restart :: "bool \<Rightarrow> real \<Rightarrow> 'a StateManager \<Rightarrow> 'a StateManager" where
  "restart music now s =
     (if \<not> isRunning s
      then (let s1 = startRunLoop s;
                s2 = (if music = True then emit [AudioResumeTrack] s1 else s1);
                s3 = s2\<lparr>m_pauseTime := now - m_pauseTime s2\<rparr>;
                s4 = emit [GameRepaint] s3;
                s5 = emit [EventPublish STATE_RESTART [m_pauseTime s4]] s4
            in (case onRestart s5 of Some f \<Rightarrow> emit [UserCallback STATE_RESTART f] s5 | None \<Rightarrow> s5))
      else s)"

definition resume :: "bool \<Rightarrow> real \<Rightarrow> 'a StateManager \<Rightarrow> 'a StateManager" where
  "resume music now s =
     (if isPaused s
      then (let s1 = resumeRunLoop s;
                s2 = (if music = True then emit [AudioResumeTrack] s1 else s1);
                s3 = s2\<lparr>m_pauseTime := now - m_pauseTime s2\<rparr>;
                s4 = emit [EventPublish STATE_RESUME [m_pauseTime s3]] s3
            in (case onResume s4 of Some f \<Rightarrow> emit [UserCallback STATE_RESUME f] s4 | None \<Rightarrow> s4))
      else s)"

definition current :: "'a StateManager \<Rightarrow> error + nat" where
  "current s =
     (case m_screenObject s (m_state s) of
        None \<Rightarrow> Inl TypeError
      | Some entry \<Rightarrow> Inr (screen entry))"

definition transition_fn :: "string \<Rightarrow> string \<Rightarrow> real option \<Rightarrow> 'a StateManager \<Rightarrow> 'a StateManager" where
  "transition_fn effect c d s =
     (if effect = ''fade'' then s\<lparr>m_fade := \<lparr>color = c, duration = d\<rparr>\<rparr> else s)"

definition setTransition ::
  "int \<Rightarrow> bool \<Rightarrow> 'a StateManager \<Rightarrow> (error + unit) \<times> 'a StateManager" where
  "setTransition state enable s =
     (case m_screenObject s state of
        None \<Rightarrow> (Inl TypeError, s)
      | Some entry \<Rightarrow>
          (Inr (), s\<lparr>m_screenObject := (m_screenObject s)(state \<mapsto> entry\<lparr>transition := enable\<rparr>)\<rparr>))"

text \<open>
  \<^verbatim>\<open>change\<close>, lines 770-807. \<open>args\<close> are the arguments after \<open>state\<close>, so
  \<^verbatim>\<open>arguments.length > 1\<close> is \<open>args \<noteq> []\<close>. A duration is truthy when it is a Number other
  than zero.
\<close>

definition change ::
  "int \<Rightarrow> 'a list \<Rightarrow> 'a StateManager \<Rightarrow> (error + unit) \<times> 'a StateManager" where
  "change state args s =
     (case m_screenObject s state of
        None \<Rightarrow>
          (Inl (Error (''Undefined ScreenObject for state '' @ [CHR 0x27] @ show_int state @ [CHR 0x27])), s)
      | Some entry \<Rightarrow>
          (if isCurrent state s then (Inr (), s)
           else (let s1 = s\<lparr>m_extraArgs := None\<rparr>;
                     s2 = (if args \<noteq> [] then s1\<lparr>m_extraArgs := Some args\<rparr> else s1)
                 in if (case duration (m_fade s2) of Some d \<Rightarrow> d \<noteq> 0 | None \<Rightarrow> False)
                       \<and> transition entry
                    then (let s3 = s2\<lparr>m_onSwitchComplete := True\<rparr>;
                              s4 = emit [ViewportFadeIn (color (m_fade s3)) (duration (m_fade s3))] s3
                          in (Inr (), s4\<lparr>h_fadeInCallbacks := h_fadeInCallbacks s4 @ [state]\<rparr>))
                    else (Inr (), s2\<lparr>h_deferred := h_deferred s2 @ [state]\<rparr>))))"

text \<open>
  The host's side of the two asynchronous calls: a fade that completes runs its callback,
  which defers the switch; the scheduler runs the oldest deferred call.
\<close>

definition fadeInComplete :: "'a StateManager \<Rightarrow> 'a StateManager" where
  "fadeInComplete s =
     (case h_fadeInCallbacks s of
        [] \<Rightarrow> s
      | state # rest \<Rightarrow> s\<lparr>h_fadeInCallbacks := rest, h_deferred := h_deferred s @ [state]\<rparr>)"

definition runDeferred :: "'a StateManager \<Rightarrow> 'a StateManager" where
  "runDeferred s =
     (case h_deferred s of
        [] \<Rightarrow> s
      | state # rest \<Rightarrow> switchState state (s\<lparr>h_deferred := rest\<rparr>))"

text \<open>
  Everything that can happen to the module: a call of an exported function, an assignment
  to one of the four exported callbacks, or a step of the host. \<open>exec\<close> keeps the state a
  call leaves, whether it returned or threw; \<open>run\<close> is a sequence of them.
\<close>

datatype 'a call =
    Init nat
  | Stop bool real
  | Pause bool real
  | Restart bool real
  | Resume bool real
  | Set int host_value
  | Transition string string "real option"
  | SetTransition int bool
  | Change int "'a list"
  | AssignCallback lifecycle "nat option"
  | RenderFrame real
  | FadeInComplete
  | RunDeferred

fun exec :: "'a call \<Rightarrow> 'a StateManager \<Rightarrow> 'a StateManager" where
  "exec (Init n) s = snd (init n s)"
| "exec (Stop music now) s = stop music now s"
| "exec (Pause music now) s = pause music now s"
| "exec (Restart music now) s = restart music now s"
| "exec (Resume music now) s = resume music now s"
| "exec (Set state so) s = snd (set_so state so s)"
| "exec (Transition effect c d) s = transition_fn effect c d s"
| "exec (SetTransition state enable) s = snd (setTransition state enable s)"
| "exec (Change state args) s = snd (change state args s)"
| "exec (AssignCallback STATE_STOP f) s = s\<lparr>onStop := f\<rparr>"
| "exec (AssignCallback STATE_PAUSE f) s = s\<lparr>onPause := f\<rparr>"
| "exec (AssignCallback STATE_RESTART f) s = s\<lparr>onRestart := f\<rparr>"
| "exec (AssignCallback STATE_RESUME f) s = s\<lparr>onResume := f\<rparr>"
| "exec (RenderFrame time) s = renderFrame time s"
| "exec FadeInComplete s = fadeInComplete s"
| "exec RunDeferred s = runDeferred s"

fun run :: "'a call list \<Rightarrow> 'a StateManager \<Rightarrow> 'a StateManager" where
  "run [] s = s"
| "run (c # cs) s = run cs (exec c s)"

text \<open>
  The calls that register a screen under \<open>state\<close>: a \<^verbatim>\<open>set\<close> that does not throw,
  directly or through \<^verbatim>\<open>init\<close>.
\<close>

fun registers :: "int \<Rightarrow> 'a call \<Rightarrow> bool" where
  "registers state (Set state' (ScreenObject n)) = (state' = state)"
| "registers state (Init n) = (state = LOADING)"
| "registers state c = False"

section \<open>Notions the statements use\<close>

text \<open>
  The union of the bounding boxes of a non-empty shape list, seeded from its first shape
  and extended by one shape after the other, and the statement that the body's own
  rectangle is that union (nothing is said of a body without shapes).
\<close>

definition shapes_union :: "'s shape_ops \<Rightarrow> 's \<Rightarrow> 's list \<Rightarrow> Rect" where
  "shapes_union ops s0 rest =
     foldl (\<lambda>r s. union_rect (getBounds ops s) r) (getBounds ops s0) rest"

definition bounds_cached :: "'s shape_ops \<Rightarrow> 's Body \<Rightarrow> bool" where
  "bounds_cached ops this =
     (case shapes this of
        [] \<Rightarrow> True
      | s0 # rest \<Rightarrow> Rect.truncate this = shapes_union ops s0 rest)"

text \<open>
  What \<^verbatim>\<open>applyFriction\<close> does to the velocity \<open>v\<close> on one axis, \<open>d\<close> being the friction on
  the axis times the tick as the source computes it, and what one \<^verbatim>\<open>update\<close> does to it
  when gravity does not act on the axis, \<open>m\<close> being the maximal velocity on the axis.
\<close>

definition friction_step64 :: "float64 \<Rightarrow> float64 \<Rightarrow> float64" where
  "friction_step64 d v =
     (let n = add64 v d;
          p = sub64 v d
      in if lt64 n (Finite 0) then n else if gt64 p (Finite 0) then p else Finite 0)"

definition axis_step64 :: "float64 \<Rightarrow> float64 \<Rightarrow> float64 \<Rightarrow> float64" where
  "axis_step64 d m v =
     (let v1 = friction_step64 d v
      in if v1 \<noteq> Finite 0 then clamp64 v1 (neg64 m) m else v1)"

text \<open>
  \<open>is64 x\<close>: the real number \<open>x\<close> is a finite binary64 value, one that rounding returns
  as it is. \<open>spacing x\<close> is the distance between neighbouring binary64 values at \<open>x\<close>
  (\<open>2^(e - 52)\<close> for \<open>\<bar>x\<bar>\<close> in \<open>[2^e, 2^(e+1))\<close>, and \<open>2^(-1074)\<close> below \<open>2^(-1022)\<close>);
  \<open>MIN_VALUE\<close> is the least positive binary64 value.
\<close>

definition is64 :: "real \<Rightarrow> bool" where
  "is64 x = (rnd x = Finite x)"

definition spacing :: "real \<Rightarrow> real" where
  "spacing x = 2 powi (expo x - 52)"

definition MIN_VALUE :: real where
  "MIN_VALUE = 2 powi (- 1074)"

text \<open>The test of \<^verbatim>\<open>change\<close> for the fading branch, line 787.\<close>

definition fading :: "'a StateManager \<Rightarrow> ScreenEntry \<Rightarrow> bool" where
  "fading s entry =
     ((case duration (m_fade s) of Some d \<Rightarrow> d \<noteq> 0 | None \<Rightarrow> False) \<and> transition entry)"

section \<open>Concrete inputs\<close>

text \<open>
  Shapes that are their own bounding boxes, an engine with a tick of one frame, a body
  attached to a 32 by 32 parent, two overlapping boxes, and a state manager with a loading
  and a play screen, before and after the switch to the play screen.
\<close>

definition example_ops :: "Rect shape_ops" where
  "example_ops =
     \<lparr>getBounds = (\<lambda>r. r), clone = (\<lambda>r. r), instanceofRect = (\<lambda>r. False), toPolygon = (\<lambda>r. r),
      Polygon_new = (\<lambda>x y points.
        \<lparr>pos = \<lparr>vx = x + Min (set (map vx points)), vy = y + Min (set (map vy points))\<rparr>,
         width = Max (set (map vx points)) - Min (set (map vx points)),
         height = Max (set (map vy points)) - Min (set (map vy points))\<rparr>),
      Ellipse_new = (\<lambda>x y w h. \<lparr>pos = \<lparr>vx = x - w / 2, vy = y - h / 2\<rparr>, width = w, height = h\<rparr>)\<rparr>"

definition example_engine :: engine where
  "example_engine = \<lparr>tick = 1, sys_gravity = None, ALL_OBJECT = 4294967295, ENEMY_OBJECT = 4\<rparr>"

definition example_body :: "Rect Body" where
  "example_body =
     Body_new example_engine example_ops
       \<lparr>pos = \<lparr>vx = 100, vy = 50\<rparr>, width = 32, height = 32\<rparr> None (Some 0)"

text \<open>
  A body without gravity, sliding to the right at 5 and up at 2 per frame against a
  friction of 2 and 1; the same body moving at 1 against a friction of \<open>-2\<close>, as after
  \<^verbatim>\<open>setFriction(-2, 0)\<close>; and moving at 1000 against a friction of \<open>2^(-46)\<close>. A timer
  whose tick is always 1, and one whose tick alternates between 1 and one half.
\<close>

definition example_sliding64 :: Body64 where
  "example_sliding64 =
     \<lparr>ancestor64 = Some \<lparr>x64 = Finite 100, y64 = Finite 50\<rparr>,
      vel64 = \<lparr>x64 = Finite 5, y64 = Finite (- 2)\<rparr>,
      accel64 = \<lparr>x64 = Finite 0, y64 = Finite 0\<rparr>,
      friction64 = \<lparr>x64 = Finite 2, y64 = Finite 1\<rparr>,
      maxVel64 = \<lparr>x64 = Finite 1000, y64 = Finite 1000\<rparr>,
      gravity64 = Finite 0, falling64 = False, jumping64 = False\<rparr>"

definition example_slipping64 :: Body64 where
  "example_slipping64 =
     example_sliding64\<lparr>vel64 := \<lparr>x64 = Finite 1, y64 = Finite 0\<rparr>,
                       friction64 := \<lparr>x64 = Finite (- 2), y64 = Finite 0\<rparr>\<rparr>"

definition example_absorbed64 :: Body64 where
  "example_absorbed64 =
     example_sliding64\<lparr>vel64 := \<lparr>x64 = Finite 1000, y64 = Finite 0\<rparr>,
                       friction64 := \<lparr>x64 = Finite (1 / 2 ^ 46), y64 = Finite 0\<rparr>\<rparr>"

definition steady_ticks :: "nat \<Rightarrow> real" where
  "steady_ticks i = 1"

definition uneven_ticks :: "nat \<Rightarrow> real" where
  "uneven_ticks i = (if even i then 1 else 1 / 2)"

definition boxA :: Rect where
  "boxA = \<lparr>pos = \<lparr>vx = 0, vy = 0\<rparr>, width = 10, height = 10\<rparr>"

definition boxB :: Rect where
  "boxB = \<lparr>pos = \<lparr>vx = 5, vy = - 5\<rparr>, width = 10, height = 10\<rparr>"

definition example_json :: PhysicsJSON where
  "example_json = PhysicsEditor [''banana'' \<mapsto> [[0, 0, 10, 0, 10, 20], [- 5, 5, 0, 0, 0, 5]]]"

definition example_event :: Event where
  "example_event =
     \<lparr>ev_type = ''wheel'', ev_instanceofPointerEvent = False,
      ev_deltaX = Num 0, ev_wheelDelta = Num 80, ev_wheelDeltaX = Undefined,
      ev_isPrimary = None, ev_button = Num 0, ev_width = 1, ev_height = 1,
      ev_radiusX = None, ev_radiusY = 0\<rparr>"

definition example_host :: input_host where
  "example_host =
     \<lparr>device_PointerEvent = True,
      globalToLocal = (\<lambda>x y. \<lparr>vx = js_or_real x 0, vy = js_or_real y 0\<rparr>),
      localToWorld = (\<lambda>x y. \<lparr>vx = x, vy = y\<rparr>)\<rparr>"

definition example_sm :: "nat StateManager" where
  "example_sm = run [Init 0, Set PLAY (ScreenObject 1)] sm_initial"

definition example_playing :: "nat StateManager" where
  "example_playing = run [Change PLAY [], RunDeferred] example_sm"

text \<open>The same module once a fade of 250 ms has been configured.\<close>

definition example_fading :: "nat StateManager" where
  "example_fading = transition_fn ''fade'' ''#000000'' (Some 250) example_playing"

section \<open>Rectangles and the bounds of a body\<close>

lemma left_union [simp]: "rect_left (union_rect r this) = min (rect_left this) (rect_left r)"
  by (simp add: union_rect_def resize_def rect_left_def Let_def)

lemma top_union [simp]: "rect_top (union_rect r this) = min (rect_top this) (rect_top r)"
  by (simp add: union_rect_def resize_def rect_top_def Let_def)

lemma right_union [simp]: "rect_right (union_rect r this) = max (rect_right this) (rect_right r)"
  by (simp add: union_rect_def resize_def rect_right_def rect_left_def Let_def)

lemma bottom_union [simp]: "rect_bottom (union_rect r this) = max (rect_bottom this) (rect_bottom r)"
  by (simp add: union_rect_def resize_def rect_bottom_def rect_top_def Let_def)

lemma union_more [simp]: "Rect.more (union_rect r this) = Rect.more this"
  by (simp add: union_rect_def resize_def Let_def)

lemma Rect_eqI:
  fixes a b :: Rect
  assumes "rect_left a = rect_left b" "rect_top a = rect_top b"
    "rect_right a = rect_right b" "rect_bottom a = rect_bottom b"
  shows "a = b"
  using assms
  by (cases a, cases b) (auto simp: rect_left_def rect_top_def rect_right_def rect_bottom_def)

lemma truncate_extents [simp]:
  "rect_left (Rect.truncate r) = rect_left r" "rect_top (Rect.truncate r) = rect_top r"
  "rect_right (Rect.truncate r) = rect_right r" "rect_bottom (Rect.truncate r) = rect_bottom r"
  by (simp_all add: Rect.truncate_def rect_left_def rect_top_def rect_right_def rect_bottom_def)

lemma truncate_union: "Rect.truncate (union_rect r this) = union_rect r (Rect.truncate this)"
  by (rule Rect_eqI) simp_all

lemma loop_truncate:
  "Rect.truncate (updateBounds_loop ops rest this) =
     foldl (\<lambda>r s. union_rect (getBounds ops s) r) (Rect.truncate this) rest"
  by (induction rest arbitrary: this) (simp_all add: truncate_union)

lemma union_rect_fields [simp]:
  "shapes (union_rect r this) = shapes this"
  "onBodyUpdate (union_rect r this) = onBodyUpdate this"
  "onBodyUpdate_calls (union_rect r this) = onBodyUpdate_calls this"
  by (simp_all add: union_rect_def resize_def Let_def)

lemma loop_fields [simp]:
  "shapes (updateBounds_loop ops rest this) = shapes this"
  "onBodyUpdate (updateBounds_loop ops rest this) = onBodyUpdate this"
  "onBodyUpdate_calls (updateBounds_loop ops rest this) = onBodyUpdate_calls this"
  by (induction rest arbitrary: this) simp_all

lemma Min_insert_min:
  fixes a b :: "'a::linorder"
  assumes "finite A"
  shows "Min (insert (min a b) A) = Min (insert a (insert b A))"
proof (cases "A = {}")
  case True
  then show ?thesis by simp
next
  case False
  with assms show ?thesis by (simp add: min.assoc)
qed

lemma Max_insert_max:
  fixes a b :: "'a::linorder"
  assumes "finite A"
  shows "Max (insert (max a b) A) = Max (insert a (insert b A))"
proof (cases "A = {}")
  case True
  then show ?thesis by simp
next
  case False
  with assms show ?thesis by (simp add: max.assoc)
qed

lemma foldl_union_Min:
  assumes "\<And>r a. f (union_rect a r) = min (f r) (f a)"
  shows "f (foldl (\<lambda>r s. union_rect (getBounds ops s) r) (r0 :: Rect) rest) =
     Min (insert (f r0) ((\<lambda>s. f (getBounds ops s)) ` set rest))"
proof (induction rest arbitrary: r0)
  case Nil
  then show ?case by simp
next
  case (Cons s rest)
  show ?case
    using Cons [of "union_rect (getBounds ops s) r0"]
    by (simp add: assms Min_insert_min del: Min_insert)
qed

lemma foldl_union_Max:
  assumes "\<And>r a. f (union_rect a r) = max (f r) (f a)"
  shows "f (foldl (\<lambda>r s. union_rect (getBounds ops s) r) (r0 :: Rect) rest) =
     Max (insert (f r0) ((\<lambda>s. f (getBounds ops s)) ` set rest))"
proof (induction rest arbitrary: r0)
  case Nil
  then show ?case by simp
next
  case (Cons s rest)
  show ?case
    using Cons [of "union_rect (getBounds ops s) r0"]
    by (simp add: assms Max_insert_max del: Max_insert)
qed

lemma shapes_union_extents:
  "rect_left (shapes_union ops s0 rest) = Min ((\<lambda>s. rect_left (getBounds ops s)) ` set (s0 # rest))"
  "rect_top (shapes_union ops s0 rest) = Min ((\<lambda>s. rect_top (getBounds ops s)) ` set (s0 # rest))"
  "rect_right (shapes_union ops s0 rest) = Max ((\<lambda>s. rect_right (getBounds ops s)) ` set (s0 # rest))"
  "rect_bottom (shapes_union ops s0 rest) = Max ((\<lambda>s. rect_bottom (getBounds ops s)) ` set (s0 # rest))"
  unfolding shapes_union_def
  by (simp_all add: foldl_union_Min [where f = rect_left] foldl_union_Min [where f = rect_top]
      foldl_union_Max [where f = rect_right] foldl_union_Max [where f = rect_bottom]
      del: Min_insert Max_insert)

lemma shapes_union_perm:
  assumes "mset (s0 # rest) = mset (t0 # others)"
  shows "shapes_union ops s0 rest = shapes_union ops t0 others"
proof -
  have "set (s0 # rest) = set (t0 # others)"
    using assms by (rule mset_eq_setD)
  then show ?thesis
    by (intro Rect_eqI) (simp_all only: shapes_union_extents)
qed

lemma updateBounds_shapes [simp]: "shapes (updateBounds ops this) = shapes this"
  by (simp add: updateBounds_def Let_def resize_def split: list.splits option.splits)

lemma truncate_calls [simp]:
  "Rect.truncate (this\<lparr>onBodyUpdate_calls := c\<rparr>) = Rect.truncate this"
  by (simp add: Rect.truncate_def)

lemma truncate_seed:
  "Rect.truncate (resize (width r) (height r) (this\<lparr>pos := pos r\<rparr>)) = (r :: Rect)"
  by (simp add: resize_def Rect.truncate_def)

lemma updateBounds_nonempty:
  assumes "shapes this = s0 # rest"
  shows "Rect.truncate (updateBounds ops this) = shapes_union ops s0 rest"
  using assms
  by (simp add: updateBounds_def Let_def shapes_union_def loop_truncate truncate_seed
      split: option.splits)

lemma updateBounds_empty:
  assumes "shapes this = []"
  shows "Rect.truncate (updateBounds ops this) = Rect.truncate this"
  using assms by (simp add: updateBounds_def Rect.truncate_def split: option.splits)

lemma updateBounds_cached: "bounds_cached ops (updateBounds ops this)"
  by (cases "shapes this")
     (simp_all add: bounds_cached_def updateBounds_nonempty split: list.splits)

lemma updateBounds_callback:
  "onBodyUpdate_calls (updateBounds ops this) =
     (case onBodyUpdate this of
        None \<Rightarrow> onBodyUpdate_calls this
      | Some f \<Rightarrow> onBodyUpdate_calls this @ [(f, Rect.truncate (updateBounds ops this))])"
  by (simp add: updateBounds_def Let_def resize_def Rect.truncate_def
      split: list.splits option.splits)


lemma updateBounds_extents:
  assumes "shapes this \<noteq> []"
  shows "rect_left (updateBounds ops this) = Min ((\<lambda>s. rect_left (getBounds ops s)) ` set (shapes this))"
    and "rect_top (updateBounds ops this) = Min ((\<lambda>s. rect_top (getBounds ops s)) ` set (shapes this))"
    and "rect_right (updateBounds ops this) = Max ((\<lambda>s. rect_right (getBounds ops s)) ` set (shapes this))"
    and "rect_bottom (updateBounds ops this) = Max ((\<lambda>s. rect_bottom (getBounds ops s)) ` set (shapes this))"
proof -
  obtain s0 rest where sh: "shapes this = s0 # rest"
    using assms by (cases "shapes this") auto
  have eq: "Rect.truncate (updateBounds ops this) = shapes_union ops s0 rest"
    by (rule updateBounds_nonempty [OF sh])
  show "rect_left (updateBounds ops this) = Min ((\<lambda>s. rect_left (getBounds ops s)) ` set (shapes this))"
    using shapes_union_extents(1) [of ops s0 rest] truncate_extents(1) [of "updateBounds ops this"]
    by (simp only: eq sh)
  show "rect_top (updateBounds ops this) = Min ((\<lambda>s. rect_top (getBounds ops s)) ` set (shapes this))"
    using shapes_union_extents(2) [of ops s0 rest] truncate_extents(2) [of "updateBounds ops this"]
    by (simp only: eq sh)
  show "rect_right (updateBounds ops this) = Max ((\<lambda>s. rect_right (getBounds ops s)) ` set (shapes this))"
    using shapes_union_extents(3) [of ops s0 rest] truncate_extents(3) [of "updateBounds ops this"]
    by (simp only: eq sh)
  show "rect_bottom (updateBounds ops this) = Max ((\<lambda>s. rect_bottom (getBounds ops s)) ` set (shapes this))"
    using shapes_union_extents(4) [of ops s0 rest] truncate_extents(4) [of "updateBounds ops this"]
    by (simp only: eq sh)
qed

lemma updateBounds_perm:
  assumes "shapes this \<noteq> []" "mset (shapes that) = mset (shapes this)"
  shows "Rect.truncate (updateBounds ops that) = Rect.truncate (updateBounds ops this)"
proof -
  obtain s0 rest where sh: "shapes this = s0 # rest"
    using assms(1) by (cases "shapes this") auto
  have "shapes that \<noteq> []"
    using assms by (metis mset_zero_iff)
  then obtain t0 others where th: "shapes that = t0 # others"
    by (cases "shapes that") auto
  have "mset (t0 # others) = mset (s0 # rest)"
    using assms(2) by (simp only: sh th)
  then have "shapes_union ops t0 others = shapes_union ops s0 rest"
    by (rule shapes_union_perm)
  then show ?thesis
    by (simp only: updateBounds_nonempty [OF sh] updateBounds_nonempty [OF th])
qed

lemma addShape_snd:
  "snd (addShape ops shape False this) =
     updateBounds ops (this\<lparr>shapes := shapes this @ [if instanceofRect ops shape then toPolygon ops shape else shape]\<rparr>)"
  by (simp add: addShape_def Let_def)

lemma removeShape_snd:
  "snd (removeShape ops so this) =
     updateBounds ops (case so of None \<Rightarrow> this | Some s \<Rightarrow> this\<lparr>shapes := remove1 s (shapes this)\<rparr>)"
  by (simp add: removeShape_def Let_def)

lemma addShapesFromJSON_cached:
  assumes "fst (addShapesFromJSON ops json ident scale0 this) = Inr n"
  shows "bounds_cached ops (snd (addShapesFromJSON ops json ident scale0 this))"
  using assms
  by (auto simp: addShapesFromJSON_def Let_def updateBounds_cached
      split: PhysicsJSON.splits option.splits)

text \<open>
  Claim C1. After \<^verbatim>\<open>updateBounds\<close> the body's own rectangle is the union of the bounding
  boxes of its shapes, seeded from shape 0 (\<open>bounds_cached\<close>, and the equation with
  \<open>shapes_union\<close>): its left and top edges are the least left and top edges of the
  shapes' bounds, its right and bottom edges the greatest. The rectangle is the same for
  every body whose shape list is a permutation of this one, so the order of insertion
  does not matter. Without shapes the rectangle is unchanged. In both cases the callback,
  when there is one, is invoked once, with the body as \<^verbatim>\<open>updateBounds\<close> left it. The same
  holds after \<^verbatim>\<open>addShape\<close> without \<open>batchInsert\<close>, after the constructor with a shape
  list, after \<^verbatim>\<open>addShapesFromJSON\<close> when it returns, after \<^verbatim>\<open>removeShape\<close> and after
  \<^verbatim>\<open>removeShapeAt\<close>, which all end in \<^verbatim>\<open>updateBounds\<close>.
\<close>

theorem updateBounds_union:
  "bounds_cached ops (updateBounds ops this) \<and>
   shapes (updateBounds ops this) = shapes this \<and>
   (\<forall>s0 rest. shapes this = s0 # rest \<longrightarrow>
      Rect.truncate (updateBounds ops this) = shapes_union ops s0 rest) \<and>
   (shapes this \<noteq> [] \<longrightarrow>
      rect_left (updateBounds ops this) = Min ((\<lambda>s. rect_left (getBounds ops s)) ` set (shapes this)) \<and>
      rect_top (updateBounds ops this) = Min ((\<lambda>s. rect_top (getBounds ops s)) ` set (shapes this)) \<and>
      rect_right (updateBounds ops this) = Max ((\<lambda>s. rect_right (getBounds ops s)) ` set (shapes this)) \<and>
      rect_bottom (updateBounds ops this) = Max ((\<lambda>s. rect_bottom (getBounds ops s)) ` set (shapes this))) \<and>
   (\<forall>that. shapes this \<noteq> [] \<longrightarrow> mset (shapes that) = mset (shapes this) \<longrightarrow>
      Rect.truncate (updateBounds ops that) = Rect.truncate (updateBounds ops this)) \<and>
   (shapes this = [] \<longrightarrow> Rect.truncate (updateBounds ops this) = Rect.truncate this) \<and>
   onBodyUpdate_calls (updateBounds ops this) =
     (case onBodyUpdate this of
        None \<Rightarrow> onBodyUpdate_calls this
      | Some f \<Rightarrow> onBodyUpdate_calls this @ [(f, Rect.truncate (updateBounds ops this))]) \<and>
   bounds_cached ops (snd (addShape ops shape False this)) \<and>
   bounds_cached ops (Body_new me ops parent (Some ss) cb) \<and>
   (\<forall>n. fst (addShapesFromJSON ops json ident scale0 this) = Inr n \<longrightarrow>
      bounds_cached ops (snd (addShapesFromJSON ops json ident scale0 this))) \<and>
   bounds_cached ops (snd (removeShape ops so this)) \<and>
   bounds_cached ops (snd (removeShapeAt ops index this))"
proof -
  have "bounds_cached ops (Body_new me ops parent (Some ss) cb)"
    by (simp add: Body_new_def Let_def updateBounds_cached)
  moreover have "bounds_cached ops (snd (addShape ops shape False this))"
    by (simp only: addShape_snd updateBounds_cached)
  moreover have "bounds_cached ops (snd (removeShape ops so this))"
    by (simp only: removeShape_snd updateBounds_cached)
  moreover have "bounds_cached ops (snd (removeShapeAt ops index this))"
    by (simp only: removeShapeAt_def removeShape_snd updateBounds_cached)
  ultimately show ?thesis
    using updateBounds_cached [of ops this] updateBounds_nonempty [of this _ _ ops]
      updateBounds_extents [of this ops] updateBounds_perm [of this _ ops]
      updateBounds_empty [of this ops] updateBounds_callback [of ops this]
      addShapesFromJSON_cached [of ops json ident scale0 this]
    by (simp only: updateBounds_shapes) blast
qed

theorem updateBounds_union_witness:
  "shapes (example_body\<lparr>shapes := [boxA, boxB]\<rparr>) = [boxA, boxB] \<and>
   mset (shapes (example_body\<lparr>shapes := [boxB, boxA]\<rparr>)) =
     mset (shapes (example_body\<lparr>shapes := [boxA, boxB]\<rparr>)) \<and>
   Rect.truncate (updateBounds example_ops (example_body\<lparr>shapes := [boxA, boxB]\<rparr>)) =
     \<lparr>pos = \<lparr>vx = 0, vy = - 5\<rparr>, width = 15, height = 15\<rparr> \<and>
   Rect.truncate (updateBounds example_ops (example_body\<lparr>shapes := [boxB, boxA]\<rparr>)) =
     \<lparr>pos = \<lparr>vx = 0, vy = - 5\<rparr>, width = 15, height = 15\<rparr> \<and>
   shapes example_body = [] \<and>
   Rect.truncate (updateBounds example_ops example_body) =
     \<lparr>pos = \<lparr>vx = 0, vy = 0\<rparr>, width = 32, height = 32\<rparr> \<and>
   onBodyUpdate_calls (updateBounds example_ops example_body) =
     [(0, \<lparr>pos = \<lparr>vx = 0, vy = 0\<rparr>, width = 32, height = 32\<rparr>)] \<and>
   fst (addShapesFromJSON example_ops example_json ''banana'' None example_body) = Inr 2 \<and>
   bounds_cached example_ops
     (snd (addShapesFromJSON example_ops example_json ''banana'' None example_body)) \<and>
   Rect.truncate (snd (addShapesFromJSON example_ops example_json ''banana'' None example_body)) =
     \<lparr>pos = \<lparr>vx = - 5, vy = 0\<rparr>, width = 15, height = 20\<rparr>"
proof -
  let ?ab = "example_body\<lparr>shapes := [boxA, boxB]\<rparr>"
  let ?ba = "example_body\<lparr>shapes := [boxB, boxA]\<rparr>"
  note t = updateBounds_union [of example_ops ?ab]
  note e = updateBounds_union [of example_ops example_body]
  have fl: "shapes example_body = []" "onBodyUpdate example_body = Some 0"
    "onBodyUpdate_calls example_body = []"
    "Rect.truncate example_body = \<lparr>pos = \<lparr>vx = 0, vy = 0\<rparr>, width = 32, height = 32\<rparr>"
    by (simp_all add: example_body_def Body_new_def Rect.truncate_def)
  have sh: "shapes ?ab = [boxA, boxB]" "shapes ?ab \<noteq> []" "mset (shapes ?ba) = mset (shapes ?ab)"
    by simp_all
  have u: "shapes_union example_ops boxA [boxB] = \<lparr>pos = \<lparr>vx = 0, vy = - 5\<rparr>, width = 15, height = 15\<rparr>"
    by (simp add: shapes_union_def example_ops_def union_rect_def resize_def boxA_def boxB_def
        rect_left_def rect_right_def rect_top_def rect_bottom_def Let_def)
  from t sh(1) have r1: "Rect.truncate (updateBounds example_ops ?ab) = shapes_union example_ops boxA [boxB]"
    by blast
  from t sh(2,3) have r2: "Rect.truncate (updateBounds example_ops ?ba) = Rect.truncate (updateBounds example_ops ?ab)"
    by blast
  from e fl(1) have r3: "Rect.truncate (updateBounds example_ops example_body) = Rect.truncate example_body"
    by blast
  from e have r4: "onBodyUpdate_calls (updateBounds example_ops example_body) =
     (case onBodyUpdate example_body of
        None \<Rightarrow> onBodyUpdate_calls example_body
      | Some f \<Rightarrow> onBodyUpdate_calls example_body @ [(f, Rect.truncate (updateBounds example_ops example_body))])"
    by blast
  have j: "addShapesFromJSON example_ops example_json ''banana'' None example_body =
      (Inr 2, updateBounds example_ops
         (example_body\<lparr>shapes := [\<lparr>pos = \<lparr>vx = 0, vy = 0\<rparr>, width = 10, height = 20\<rparr>,
                                  \<lparr>pos = \<lparr>vx = - 5, vy = 0\<rparr>, width = 5, height = 5\<rparr>]\<rparr>))"
    by (simp add: addShapesFromJSON_def example_json_def addShape_def example_ops_def fl Let_def)
  then have j1: "fst (addShapesFromJSON example_ops example_json ''banana'' None example_body) = Inr 2"
    by simp
  with e have j2: "bounds_cached example_ops
     (snd (addShapesFromJSON example_ops example_json ''banana'' None example_body))"
    by blast
  have j3: "Rect.truncate (snd (addShapesFromJSON example_ops example_json ''banana'' None example_body)) =
     \<lparr>pos = \<lparr>vx = - 5, vy = 0\<rparr>, width = 15, height = 20\<rparr>"
    using j2 unfolding j bounds_cached_def
    by (simp add: shapes_union_def example_ops_def union_rect_def resize_def
        rect_left_def rect_right_def rect_top_def rect_bottom_def Let_def)
  show ?thesis
    using sh(1,3) j1 j2 j3 by (simp add: r1 r2 r3 r4 u fl)
qed

section \<open>Collision response, setVelocity and update\<close>

lemma js_or_sgn: "js_or (sgn g) 1 = (if g = 0 then 1 else sgn g)"
  by (simp add: js_or_def sgn_eq_0_iff)

lemma respondToCollision_returns:
  "fst (respondToCollision overlap this) = (case ancestor this of None \<Rightarrow> Inl TypeError | Some a \<Rightarrow> Inr ())"
  by (simp add: respondToCollision_def Let_def split: option.splits)

lemma respondToCollision_horizontal:
  assumes "vy overlap = 0"
  shows "falling (snd (respondToCollision overlap this)) = falling this"
    and "jumping (snd (respondToCollision overlap this)) = jumping this"
  using assms by (simp_all add: respondToCollision_def Let_def split: option.splits)

lemma respondToCollision_gravity:
  "gravity (snd (respondToCollision overlap this)) = gravity this"
  by (simp add: respondToCollision_def Let_def split: option.splits)

lemma respondToCollision_vertical:
  assumes "vy overlap \<noteq> 0" "ancestor this = Some a"
  shows "falling (snd (respondToCollision overlap this)) = (vy overlap \<ge> js_or (sgn (gravity this)) 1)"
    and "jumping (snd (respondToCollision overlap this)) = (vy overlap \<le> - js_or (sgn (gravity this)) 1)"
  using assms by (simp_all add: respondToCollision_def Let_def)

lemma respondToCollision_destroyed:
  assumes "ancestor this = None"
  shows "respondToCollision overlap this = (Inl TypeError, this)"
  using assms by (simp add: respondToCollision_def)

text \<open>
  Claim C5. With an overlap whose vertical component is 0, \<^verbatim>\<open>respondToCollision\<close> leaves
  \<open>falling\<close> and \<open>jumping\<close> as they were. With a vertical component other than 0, on a
  body that has its ancestor, it sets \<open>falling\<close> to \<open>overlap.y \<ge> dir\<close> and \<open>jumping\<close> to
  \<open>overlap.y \<le> -dir\<close>, where \<open>dir\<close> is the sign of the gravity, and 1 when the gravity
  is 0. The call returns exactly on a body that has its ancestor; on a destroyed body
  its first statement throws a TypeError and nothing changes.
\<close>

theorem respondToCollision_flags:
  "(vy overlap = 0 \<longrightarrow>
      falling (snd (respondToCollision overlap this)) = falling this \<and>
      jumping (snd (respondToCollision overlap this)) = jumping this) \<and>
   (vy overlap \<noteq> 0 \<and> ancestor this \<noteq> None \<longrightarrow>
      falling (snd (respondToCollision overlap this)) =
        (vy overlap \<ge> (if gravity this = 0 then 1 else sgn (gravity this))) \<and>
      jumping (snd (respondToCollision overlap this)) =
        (vy overlap \<le> - (if gravity this = 0 then 1 else sgn (gravity this)))) \<and>
   (ancestor this \<noteq> None \<longrightarrow> fst (respondToCollision overlap this) = Inr ()) \<and>
   (ancestor this = None \<longrightarrow> respondToCollision overlap this = (Inl TypeError, this))"
proof (intro conjI impI)
  assume "vy overlap = 0"
  then show "falling (snd (respondToCollision overlap this)) = falling this"
    and "jumping (snd (respondToCollision overlap this)) = jumping this"
    by (rule respondToCollision_horizontal)+
next
  assume h: "vy overlap \<noteq> 0 \<and> ancestor this \<noteq> None"
  then obtain a where a: "ancestor this = Some a"
    by auto
  from h have v: "vy overlap \<noteq> 0"
    by simp
  show "falling (snd (respondToCollision overlap this)) =
        (vy overlap \<ge> (if gravity this = 0 then 1 else sgn (gravity this)))"
    by (simp only: respondToCollision_vertical(1) [OF v a] js_or_sgn)
  show "jumping (snd (respondToCollision overlap this)) =
        (vy overlap \<le> - (if gravity this = 0 then 1 else sgn (gravity this)))"
    by (simp only: respondToCollision_vertical(2) [OF v a] js_or_sgn)
next
  assume "ancestor this \<noteq> None"
  then show "fst (respondToCollision overlap this) = Inr ()"
    by (auto simp: respondToCollision_returns)
next
  assume "ancestor this = None"
  then show "respondToCollision overlap this = (Inl TypeError, this)"
    by (rule respondToCollision_destroyed)
qed

text \<open>
  Claim C6. \<^verbatim>\<open>setVelocity(x, y)\<close> changes two fields of the body and nothing else: the
  acceleration, on each axis only where the argument is not zero, and the maximal
  velocity, which becomes \<open>(x, y)\<close> whatever the arguments are, as \<^verbatim>\<open>setMaxVelocity(x, y)\<close>
  sets it. With both arguments zero the acceleration stays and the maximal velocity
  becomes \<open>(0, 0)\<close>.
\<close>

theorem setVelocity_effect:
  "setVelocity x y this =
     this\<lparr>accel := \<lparr>vx = (if x \<noteq> 0 then x else vx (accel this)),
                    vy = (if y \<noteq> 0 then y else vy (accel this))\<rparr>,
          maxVel := \<lparr>vx = x, vy = y\<rparr>\<rparr> \<and>
   setVelocity x y this =
     setMaxVelocity x y
       (this\<lparr>accel := \<lparr>vx = (if x \<noteq> 0 then x else vx (accel this)),
                      vy = (if y \<noteq> 0 then y else vy (accel this))\<rparr>\<rparr>) \<and>
   maxVel (setVelocity x y this) = maxVel (setMaxVelocity x y this) \<and>
   accel (setVelocity 0 0 this) = accel this \<and>
   maxVel (setVelocity 0 0 this) = \<lparr>vx = 0, vy = 0\<rparr>"
  by (simp add: setVelocity_def setMaxVelocity_def Let_def)

lemma update_tick_only:
  assumes "tick me' = tick me"
  shows "update me' (dt1 :: 'a) this = update me (dt2 :: 'b) this"
  using assms by (simp only: update_def computeVelocity_def applyFriction_def)

text \<open>
  Claim C10. \<^verbatim>\<open>update\<close> does not depend on the argument it is called with: for any two
  arguments, of any types, the returned boolean (or the error) and the resulting body,
  with its velocity and its ancestor's position, are the same. Of the engine's globals
  only the timer tick matters: two engines with the same tick give the same result.
\<close>

theorem update_ignores_dt:
  "update me (dt1 :: 'a) this = update me (dt2 :: 'b) this \<and>
   (tick me' = tick me \<longrightarrow> update me' (dt1 :: 'a) this = update me (dt2 :: 'b) this)"
  using update_tick_only [of me' me dt1 this dt2] update_tick_only [of me me dt1 this dt2]
  by simp

lemma example_body_fields:
  "ancestor example_body = Some \<lparr>pos = \<lparr>vx = 100, vy = 50\<rparr>, width = 32, height = 32\<rparr>"
  "gravity example_body = 98 / 100" "falling example_body = False" "jumping example_body = False"
  "vel example_body = \<lparr>vx = 0, vy = 0\<rparr>" "accel example_body = \<lparr>vx = 0, vy = 0\<rparr>"
  "friction example_body = \<lparr>vx = 0, vy = 0\<rparr>" "maxVel example_body = \<lparr>vx = 1000, vy = 1000\<rparr>"
  "bounce example_body = 0"
  by (simp_all add: example_body_def Body_new_def example_engine_def)

theorem respondToCollision_flags_witness:
  "ancestor example_body \<noteq> None \<and>
   fst (respondToCollision \<lparr>vx = 0, vy = 3\<rparr> example_body) = Inr () \<and>
   falling (snd (respondToCollision \<lparr>vx = 0, vy = 3\<rparr> example_body)) = True \<and>
   jumping (snd (respondToCollision \<lparr>vx = 0, vy = 3\<rparr> example_body)) = False \<and>
   falling (snd (respondToCollision \<lparr>vx = 2, vy = 0\<rparr> (example_body\<lparr>falling := True\<rparr>))) = True \<and>
   jumping (snd (respondToCollision \<lparr>vx = 2, vy = 0\<rparr> (example_body\<lparr>falling := True\<rparr>))) = False \<and>
   ancestor (destroy example_body) = None \<and>
   respondToCollision \<lparr>vx = 0, vy = 3\<rparr> (destroy example_body) = (Inl TypeError, destroy example_body)"
proof -
  have h1: "ancestor example_body \<noteq> None"
    by (simp add: example_body_fields)
  have h2: "ancestor (destroy example_body) = None"
    by (simp add: destroy_def)
  show ?thesis
    using h1 h2 respondToCollision_flags [of "\<lparr>vx = 0, vy = 3\<rparr>" example_body]
      respondToCollision_flags [of "\<lparr>vx = 2, vy = 0\<rparr>" "example_body\<lparr>falling := True\<rparr>"]
      respondToCollision_flags [of "\<lparr>vx = 0, vy = 3\<rparr>" "destroy example_body"]
    by (simp add: example_body_fields)
qed

theorem setVelocity_effect_witness:
  "accel (setVelocity 0 3 (example_body\<lparr>accel := \<lparr>vx = 7, vy = 8\<rparr>\<rparr>)) = \<lparr>vx = 7, vy = 3\<rparr> \<and>
   maxVel (setVelocity 0 3 (example_body\<lparr>accel := \<lparr>vx = 7, vy = 8\<rparr>\<rparr>)) = \<lparr>vx = 0, vy = 3\<rparr>"
  using setVelocity_effect [of 0 3 "example_body\<lparr>accel := \<lparr>vx = 7, vy = 8\<rparr>\<rparr>"]
  by simp

theorem update_ignores_dt_witness:
  "update example_engine (16 :: real) example_body = update example_engine (1000 :: nat) example_body \<and>
   tick (example_engine\<lparr>sys_gravity := Some 5\<rparr>) = tick example_engine \<and>
   update (example_engine\<lparr>sys_gravity := Some 5\<rparr>) (16 :: real) example_body =
     update example_engine (1000 :: nat) example_body \<and>
   vel (snd (update example_engine (16 :: real) example_body)) = \<lparr>vx = 0, vy = 98 / 100\<rparr> \<and>
   fst (update example_engine (16 :: real) example_body) = Inr True"
proof -
  have "vel (snd (update example_engine (16 :: real) example_body)) = \<lparr>vx = 0, vy = 98 / 100\<rparr>"
    "fst (update example_engine (16 :: real) example_body) = Inr True"
    by (simp_all add: update_def computeVelocity_def Let_def example_body_fields example_engine_def
        clamp_def)
  then show ?thesis
    using update_ignores_dt [of example_engine "16 :: real" example_body "1000 :: nat"
        "example_engine\<lparr>sys_gravity := Some 5\<rparr>"]
    by simp
qed

section \<open>The state manager: registry and deferred switch\<close>

lemma emit_fields [simp]:
  "m_screenObject (emit es s) = m_screenObject s"
  "m_state (emit es s) = m_state s"
  "m_animFrameId (emit es s) = m_animFrameId s"
  "m_fade (emit es s) = m_fade s"
  "m_onSwitchComplete (emit es s) = m_onSwitchComplete s"
  "m_extraArgs (emit es s) = m_extraArgs s"
  "h_nextFrameId (emit es s) = h_nextFrameId s"
  "h_deferred (emit es s) = h_deferred s"
  "h_fadeInCallbacks (emit es s) = h_fadeInCallbacks s"
  "h_trace (emit es s) = h_trace s @ es"
  "onStop (emit es s) = onStop s"
  "onPause (emit es s) = onPause s"
  "onRestart (emit es s) = onRestart s"
  "onResume (emit es s) = onResume s"
  by (simp_all add: emit_def)

lemma startRunLoop_registry [simp]: "m_screenObject (startRunLoop s) = m_screenObject s"
  by (simp add: startRunLoop_def Let_def)

lemma stopRunLoop_registry [simp]: "m_screenObject (stopRunLoop s) = m_screenObject s"
  by (simp add: stopRunLoop_def)

lemma resumeRunLoop_registry [simp]: "m_screenObject (resumeRunLoop s) = m_screenObject s"
  by (simp add: resumeRunLoop_def)

lemma pauseRunLoop_registry [simp]: "m_screenObject (pauseRunLoop s) = m_screenObject s"
  by (simp add: pauseRunLoop_def)

lemma renderFrame_registry [simp]: "m_screenObject (renderFrame t s) = m_screenObject s"
  by (simp add: renderFrame_def Let_def)

lemma switchState_registry [simp]: "m_screenObject (switchState state s) = m_screenObject s"
  by (simp add: switchState_def Let_def split: option.splits)

lemma stop_registry [simp]: "m_screenObject (stop music now s) = m_screenObject s"
  by (simp add: stop_def Let_def split: option.splits)

lemma pause_registry [simp]: "m_screenObject (pause music now s) = m_screenObject s"
  by (simp add: pause_def Let_def split: option.splits)

lemma restart_registry [simp]: "m_screenObject (restart music now s) = m_screenObject s"
  by (simp add: restart_def Let_def split: option.splits)

lemma resume_registry [simp]: "m_screenObject (resume music now s) = m_screenObject s"
  by (simp add: resume_def Let_def split: option.splits)

lemma transition_fn_registry [simp]: "m_screenObject (transition_fn e c d s) = m_screenObject s"
  by (simp add: transition_fn_def)

lemma change_registry [simp]: "m_screenObject (snd (change state args s)) = m_screenObject s"
  by (simp add: change_def Let_def split: option.splits)

lemma fadeInComplete_registry [simp]: "m_screenObject (fadeInComplete s) = m_screenObject s"
  by (simp add: fadeInComplete_def split: list.splits)

lemma runDeferred_registry [simp]: "m_screenObject (runDeferred s) = m_screenObject s"
  by (simp add: runDeferred_def split: list.splits)

lemma set_so_registry:
  fixes s :: "'a StateManager"
  shows "(m_screenObject (snd (set_so state so s)) X = None) =
     (m_screenObject s X = None \<and> \<not> registers X (Set state so :: 'a call))"
  by (cases so) (simp_all add: set_so_def)

lemma setTransition_registry:
  "(m_screenObject (snd (setTransition state enable s)) X = None) = (m_screenObject s X = None)"
  by (simp add: setTransition_def split: option.splits)

lemma exec_registry:
  "(m_screenObject (exec c s) X = None) = (m_screenObject s X = None \<and> \<not> registers X c)"
proof (cases c)
  case (Init n)
  then show ?thesis by (auto simp: init_def set_so_registry)
next
  case (Set state so)
  then show ?thesis by (simp add: set_so_registry)
next
  case (SetTransition state enable)
  then show ?thesis by (simp add: setTransition_registry)
next
  case (AssignCallback l f)
  then show ?thesis by (cases l) simp_all
qed simp_all

lemma run_registry:
  "(m_screenObject (run cs s) X = None) =
     (m_screenObject s X = None \<and> (\<forall>c\<in>set cs. \<not> registers X c))"
  by (induction cs arbitrary: s) (auto simp: exec_registry)

lemma change_unregistered:
  assumes "m_screenObject s X = None"
  shows "change X args s =
    (Inl (Error (''Undefined ScreenObject for state '' @ [CHR 0x27] @ show_int X @ [CHR 0x27])), s)"
  using assms by (simp add: change_def)

lemma change_registered_returns:
  assumes "m_screenObject s X \<noteq> None"
  shows "fst (change X args s) = Inr ()"
  using assms by (auto simp: change_def Let_def)

lemma change_current:
  assumes "m_screenObject s X \<noteq> None" "X = m_state s"
  shows "change X args s = (Inr (), s)"
  using assms by (auto simp: change_def isCurrent_def)

lemma show_int_neg1: "show_int (- 1) = ''-1''"
  by (simp add: show_int_def digit_char_def)

lemma show_int_3: "show_int 3 = ''3''"
  by (simp add: show_int_def digit_char_def)

lemma show_int_103: "show_int 103 = ''103''"
  by (simp add: show_int_def digit_char_def)


lemma change_switch:
  assumes "m_screenObject s X = Some entry" "X \<noteq> m_state s"
  shows "change X args s =
     (Inr (),
      (if fading s entry
       then (emit [ViewportFadeIn (color (m_fade s)) (duration (m_fade s))]
               (s\<lparr>m_extraArgs := (if args \<noteq> [] then Some args else None),
                  m_onSwitchComplete := True\<rparr>))
              \<lparr>h_fadeInCallbacks := h_fadeInCallbacks s @ [X]\<rparr>
       else s\<lparr>m_extraArgs := (if args \<noteq> [] then Some args else None),
              h_deferred := h_deferred s @ [X]\<rparr>))"
  using assms by (simp add: change_def isCurrent_def fading_def Let_def)

lemma startRunLoop_after_stop:
  assumes "m_animFrameId s = - 1"
  shows "h_trace (startRunLoop s) =
           h_trace s @ (if m_state s \<noteq> - 1 then [TimerReset, RequestAnimationFrame (h_nextFrameId s)] else [])"
    and "m_state (startRunLoop s) = m_state s"
    and "m_onSwitchComplete (startRunLoop s) = m_onSwitchComplete s"
    and "m_fade (startRunLoop s) = m_fade s"
  using assms by (simp_all add: startRunLoop_def Let_def)

lemma switchState_registered:
  assumes "m_screenObject t X = Some new"
  shows "m_state (switchState X t) = X"
    and "h_trace (switchState X t) =
       h_trace t @ [CancelAnimationFrame (m_animFrameId t)]
       @ (case m_screenObject t (m_state t) of Some old \<Rightarrow> [ScreenDestroy (screen old)] | None \<Rightarrow> [])
       @ [ScreenReset (screen new) (case m_extraArgs t of None \<Rightarrow> [] | Some as \<Rightarrow> as)]
       @ (if X \<noteq> - 1 then [TimerReset, RequestAnimationFrame (h_nextFrameId t)] else [])
       @ (if m_onSwitchComplete t
          then [ViewportFadeOut (color (m_fade t)) (duration (m_fade t))] else [])
       @ [GameRepaint]"
  using assms
  by (auto simp: switchState_def Let_def stopRunLoop_def startRunLoop_def emit_def
      split: option.splits)

lemma runDeferred_head:
  assumes "h_deferred t = X # rest"
  shows "runDeferred t = switchState X (t\<lparr>h_deferred := rest\<rparr>)"
  using assms by (simp add: runDeferred_def)

lemma fadeInComplete_head:
  assumes "h_fadeInCallbacks t = X # rest"
  shows "fadeInComplete t = t\<lparr>h_fadeInCallbacks := rest, h_deferred := h_deferred t @ [X]\<rparr>"
  using assms by (simp add: fadeInComplete_def)

text \<open>
  Claim C3. For a registered state \<open>X\<close> other than the current one, \<^verbatim>\<open>change(X)\<close> returns
  normally with the current state unchanged and no screen destroyed or reset: the trace
  of host calls is unchanged, or extended by the viewport's fade-in alone. The switch is
  only scheduled: \<open>X\<close> is appended to the deferred queue, or to the callbacks of the fade,
  whose completion appends it to the deferred queue. When the scheduler later runs the
  deferred call it is \<^verbatim>\<open>_switchState(X)\<close>, which cancels the frame request, destroys the
  outgoing screen if there is one, makes \<open>X\<close> the current state, resets the new screen
  with the extra arguments, restarts the run loop (the source's guard skips this for the
  state \<open>-1\<close>), runs the switch-complete callback if one is set, and repaints, in this
  order.
\<close>

theorem change_defers_switch:
  assumes "m_screenObject s X = Some entry" and "X \<noteq> m_state s"
  shows "fst (change X args s) = Inr () \<and>
         m_state (snd (change X args s)) = m_state s \<and>
         m_extraArgs (snd (change X args s)) = (if args \<noteq> [] then Some args else None) \<and>
         (if fading s entry
          then h_trace (snd (change X args s)) =
                 h_trace s @ [ViewportFadeIn (color (m_fade s)) (duration (m_fade s))] \<and>
               h_fadeInCallbacks (snd (change X args s)) = h_fadeInCallbacks s @ [X] \<and>
               h_deferred (snd (change X args s)) = h_deferred s
          else h_trace (snd (change X args s)) = h_trace s \<and>
               h_fadeInCallbacks (snd (change X args s)) = h_fadeInCallbacks s \<and>
               h_deferred (snd (change X args s)) = h_deferred s @ [X]) \<and>
         (\<forall>t rest. h_fadeInCallbacks t = X # rest \<longrightarrow>
            fadeInComplete t = t\<lparr>h_fadeInCallbacks := rest, h_deferred := h_deferred t @ [X]\<rparr>) \<and>
         (\<forall>t rest. h_deferred t = X # rest \<longrightarrow>
            runDeferred t = switchState X (t\<lparr>h_deferred := rest\<rparr>)) \<and>
         (\<forall>t :: 'a StateManager. m_screenObject t X = Some entry \<longrightarrow>
            m_state (switchState X t) = X \<and>
            h_trace (switchState X t) =
              h_trace t @ [CancelAnimationFrame (m_animFrameId t)]
              @ (case m_screenObject t (m_state t) of
                   Some old \<Rightarrow> [ScreenDestroy (screen old)] | None \<Rightarrow> [])
              @ [ScreenReset (screen entry) (case m_extraArgs t of None \<Rightarrow> [] | Some as \<Rightarrow> as)]
              @ (if X \<noteq> - 1 then [TimerReset, RequestAnimationFrame (h_nextFrameId t)] else [])
              @ (if m_onSwitchComplete t
                 then [ViewportFadeOut (color (m_fade t)) (duration (m_fade t))] else [])
              @ [GameRepaint])"
proof -
  have "fst (change X args s) = Inr ()"
    and "m_state (snd (change X args s)) = m_state s"
    and "m_extraArgs (snd (change X args s)) = (if args \<noteq> [] then Some args else None)"
    by (simp_all add: change_switch [OF assms] emit_def)
  moreover have "if fading s entry
          then h_trace (snd (change X args s)) =
                 h_trace s @ [ViewportFadeIn (color (m_fade s)) (duration (m_fade s))] \<and>
               h_fadeInCallbacks (snd (change X args s)) = h_fadeInCallbacks s @ [X] \<and>
               h_deferred (snd (change X args s)) = h_deferred s
          else h_trace (snd (change X args s)) = h_trace s \<and>
               h_fadeInCallbacks (snd (change X args s)) = h_fadeInCallbacks s \<and>
               h_deferred (snd (change X args s)) = h_deferred s @ [X]"
    by (simp add: change_switch [OF assms] emit_def)
  ultimately show ?thesis
    using switchState_registered runDeferred_head fadeInComplete_head by blast
qed

lemma example_sm_eq:
  "example_sm = sm_initial\<lparr>m_screenObject :=
      [LOADING \<mapsto> \<lparr>screen = 0, transition = True\<rparr>, PLAY \<mapsto> \<lparr>screen = 1, transition = True\<rparr>]\<rparr>"
  by (simp add: example_sm_def init_def set_so_def sm_initial_def)

lemma example_playing_eq:
  "example_playing = switchState PLAY (example_sm\<lparr>m_extraArgs := None, h_deferred := []\<rparr>)"
proof -
  have h1: "m_screenObject example_sm PLAY = Some \<lparr>screen = 1, transition = True\<rparr>"
    by (simp add: example_sm_eq)
  have h2: "PLAY \<noteq> m_state example_sm"
    by (simp add: example_sm_eq sm_initial_def PLAY_def)
  have nf: "\<not> fading example_sm \<lparr>screen = 1, transition = True\<rparr>"
    by (simp add: fading_def example_sm_eq sm_initial_def)
  have d: "h_deferred example_sm = []"
    by (simp add: example_sm_eq sm_initial_def)
  show ?thesis
    using nf by (simp add: example_playing_def change_switch [OF h1 h2] runDeferred_def d)
qed

lemma example_playing_fields:
  "m_state example_playing = PLAY"
  "m_screenObject example_playing = m_screenObject example_sm"
proof -
  have reg: "m_screenObject (example_sm\<lparr>m_extraArgs := None, h_deferred := []\<rparr>) PLAY = Some \<lparr>screen = 1, transition = True\<rparr>"
    by (simp add: example_sm_eq)
  show "m_state example_playing = PLAY"
    by (simp only: example_playing_eq switchState_registered(1) [OF reg])
  show "m_screenObject example_playing = m_screenObject example_sm"
    by (simp add: example_playing_eq)
qed

lemma example_playing_value:
  "example_playing =
     sm_initial\<lparr>m_state := PLAY, m_animFrameId := 1,
       m_screenObject := [LOADING \<mapsto> \<lparr>screen = 0, transition = True\<rparr>,
                          PLAY \<mapsto> \<lparr>screen = 1, transition = True\<rparr>],
       h_nextFrameId := 2,
       h_trace := [CancelAnimationFrame (- 1), ScreenReset 1 [], TimerReset,
                   RequestAnimationFrame 1, GameRepaint]\<rparr>"
  by (simp add: example_playing_eq example_sm_eq switchState_def stopRunLoop_def startRunLoop_def
      emit_def sm_initial_def Let_def PLAY_def LOADING_def)

lemma example_fading_value:
  "example_fading = example_playing\<lparr>m_fade := \<lparr>color = ''#000000'', duration = Some 250\<rparr>\<rparr>"
  by (simp add: example_fading_def transition_fn_def)

lemma example_fading_switch:
  "h_trace (run [Change LOADING [7], FadeInComplete, RunDeferred] example_fading) =
     h_trace example_fading @
     [ViewportFadeIn ''#000000'' (Some 250), CancelAnimationFrame 1, ScreenDestroy 1,
      ScreenReset 0 [7], TimerReset, RequestAnimationFrame 2,
      ViewportFadeOut ''#000000'' (Some 250), GameRepaint]"
  by (simp add: example_fading_value example_playing_value change_def isCurrent_def
      fadeInComplete_def runDeferred_def switchState_def stopRunLoop_def startRunLoop_def
      emit_def sm_initial_def Let_def PLAY_def LOADING_def)

theorem change_defers_switch_witness:
  "m_screenObject example_sm PLAY = Some \<lparr>screen = 1, transition = True\<rparr> \<and>
   PLAY \<noteq> m_state example_sm \<and>
   fst (change PLAY [] example_sm) = Inr () \<and>
   m_state (snd (change PLAY [] example_sm)) = - 1 \<and>
   h_trace (snd (change PLAY [] example_sm)) = [] \<and>
   h_deferred (snd (change PLAY [] example_sm)) = [PLAY] \<and>
   m_state (runDeferred (snd (change PLAY [] example_sm))) = PLAY \<and>
   h_trace (runDeferred (snd (change PLAY [] example_sm))) =
     [CancelAnimationFrame (- 1), ScreenReset 1 [], TimerReset, RequestAnimationFrame 1, GameRepaint] \<and>
   m_screenObject example_fading LOADING = Some \<lparr>screen = 0, transition = True\<rparr> \<and>
   LOADING \<noteq> m_state example_fading \<and>
   fading example_fading \<lparr>screen = 0, transition = True\<rparr> \<and>
   fst (change LOADING [7] example_fading) = Inr () \<and>
   m_state (snd (change LOADING [7] example_fading)) = PLAY \<and>
   h_trace (snd (change LOADING [7] example_fading)) =
     h_trace example_fading @ [ViewportFadeIn ''#000000'' (Some 250)] \<and>
   h_fadeInCallbacks (snd (change LOADING [7] example_fading)) = [LOADING] \<and>
   h_deferred (snd (change LOADING [7] example_fading)) = [] \<and>
   h_deferred (fadeInComplete (snd (change LOADING [7] example_fading))) = [LOADING] \<and>
   h_trace (run [Change LOADING [7], FadeInComplete, RunDeferred] example_fading) =
     h_trace example_fading @
     [ViewportFadeIn ''#000000'' (Some 250), CancelAnimationFrame 1, ScreenDestroy 1,
      ScreenReset 0 [7], TimerReset, RequestAnimationFrame 2,
      ViewportFadeOut ''#000000'' (Some 250), GameRepaint]"
proof -
  let ?e = "\<lparr>screen = 1, transition = True\<rparr>"
  let ?s' = "snd (change PLAY ([] :: nat list) example_sm)"
  let ?t = "?s'\<lparr>h_deferred := []\<rparr>"
  have flds: "m_state example_sm = - 1" "h_trace example_sm = []" "h_deferred example_sm = []"
    "m_animFrameId example_sm = - 1" "m_onSwitchComplete example_sm = False"
    "h_nextFrameId example_sm = 1" "m_screenObject example_sm (- 1) = None"
    by (simp_all add: example_sm_eq sm_initial_def LOADING_def PLAY_def)
  have h1: "m_screenObject example_sm PLAY = Some ?e"
    by (simp add: example_sm_eq)
  have h2: "PLAY \<noteq> m_state example_sm"
    by (simp add: flds PLAY_def)
  have nf: "\<not> fading example_sm ?e"
    by (simp add: fading_def example_sm_eq sm_initial_def)
  note t = change_defers_switch [OF h1 h2, of "[]"]
  have s': "?s' = example_sm\<lparr>m_extraArgs := None, h_deferred := [PLAY]\<rparr>"
    using nf by (simp add: change_switch [OF h1 h2] flds)
  from t nf have a: "fst (change PLAY [] example_sm) = Inr ()"
    "m_state ?s' = m_state example_sm" "h_trace ?s' = h_trace example_sm"
    "h_deferred ?s' = h_deferred example_sm @ [PLAY]"
    by presburger+
  have "h_deferred ?s' = PLAY # []"
    using a(4) by (simp add: flds)
  with t have run: "runDeferred ?s' = switchState PLAY ?t"
    by blast
  have reg: "m_screenObject ?t PLAY = Some ?e"
    by (simp add: h1)
  from t reg have sw: "m_state (switchState PLAY ?t) = PLAY"
    "h_trace (switchState PLAY ?t) =
              h_trace ?t @ [CancelAnimationFrame (m_animFrameId ?t)]
              @ (case m_screenObject ?t (m_state ?t) of
                   Some old \<Rightarrow> [ScreenDestroy (screen old)] | None \<Rightarrow> [])
              @ [ScreenReset (screen ?e) (case m_extraArgs ?t of None \<Rightarrow> [] | Some as \<Rightarrow> as)]
              @ (if PLAY \<noteq> - 1 then [TimerReset, RequestAnimationFrame (h_nextFrameId ?t)] else [])
              @ (if m_onSwitchComplete ?t
                 then [ViewportFadeOut (color (m_fade ?t)) (duration (m_fade ?t))] else [])
              @ [GameRepaint]"
    by blast+
  have sw2: "h_trace (switchState PLAY ?t) =
     [CancelAnimationFrame (- 1), ScreenReset 1 [], TimerReset, RequestAnimationFrame 1, GameRepaint]"
    using sw(2) h2 by (simp add: s' flds)
  let ?l = "\<lparr>screen = 0, transition = True\<rparr>"
  let ?f' = "snd (change LOADING [7 :: nat] example_fading)"
  have fl: "m_state example_fading = PLAY" "h_deferred example_fading = []"
    "h_fadeInCallbacks example_fading = []"
    by (simp_all add: example_fading_value example_playing_value sm_initial_def)
  have g1: "m_screenObject example_fading LOADING = Some ?l"
    by (simp add: example_fading_value example_playing_value LOADING_def PLAY_def)
  have g2: "LOADING \<noteq> m_state example_fading"
    by (simp add: fl LOADING_def PLAY_def)
  have g3: "fading example_fading ?l"
    by (simp add: fading_def example_fading_value)
  note u = change_defers_switch [OF g1 g2, of "[7]"]
  from u g3 have b: "fst (change LOADING [7] example_fading) = Inr ()"
    "m_state ?f' = m_state example_fading"
    "h_trace ?f' = h_trace example_fading @
       [ViewportFadeIn (color (m_fade example_fading)) (duration (m_fade example_fading))]"
    "h_fadeInCallbacks ?f' = h_fadeInCallbacks example_fading @ [LOADING]"
    "h_deferred ?f' = h_deferred example_fading"
    by presburger+
  have "h_fadeInCallbacks ?f' = LOADING # []"
    using b(4) by (simp add: fl)
  with u have "fadeInComplete ?f' = ?f'\<lparr>h_fadeInCallbacks := [], h_deferred := h_deferred ?f' @ [LOADING]\<rparr>"
    by blast
  then have c: "h_deferred (fadeInComplete ?f') = [LOADING]"
    by (simp add: b(5) fl)
  have d: "color (m_fade example_fading) = ''#000000''" "duration (m_fade example_fading) = Some 250"
    by (simp_all add: example_fading_value)
  show ?thesis
    using h1 h2 a run sw(1) sw2 g1 g2 g3 b c example_fading_switch
    by (simp add: flds fl d del: run.simps)
qed

section \<open>Friction\<close>

subsection \<open>Rounding\<close>

lemma rte_bounds: "\<lfloor>x\<rfloor> \<le> round_ties_even x" "round_ties_even x \<le> \<lfloor>x\<rfloor> + 1"
  by (simp_all add: round_ties_even_def Let_def)

lemma rte_mono:
  assumes "x \<le> y"
  shows "round_ties_even x \<le> round_ties_even y"
proof (cases "\<lfloor>x\<rfloor> = \<lfloor>y\<rfloor>")
  case True
  with assms show ?thesis
    by (auto simp: round_ties_even_def Let_def)
next
  case False
  with assms have "\<lfloor>x\<rfloor> < \<lfloor>y\<rfloor>"
    using floor_mono [of x y] by linarith
  with rte_bounds(2) [of x] rte_bounds(1) [of y] show ?thesis
    by linarith
qed

lemma rte_int [simp]: "round_ties_even (of_int n) = n"
  by (simp add: round_ties_even_def)

lemma rte_neg: "round_ties_even (- x) = - round_ties_even x"
proof (cases "x \<in> \<int>")
  case True
  then obtain n where "x = of_int n"
    by (auto elim: Ints_cases)
  then have "- x = of_int (- n)" by simp
  then show ?thesis
    unfolding \<open>x = of_int n\<close> by (simp only: rte_int)
next
  case False
  then have ne: "x \<noteq> of_int \<lfloor>x\<rfloor>"
    by (metis Ints_of_int)
  then have fl: "\<lfloor>- x\<rfloor> = - \<lfloor>x\<rfloor> - 1"
    by (simp add: floor_minus ceiling_altdef)
  have lt: "of_int \<lfloor>x\<rfloor> < x"
    using ne of_int_floor_le [of x] by linarith
  show ?thesis
    unfolding round_ties_even_def Let_def fl
    using lt by (auto simp: field_simps)
qed

lemma expo_from_range: "e \<le> expo_from n e a \<and> expo_from n e a \<le> e + int n"
proof (induction n arbitrary: e)
  case 0
  then show ?case by simp
next
  case (Suc n)
  from Suc [of "e + 1"] show ?case by auto
qed

lemma expo_from_upper: "expo_from n e a < e + int n \<Longrightarrow> a < 2 powi (expo_from n e a + 1)"
proof (induction n arbitrary: e)
  case 0
  then show ?case by simp
next
  case (Suc n)
  show ?case
  proof (cases "a < 2 powi (e + 1)")
    case True
    then show ?thesis by simp
  next
    case False
    with Suc.prems have "expo_from n (e + 1) a < (e + 1) + int n" by simp
    from Suc.IH [OF this] False show ?thesis by simp
  qed
qed

lemma expo_from_lower: "e < expo_from n e a \<Longrightarrow> 2 powi (expo_from n e a) \<le> a"
proof (induction n arbitrary: e)
  case 0
  then show ?case by simp
next
  case (Suc n)
  show ?case
  proof (cases "a < 2 powi (e + 1)")
    case True
    with Suc.prems show ?thesis by simp
  next
    case False
    show ?thesis
    proof (cases "e + 1 < expo_from n (e + 1) a")
      case True
      from Suc.IH [OF this] False show ?thesis by simp
    next
      case f: False
      with expo_from_range [of "e + 1" n a] have "expo_from n (e + 1) a = e + 1" by simp
      with False show ?thesis by simp
    qed
  qed
qed

lemma expo_range: "- 1022 \<le> expo x" "expo x \<le> 1023"
  using expo_from_range [of "- 1022" 2045 "\<bar>x\<bar>"] by (simp_all add: expo_def)

lemma expo_upper: "expo x < 1023 \<Longrightarrow> \<bar>x\<bar> < 2 powi (expo x + 1)"
  using expo_from_upper [of 2045 "- 1022" "\<bar>x\<bar>"] by (simp add: expo_def)

lemma expo_lower: "- 1022 < expo x \<Longrightarrow> 2 powi (expo x) \<le> \<bar>x\<bar>"
  using expo_from_lower [of "- 1022" 2045 "\<bar>x\<bar>"] by (simp add: expo_def)

lemma expo_neg [simp]: "expo (- x) = expo x"
  by (simp add: expo_def)

lemma two_powi_mono: "i \<le> j \<Longrightarrow> (2 :: real) powi i \<le> 2 powi j"
  by (rule power_int_increasing) simp_all

lemma expo_mono:
  assumes "\<bar>x\<bar> \<le> \<bar>y\<bar>"
  shows "expo x \<le> expo y"
proof (rule ccontr)
  assume "\<not> expo x \<le> expo y"
  then have lt: "expo y < expo x" by simp
  with expo_range [of x] expo_range [of y] have "- 1022 < expo x" "expo y < 1023"
    by simp_all
  from expo_lower [OF this(1)] expo_upper [OF this(2)] assms
  have "2 powi (expo x) < (2 :: real) powi (expo y + 1)" by simp
  moreover from lt have "(2 :: real) powi (expo y + 1) \<le> 2 powi (expo x)"
    by (intro two_powi_mono) simp
  ultimately show False by simp
qed

lemma expo_binade:
  assumes "binade e x"
  shows "expo x = e"
proof (rule ccontr)
  assume ne: "expo x \<noteq> e"
  from assms have e: "- 1022 \<le> e" "e \<le> 1023" "2 powi e \<le> \<bar>x\<bar>" "\<bar>x\<bar> < 2 powi (e + 1)"
    by (simp_all add: binade_def)
  show False
  proof (cases "expo x < e")
    case True
    with e(2) have "expo x < 1023" by simp
    from expo_upper [OF this] e(3) have "(2 :: real) powi e < 2 powi (expo x + 1)" by simp
    moreover from True have "(2 :: real) powi (expo x + 1) \<le> 2 powi e"
      by (intro two_powi_mono) simp
    ultimately show False by simp
  next
    case False
    with ne have gt: "e < expo x" by simp
    with e(1) have "- 1022 < expo x" by simp
    from expo_lower [OF this] e(4) have "(2 :: real) powi (expo x) < 2 powi (e + 1)" by simp
    moreover from gt have "(2 :: real) powi (e + 1) \<le> 2 powi (expo x)"
      by (intro two_powi_mono) simp
    ultimately show False by simp
  qed
qed

lemma expo_small:
  assumes "\<bar>x\<bar> < 2 powi (- 1022)"
  shows "expo x = - 1022"
proof (rule ccontr)
  assume "expo x \<noteq> - 1022"
  with expo_range(1) [of x] have gt: "- 1022 < expo x" by simp
  from expo_lower [OF gt] assms have "(2 :: real) powi (expo x) < 2 powi (- 1022)" by simp
  moreover from gt have "(2 :: real) powi (- 1022) \<le> 2 powi (expo x)"
    by (intro two_powi_mono) simp
  ultimately show False by simp
qed

lemma fl_neg: "fl (- x) = - fl x"
  by (simp add: fl_def binary64_def rte_neg)

lemma fl_on_grid:
  assumes "y = of_int j * 2 powi (expo y - 52)"
  shows "fl y = y"
proof -
  have "y / 2 powi (expo y - 52) = of_int j"
    using assms by (metis nonzero_eq_divide_eq power_int_eq_0_iff zero_neq_numeral)
  then show ?thesis
    using assms by (simp add: fl_def binary64_def)
qed

lemma two_powi_diff:
  assumes "i \<le> j"
  shows "(2 :: real) powi j = of_int (2 ^ nat (j - i)) * 2 powi i"
proof -
  have "(2 :: real) powi j = 2 powi ((j - i) + i)" by simp
  also have "\<dots> = 2 powi (j - i) * 2 powi i"
    by (rule power_int_add) simp
  also have "(2 :: real) powi (j - i) = 2 ^ nat (j - i)"
    using assms by (simp add: power_int_def)
  finally show ?thesis by simp
qed

lemma fl_grid:
  assumes k: "\<bar>k\<bar> \<le> 2 ^ 53" and e: "- 1022 \<le> e" "e \<le> 1023"
  shows "fl (of_int k * 2 powi (e - 52)) = of_int k * 2 powi (e - 52)"
proof -
  let ?y = "of_int k * (2 :: real) powi (e - 52)"
  have ay: "\<bar>?y\<bar> = of_int \<bar>k\<bar> * 2 powi (e - 52)"
    by (simp add: abs_mult)
  have top: "(2 :: real) powi (e + 1) = 2 ^ 53 * 2 powi (e - 52)"
    using two_powi_diff [of "e - 52" "e + 1"] by simp
  show ?thesis
  proof (cases "expo ?y \<le> e")
    case True
    have "?y = of_int (k * 2 ^ nat (e - expo ?y)) * 2 powi (expo ?y - 52)"
      using two_powi_diff [of "expo ?y - 52" "e - 52"] True by simp
    then show ?thesis by (rule fl_on_grid)
  next
    case False
    then have gt: "e < expo ?y" by simp
    with e have "- 1022 < expo ?y" by simp
    from expo_lower [OF this] have lo: "2 powi (expo ?y) \<le> \<bar>?y\<bar>" .
    have "\<bar>?y\<bar> \<le> 2 ^ 53 * 2 powi (e - 52)"
      unfolding ay using k by (intro mult_right_mono) (simp_all add: of_int_le_iff [symmetric] del: of_int_le_iff)
    then have hi: "\<bar>?y\<bar> \<le> 2 powi (e + 1)" by (simp add: top)
    have "(2 :: real) powi (e + 1) \<le> 2 powi (expo ?y)"
      using gt by (intro two_powi_mono) simp
    with lo hi have eq: "\<bar>?y\<bar> = 2 powi (expo ?y)" by simp
    have p: "(2 :: real) powi (expo ?y) = of_int (2 ^ 52) * 2 powi (expo ?y - 52)"
      using two_powi_diff [of "expo ?y - 52" "expo ?y"] by simp
    show ?thesis
    proof (cases "0 \<le> ?y")
      case True
      with eq p have "?y = of_int (2 ^ 52) * 2 powi (expo ?y - 52)" by simp
      then show ?thesis by (rule fl_on_grid)
    next
      case False
      with eq p have "?y = of_int (- (2 ^ 52)) * 2 powi (expo ?y - 52)" by simp
      then show ?thesis by (rule fl_on_grid)
    qed
  qed
qed

lemma fl_zero [simp]: "fl 0 = 0"
  using fl_grid [of 0 0] by simp

lemma fl_two_powi:
  assumes "- 1074 \<le> i" "i \<le> 1024"
  shows "fl (2 powi i) = 2 powi i"
proof (cases "i \<le> 971")
  case True
  with assms fl_grid [of 1 "i + 52"] show ?thesis by simp
next
  case False
  then have "(2 :: real) powi i = of_int (2 ^ nat (i - 971)) * 2 powi (1023 - 52)"
    using two_powi_diff [of 971 i] by simp
  moreover have "\<bar>(2 :: int) ^ nat (i - 971)\<bar> \<le> 2 ^ 53"
    using assms False power_increasing [of "nat (i - 971)" 53 "2 :: int"] by simp
  ultimately show ?thesis
    using fl_grid [of "2 ^ nat (i - 971)" 1023] by simp
qed

lemma fl_mono_nonneg:
  assumes "0 \<le> x" "x \<le> y"
  shows "fl x \<le> fl y"
proof (cases "expo x = expo y")
  case True
  have "x / 2 powi (expo y - 52) \<le> y / 2 powi (expo y - 52)"
    using assms by (simp add: divide_right_mono)
  from rte_mono [OF this] show ?thesis
    by (simp add: fl_def binary64_def True mult_right_mono)
next
  case False
  moreover have "expo x \<le> expo y"
    using assms by (intro expo_mono) simp
  ultimately have lt: "expo x < expo y" by simp
  with expo_range [of x] expo_range [of y] have r: "expo x < 1023" "- 1022 < expo y"
    by simp_all
  have gx: "(0 :: real) < 2 powi (expo x - 52)" and gy: "(0 :: real) < 2 powi (expo y - 52)"
    by simp_all
  have topx: "(2 :: real) powi (expo x + 1) = 2 ^ 53 * 2 powi (expo x - 52)"
    using two_powi_diff [of "expo x - 52" "expo x + 1"] by simp
  have boty: "(2 :: real) powi (expo y) = 2 ^ 52 * 2 powi (expo y - 52)"
    using two_powi_diff [of "expo y - 52" "expo y"] by simp
  have "x \<le> 2 powi (expo x + 1)"
    using expo_upper [OF r(1)] assms by simp
  then have "x \<le> 2 ^ 53 * 2 powi (expo x - 52)"
    unfolding topx .
  then have "x / 2 powi (expo x - 52) \<le> of_int (2 ^ 53)"
    using gx by (simp add: pos_divide_le_eq)
  from rte_mono [OF this] have "round_ties_even (x / 2 powi (expo x - 52)) \<le> 2 ^ 53"
    by (simp only: rte_int)
  then have "real_of_int (round_ties_even (x / 2 powi (expo x - 52))) \<le> 2 ^ 53"
    by (simp add: of_int_le_iff [symmetric] del: of_int_le_iff)
  then have "fl x \<le> 2 ^ 53 * 2 powi (expo x - 52)"
    unfolding fl_def binary64_def using gx by (intro mult_right_mono) simp_all
  then have a: "fl x \<le> 2 powi (expo x + 1)" by (simp add: topx)
  have "2 powi (expo y) \<le> y"
    using expo_lower [OF r(2)] assms by simp
  then have "2 ^ 52 * 2 powi (expo y - 52) \<le> y"
    unfolding boty .
  then have "of_int (2 ^ 52) \<le> y / 2 powi (expo y - 52)"
    using gy by (simp add: pos_le_divide_eq)
  from rte_mono [OF this] have "2 ^ 52 \<le> round_ties_even (y / 2 powi (expo y - 52))"
    by (simp only: rte_int)
  then have "2 ^ 52 \<le> real_of_int (round_ties_even (y / 2 powi (expo y - 52)))"
    by (simp add: of_int_le_iff [symmetric] del: of_int_le_iff)
  then have "2 ^ 52 * 2 powi (expo y - 52) \<le> fl y"
    unfolding fl_def binary64_def using gy by (intro mult_right_mono) simp_all
  then have b: "2 powi (expo y) \<le> fl y" by (simp add: boty)
  have "(2 :: real) powi (expo x + 1) \<le> 2 powi (expo y)"
    using lt by (intro two_powi_mono) simp
  with a b show ?thesis by simp
qed

lemma fl_nonneg: "0 \<le> x \<Longrightarrow> 0 \<le> fl x"
  using fl_mono_nonneg [of 0 x] by simp

lemma fl_nonpos: "x \<le> 0 \<Longrightarrow> fl x \<le> 0"
  using fl_nonneg [of "- x"] by (simp add: fl_neg)

lemma fl_mono:
  assumes "x \<le> y"
  shows "fl x \<le> fl y"
proof (cases "0 \<le> x")
  case True
  from fl_mono_nonneg [OF True assms] show ?thesis .
next
  case False
  show ?thesis
  proof (cases "0 \<le> y")
    case True
    from False have "fl x \<le> 0" by (intro fl_nonpos) simp
    with fl_nonneg [OF True] show ?thesis by simp
  next
    case y: False
    with assms have "0 \<le> - y" "- y \<le> - x" by simp_all
    from fl_mono_nonneg [OF this] show ?thesis by (simp add: fl_neg)
  qed
qed

lemma huge64_powi: "huge64 = 2 powi 1024"
  by (simp add: huge64_def)

lemma huge64_grid: "2 ^ 53 * 2 powi 971 = huge64"
  unfolding huge64_powi using two_powi_diff [of 971 1024] by simp

lemma huge64_pos [simp]: "0 < huge64"
  by (simp add: huge64_def)

lemma rnd_Finite: "rnd x = Finite y \<longleftrightarrow> y = fl x \<and> \<bar>fl x\<bar> < huge64"
  by (auto simp: rnd_def Let_def)

lemma rnd_PosInfinity: "rnd x = PosInfinity \<longleftrightarrow> huge64 \<le> fl x"
  by (auto simp: rnd_def Let_def)

lemma rnd_NegInfinity: "rnd x = NegInfinity \<longleftrightarrow> fl x \<le> - huge64"
  using huge64_pos by (auto simp: rnd_def Let_def simp del: huge64_pos)

lemma rnd_not_nan [simp]: "rnd x \<noteq> NotANumber"
  by (simp add: rnd_def Let_def)

lemma is64_iff: "is64 x \<longleftrightarrow> fl x = x \<and> \<bar>x\<bar> < huge64"
  by (auto simp: is64_def rnd_Finite)

lemma is64_zero [simp]: "is64 0"
  by (simp add: is64_iff)

lemma is64_neg [simp]: "is64 (- x) = is64 x"
  by (auto simp: is64_iff fl_neg)

lemma fl_top: "fl huge64 = huge64"
  unfolding huge64_powi by (rule fl_two_powi) simp_all

lemma fl_index:
  assumes "\<bar>x\<bar> \<le> huge64"
  shows "\<bar>round_ties_even (x / 2 powi (expo x - 52))\<bar> \<le> 2 ^ 53"
proof -
  let ?g = "(2 :: real) powi (expo x - 52)"
  have g: "0 < ?g" by simp
  have "\<bar>x\<bar> \<le> 2 ^ 53 * ?g"
  proof (cases "expo x < 1023")
    case True
    have "(2 :: real) powi (expo x + 1) = 2 ^ 53 * ?g"
      using two_powi_diff [of "expo x - 52" "expo x + 1"] by simp
    with expo_upper [OF True] show ?thesis by simp
  next
    case False
    with expo_range(2) [of x] have "expo x = 1023" by simp
    then have "2 ^ 53 * ?g = huge64"
      using huge64_grid by simp
    with assms show ?thesis by simp
  qed
  then have "\<bar>x\<bar> / ?g \<le> of_int (2 ^ 53)"
    using g by (simp add: pos_divide_le_eq)
  then have "x / ?g \<le> of_int (2 ^ 53)" "of_int (- (2 ^ 53)) \<le> x / ?g"
    using g by (simp_all add: abs_le_iff field_simps)
  from rte_mono [OF this(1)] rte_mono [OF this(2)] show ?thesis
    by (simp only: rte_int abs_le_iff) simp
qed

lemma fl_fl:
  assumes "\<bar>x\<bar> \<le> huge64"
  shows "fl (fl x) = fl x"
  unfolding fl_def [of x] binary64_def
  using fl_grid [OF fl_index [OF assms] expo_range] .

lemma rnd_is64:
  assumes "rnd x = Finite y"
  shows "is64 y"
proof -
  from assms have y: "y = fl x" "\<bar>fl x\<bar> < huge64"
    by (simp_all add: rnd_Finite)
  have "\<bar>x\<bar> \<le> huge64"
  proof (rule ccontr)
    assume "\<not> \<bar>x\<bar> \<le> huge64"
    then consider "huge64 \<le> x" | "x \<le> - huge64" by linarith
    then show False
    proof cases
      case 1
      from fl_mono [OF 1] y(2) show False by (simp add: fl_top)
    next
      case 2
      from fl_mono [OF 2] y(2) show False by (simp add: fl_neg fl_top)
    qed
  qed
  from fl_fl [OF this] y show ?thesis
    by (simp add: is64_iff)
qed

lemma is64_grid:
  assumes "\<bar>k\<bar> < 2 ^ 53" "- 1074 \<le> i" "i \<le> 971"
  shows "is64 (of_int k * 2 powi i)"
proof -
  have "fl (of_int k * 2 powi ((i + 52) - 52)) = of_int k * 2 powi ((i + 52) - 52)"
    using assms by (intro fl_grid) simp_all
  then have a: "fl (of_int k * 2 powi i) = of_int k * 2 powi i" by simp
  have "\<bar>of_int k * (2 :: real) powi i\<bar> = of_int \<bar>k\<bar> * 2 powi i"
    by (simp add: abs_mult)
  also have "\<dots> < 2 ^ 53 * 2 powi i"
    using assms(1) by (intro mult_strict_right_mono) (simp_all add: of_int_less_iff [symmetric] del: of_int_less_iff)
  also have "\<dots> \<le> 2 ^ 53 * 2 powi 971"
    using assms(3) by (intro mult_left_mono two_powi_mono) simp_all
  also have "\<dots> = huge64"
    by (rule huge64_grid)
  finally show ?thesis
    using a by (simp add: is64_iff)
qed

lemma is64_int: "\<bar>k\<bar> < 2 ^ 53 \<Longrightarrow> is64 (of_int k)"
  using is64_grid [of k 0] by simp

lemma MIN_VALUE_pos [simp]: "0 < MIN_VALUE"
  by (simp add: MIN_VALUE_def)

lemma is64_quantum:
  assumes "is64 x"
  shows "\<exists>j. x = of_int j * MIN_VALUE"
proof -
  define k where "k = round_ties_even (x / 2 powi (expo x - 52))"
  define n where "n = nat (expo x - 52 - (- 1074))"
  from assms have "x = of_int k * 2 powi (expo x - 52)"
    by (simp add: is64_iff fl_def binary64_def k_def)
  also have "(2 :: real) powi (expo x - 52) = of_int (2 ^ n) * MIN_VALUE"
    unfolding n_def MIN_VALUE_def using expo_range(1) [of x] by (intro two_powi_diff) simp
  finally have "x = of_int (k * 2 ^ n) * MIN_VALUE"
    by (simp only: of_int_mult mult.assoc)
  then show ?thesis ..
qed

lemma spacing_pos: "0 < spacing x"
  by (simp add: spacing_def)

lemma spacing_min: "MIN_VALUE \<le> spacing x"
  unfolding spacing_def MIN_VALUE_def using expo_range(1) [of x] by (intro two_powi_mono) simp

lemma spacing_mono: "\<bar>x\<bar> \<le> \<bar>y\<bar> \<Longrightarrow> spacing x \<le> spacing y"
  unfolding spacing_def using expo_mono [of x y] by (intro two_powi_mono) simp

lemma fl_spacing: "fl (spacing x) = spacing x"
  unfolding spacing_def using expo_range [of x] by (intro fl_two_powi) simp_all

lemma is64_le: "is64 v \<Longrightarrow> x \<le> v \<Longrightarrow> fl x \<le> v"
  using fl_mono [of x v] by (simp add: is64_iff)

lemma is64_ge: "is64 v \<Longrightarrow> v \<le> x \<Longrightarrow> v \<le> fl x"
  using fl_mono [of v x] by (simp add: is64_iff)

lemma fl_step_down:
  assumes v: "is64 v" "0 < v" and d: "spacing v \<le> d"
  shows "fl (v - d) \<le> v - spacing v"
proof -
  let ?g = "(2 :: real) powi (expo v - 52)"
  let ?k = "round_ties_even (v / ?g)"
  have g: "0 < ?g" by simp
  from v(1) have vk: "v = of_int ?k * ?g" and lt: "\<bar>v\<bar> < huge64"
    by (simp_all add: is64_iff fl_def binary64_def)
  have "0 < real_of_int ?k"
    using v(2) g vk by (metis zero_less_mult_pos2)
  then have k1: "1 \<le> ?k" by simp
  from lt have "\<bar>?k\<bar> \<le> 2 ^ 53"
    by (intro fl_index) simp
  with k1 have k: "\<bar>?k - 1\<bar> \<le> 2 ^ 53" by simp
  have "v - spacing v = of_int (?k - 1) * ?g"
    unfolding spacing_def using vk by (simp add: algebra_simps)
  moreover have "fl (of_int (?k - 1) * ?g) = of_int (?k - 1) * ?g"
    using k expo_range by (rule fl_grid)
  ultimately have "fl (v - spacing v) = v - spacing v" by simp
  moreover have "fl (v - d) \<le> fl (v - spacing v)"
    using d by (intro fl_mono) simp
  ultimately show ?thesis by simp
qed

subsection \<open>One call of update on one axis\<close>

lemma computeVelocity64_snd:
  "snd (computeVelocity64 tk v this) =
     (if truthy64 (gravity64 this)
      then this\<lparr>falling64 := gt64 (mul64 (add64 (y64 v) (mul64 (gravity64 this) tk))
                                   (sign64 (gravity64 this))) (Finite 0),
                jumping64 := (if gt64 (mul64 (add64 (y64 v) (mul64 (gravity64 this) tk))
                                   (sign64 (gravity64 this))) (Finite 0)
                              then False else jumping64 this)\<rparr>
      else this)"
  by (simp add: computeVelocity64_def Let_def split_def)

lemma computeVelocity64_keeps [simp]:
  "friction64 (snd (computeVelocity64 tk v this)) = friction64 this"
  "maxVel64 (snd (computeVelocity64 tk v this)) = maxVel64 this"
  "gravity64 (snd (computeVelocity64 tk v this)) = gravity64 this"
  "accel64 (snd (computeVelocity64 tk v this)) = accel64 this"
  "ancestor64 (snd (computeVelocity64 tk v this)) = ancestor64 this"
  by (simp_all add: computeVelocity64_snd)

lemma update64_snd:
  "snd (update64 tk this) =
     (let this2 = (snd (computeVelocity64 tk (vel64 this) this))
                    \<lparr>vel64 := fst (computeVelocity64 tk (vel64 this) this)\<rparr>
      in case ancestor64 this of
           None \<Rightarrow> this2
         | Some p \<Rightarrow> this2\<lparr>ancestor64 := Some (Vector64_add (vel64 this2) p)\<rparr>)"
  by (simp add: update64_def split_def Let_def split: option.splits)

lemma update64_keeps [simp]:
  "friction64 (snd (update64 tk this)) = friction64 this"
  "maxVel64 (snd (update64 tk this)) = maxVel64 this"
  "gravity64 (snd (update64 tk this)) = gravity64 this"
  "accel64 (snd (update64 tk this)) = accel64 this"
  by (simp_all add: update64_snd Let_def split: option.splits)

lemma update64_vel:
  "vel64 (snd (update64 tk this)) = fst (computeVelocity64 tk (vel64 this) this)"
  by (simp add: update64_snd Let_def split: option.splits)

lemma updates64_keeps [simp]:
  "friction64 (updates64 n ticks this) = friction64 this"
  "maxVel64 (updates64 n ticks this) = maxVel64 this"
  "gravity64 (updates64 n ticks this) = gravity64 this"
  "accel64 (updates64 n ticks this) = accel64 this"
  by (induction n) simp_all

lemma applyFriction64_x:
  "x64 (applyFriction64 tk v this) = friction_step64 (mul64 (x64 (friction64 this)) tk) (x64 v)"
  by (simp add: applyFriction64_def friction_step64_def Let_def)

lemma applyFriction64_y:
  "y64 (applyFriction64 tk v this) = friction_step64 (mul64 (y64 (friction64 this)) tk) (y64 v)"
  by (simp add: applyFriction64_def friction_step64_def Let_def)

lemma applyFriction64_flags [simp]:
  "applyFriction64 tk v (this\<lparr>falling64 := a, jumping64 := b\<rparr>) = applyFriction64 tk v this"
  by (simp add: applyFriction64_def)

lemma computeVelocity64_fst:
  "fst (computeVelocity64 tk v this) =
     (let v1 = (if truthy64 (gravity64 this)
                then v\<lparr>y64 := add64 (y64 v) (mul64 (gravity64 this) tk)\<rparr> else v);
          v2 = (if truthy64 (x64 (friction64 this)) \<or> truthy64 (y64 (friction64 this))
                then applyFriction64 tk v1 this else v1);
          v3 = (if y64 v2 \<noteq> Finite 0
                then v2\<lparr>y64 := clamp64 (y64 v2) (neg64 (y64 (maxVel64 this))) (y64 (maxVel64 this))\<rparr>
                else v2)
      in if x64 v3 \<noteq> Finite 0
         then v3\<lparr>x64 := clamp64 (x64 v3) (neg64 (x64 (maxVel64 this))) (x64 (maxVel64 this))\<rparr>
         else v3)"
proof (cases "truthy64 (gravity64 this)")
  case True
  then show ?thesis
    by (simp add: computeVelocity64_def Let_def split_def)
next
  case False
  then show ?thesis
    by (simp add: computeVelocity64_def Let_def split_def)
qed

lemma computeVelocity64_x:
  assumes "truthy64 (x64 (friction64 this))"
  shows "x64 (fst (computeVelocity64 tk v this)) =
           axis_step64 (mul64 (x64 (friction64 this)) tk) (x64 (maxVel64 this)) (x64 v)"
proof -
  define v1 where "v1 = (if truthy64 (gravity64 this)
                then v\<lparr>y64 := add64 (y64 v) (mul64 (gravity64 this) tk)\<rparr> else v)"
  define v2 where "v2 = applyFriction64 tk v1 this"
  define v3 where "v3 = (if y64 v2 \<noteq> Finite 0
                then v2\<lparr>y64 := clamp64 (y64 v2) (neg64 (y64 (maxVel64 this))) (y64 (maxVel64 this))\<rparr>
                else v2)"
  have "fst (computeVelocity64 tk v this) =
          (if x64 v3 \<noteq> Finite 0
           then v3\<lparr>x64 := clamp64 (x64 v3) (neg64 (x64 (maxVel64 this))) (x64 (maxVel64 this))\<rparr>
           else v3)"
    unfolding computeVelocity64_fst Let_def v3_def v2_def v1_def using assms by simp
  then have a: "x64 (fst (computeVelocity64 tk v this)) =
          (if x64 v3 \<noteq> Finite 0
           then clamp64 (x64 v3) (neg64 (x64 (maxVel64 this))) (x64 (maxVel64 this))
           else x64 v3)"
    by simp
  have x3: "x64 v3 = x64 v2" by (simp add: v3_def)
  have x1: "x64 v1 = x64 v" by (simp add: v1_def)
  have x2: "x64 v2 = friction_step64 (mul64 (x64 (friction64 this)) tk) (x64 v)"
    unfolding v2_def applyFriction64_x x1 ..
  show ?thesis
    unfolding a x3 x2 axis_step64_def Let_def ..
qed

lemma computeVelocity64_y:
  assumes "truthy64 (y64 (friction64 this))" "\<not> truthy64 (gravity64 this)"
  shows "y64 (fst (computeVelocity64 tk v this)) =
           axis_step64 (mul64 (y64 (friction64 this)) tk) (y64 (maxVel64 this)) (y64 v)"
proof -
  define v2 where "v2 = applyFriction64 tk v this"
  define v3 where "v3 = (if y64 v2 \<noteq> Finite 0
                then v2\<lparr>y64 := clamp64 (y64 v2) (neg64 (y64 (maxVel64 this))) (y64 (maxVel64 this))\<rparr>
                else v2)"
  have "fst (computeVelocity64 tk v this) =
          (if x64 v3 \<noteq> Finite 0
           then v3\<lparr>x64 := clamp64 (x64 v3) (neg64 (x64 (maxVel64 this))) (x64 (maxVel64 this))\<rparr>
           else v3)"
    unfolding computeVelocity64_fst Let_def v3_def v2_def using assms by simp
  then have a: "y64 (fst (computeVelocity64 tk v this)) = y64 v3"
    by simp
  have y3: "y64 v3 =
          (if y64 v2 \<noteq> Finite 0
           then clamp64 (y64 v2) (neg64 (y64 (maxVel64 this))) (y64 (maxVel64 this))
           else y64 v2)"
    by (simp add: v3_def)
  have y2: "y64 v2 = friction_step64 (mul64 (y64 (friction64 this)) tk) (y64 v)"
    unfolding v2_def applyFriction64_y ..
  show ?thesis
    unfolding a y3 y2 axis_step64_def Let_def ..
qed

lemma update64_x:
  assumes "truthy64 (x64 (friction64 this))"
  shows "x64 (vel64 (snd (update64 tk this))) =
           axis_step64 (mul64 (x64 (friction64 this)) tk) (x64 (maxVel64 this)) (x64 (vel64 this))"
  by (simp add: update64_vel computeVelocity64_x [OF assms])

lemma update64_y:
  assumes "truthy64 (y64 (friction64 this))" "\<not> truthy64 (gravity64 this)"
  shows "y64 (vel64 (snd (update64 tk this))) =
           axis_step64 (mul64 (y64 (friction64 this)) tk) (y64 (maxVel64 this)) (y64 (vel64 this))"
  by (simp add: update64_vel computeVelocity64_y [OF assms])

lemma rnd_sign:
  "rnd x = Finite y \<Longrightarrow> y = fl x"
  "rnd x = PosInfinity \<Longrightarrow> 0 < fl x"
  "rnd x = NegInfinity \<Longrightarrow> fl x < 0"
  using huge64_pos by (auto simp: rnd_def Let_def simp del: huge64_pos split: if_splits)

lemma lt64_rnd_zero: "lt64 (rnd x) (Finite 0) \<longleftrightarrow> fl x < 0"
proof (cases "rnd x")
  case (Finite y)
  with rnd_sign(1) [OF Finite] show ?thesis by simp
next
  case PosInfinity
  with rnd_sign(2) [OF PosInfinity] show ?thesis by simp
next
  case NegInfinity
  with rnd_sign(3) [OF NegInfinity] show ?thesis by simp
next
  case NotANumber
  then show ?thesis by simp
qed

lemma gt64_rnd_zero: "gt64 (rnd x) (Finite 0) \<longleftrightarrow> 0 < fl x"
proof (cases "rnd x")
  case (Finite y)
  with rnd_sign(1) [OF Finite] show ?thesis by (simp add: gt64_def)
next
  case PosInfinity
  with rnd_sign(2) [OF PosInfinity] show ?thesis by (simp add: gt64_def)
next
  case NegInfinity
  with rnd_sign(3) [OF NegInfinity] show ?thesis by (simp add: gt64_def)
next
  case NotANumber
  then show ?thesis by simp
qed

lemma rnd_between:
  assumes "is64 a" "is64 b" "a \<le> x" "x \<le> b"
  shows "rnd x = Finite (fl x)" "is64 (fl x)" "a \<le> fl x" "fl x \<le> b"
proof -
  show lo: "a \<le> fl x" using assms by (intro is64_ge)
  show hi: "fl x \<le> b" using assms by (intro is64_le)
  from assms(1,2) have "- huge64 < a" "b < huge64"
    by (simp_all add: is64_iff abs_less_iff)
  with lo hi have "\<bar>fl x\<bar> < huge64" by (simp add: abs_less_iff)
  then show r: "rnd x = Finite (fl x)" by (simp add: rnd_Finite)
  then show "is64 (fl x)" by (rule rnd_is64)
qed

lemma rnd_nonneg_cases:
  assumes "0 \<le> p"
  obtains "rnd p = PosInfinity" | d where "rnd p = Finite d" "d = fl p" "0 \<le> d" "is64 d"
proof (cases "rnd p")
  case (Finite y)
  moreover from Finite have "y = fl p" by (simp add: rnd_Finite)
  moreover from this assms have "0 \<le> y" by (simp add: fl_nonneg)
  moreover from Finite have "is64 y" by (rule rnd_is64)
  ultimately show ?thesis by (rule that(2))
next
  case PosInfinity
  then show ?thesis by (rule that(1))
next
  case NegInfinity
  with fl_nonneg [OF assms] huge64_pos show ?thesis
    by (simp add: rnd_NegInfinity del: huge64_pos)
next
  case NotANumber
  then show ?thesis by simp
qed

lemma friction_step64_infinite [simp]: "friction_step64 PosInfinity (Finite r) = Finite 0"
  by (simp add: friction_step64_def sub64_def gt64_def)

lemma friction_step64_finite:
  "friction_step64 (Finite d) (Finite r) =
     (if fl (r + d) < 0 then rnd (r + d) else if 0 < fl (r - d) then rnd (r - d) else Finite 0)"
  by (simp add: friction_step64_def sub64_def lt64_rnd_zero gt64_rnd_zero Let_def)

lemma friction_step64_formula:
  assumes "0 \<le> d" "is64 d"
  shows "friction_step64 (Finite d) (Finite r) =
           (if \<bar>r\<bar> \<le> d then Finite 0 else if 0 < r then rnd (r - d) else rnd (r + d))"
proof -
  have z: "rnd 0 = Finite 0"
    using is64_zero by (simp only: is64_def)
  consider "\<bar>r\<bar> \<le> d" | "d < r" | "r < - d" by linarith
  then show ?thesis
  proof cases
    case 1
    then have "0 \<le> r + d" "r - d \<le> 0" by simp_all
    then have "0 \<le> fl (r + d)" "fl (r - d) \<le> 0"
      by (simp_all add: fl_nonneg fl_nonpos)
    with 1 show ?thesis by (simp add: friction_step64_finite)
  next
    case 2
    with assms have "0 \<le> r + d" "0 \<le> r - d" by simp_all
    then have a: "0 \<le> fl (r + d)" "0 \<le> fl (r - d)"
      by (simp_all add: fl_nonneg)
    show ?thesis
    proof (cases "0 < fl (r - d)")
      case True
      with a 2 assms show ?thesis by (simp add: friction_step64_finite)
    next
      case False
      with a have "fl (r - d) = 0" by simp
      then have "rnd (r - d) = Finite 0" by (simp add: rnd_Finite)
      with a 2 assms False show ?thesis by (simp add: friction_step64_finite)
    qed
  next
    case 3
    with assms have "r + d \<le> 0" "r - d \<le> 0" by simp_all
    then have a: "fl (r + d) \<le> 0" "fl (r - d) \<le> 0"
      by (simp_all add: fl_nonpos)
    show ?thesis
    proof (cases "fl (r + d) < 0")
      case True
      with a 3 assms show ?thesis by (simp add: friction_step64_finite)
    next
      case False
      with a have "fl (r + d) = 0" by simp
      then have "rnd (r + d) = Finite 0" by (simp add: rnd_Finite)
      with a 3 assms False show ?thesis by (simp add: friction_step64_finite)
    qed
  qed
qed

lemma friction_step64_props:
  assumes r: "is64 r" and d: "is64 d" "0 \<le> d"
  shows "\<exists>a. friction_step64 (Finite d) (Finite r) = Finite a \<and> is64 a \<and> \<bar>a\<bar> \<le> \<bar>r\<bar> \<and>
           (0 \<le> r \<longrightarrow> 0 \<le> a) \<and> (r \<le> 0 \<longrightarrow> a \<le> 0) \<and>
           (spacing r \<le> d \<longrightarrow> \<bar>a\<bar> \<le> max 0 (\<bar>r\<bar> - MIN_VALUE))"
proof -
  have z: "rnd 0 = Finite 0"
    using is64_zero by (simp only: is64_def)
  consider "\<bar>r\<bar> \<le> d" | "d < r" | "r < - d" by linarith
  then show ?thesis
  proof cases
    case 1
    then show ?thesis
      by (simp add: friction_step64_formula [OF d(2,1)])
  next
    case 2
    with d have "0 \<le> r - d" "r - d \<le> r" by simp_all
    from rnd_between [OF is64_zero r this] have
      f: "rnd (r - d) = Finite (fl (r - d))" "is64 (fl (r - d))" "0 \<le> fl (r - d)" "fl (r - d) \<le> r" .
    have "spacing r \<le> d \<longrightarrow> fl (r - d) \<le> r - MIN_VALUE"
    proof
      assume that: "spacing r \<le> d"
      from 2 d have "0 < r" by simp
      from fl_step_down [OF r this that] spacing_min [of r]
      show "fl (r - d) \<le> r - MIN_VALUE" by simp
    qed
    with f 2 d show ?thesis
      by (auto simp: friction_step64_formula [OF d(2,1)])
  next
    case 3
    with d have "r \<le> r + d" "r + d \<le> 0" by simp_all
    from rnd_between [OF r is64_zero this] have
      f: "rnd (r + d) = Finite (fl (r + d))" "is64 (fl (r + d))" "r \<le> fl (r + d)" "fl (r + d) \<le> 0" .
    have "spacing r \<le> d \<longrightarrow> - r - MIN_VALUE \<ge> - fl (r + d)"
    proof
      assume that: "spacing r \<le> d"
      from 3 d have p: "0 < - r" by simp
      from r have "is64 (- r)" by simp
      from fl_step_down [OF this p, of d] that spacing_min [of "- r"]
      have "fl (- r - d) \<le> - r - MIN_VALUE" by (simp add: spacing_def)
      moreover have "- r - d = - (r + d)" by simp
      then have "fl (- r - d) = - fl (r + d)"
        by (simp only: fl_neg)
      ultimately show "- r - MIN_VALUE \<ge> - fl (r + d)" by simp
    qed
    with f 3 d show ?thesis
      by (auto simp: friction_step64_formula [OF d(2,1)])
  qed
qed

lemma clamp64_props:
  assumes "is64 a" "is64 m" "0 \<le> m"
  shows "\<exists>c. (if Finite a \<noteq> Finite 0 then clamp64 (Finite a) (neg64 (Finite m)) (Finite m)
               else Finite a) = Finite c \<and> is64 c \<and> \<bar>c\<bar> \<le> \<bar>a\<bar> \<and>
              (0 \<le> a \<longrightarrow> 0 \<le> c) \<and> (a \<le> 0 \<longrightarrow> c \<le> 0)"
  using assms by (auto simp: clamp64_def gt64_def)

lemma axis_step64_props:
  assumes r: "is64 r" and m: "is64 m" "0 \<le> m" and p: "0 \<le> p"
  shows "\<exists>c. axis_step64 (rnd p) (Finite m) (Finite r) = Finite c \<and> is64 c \<and> \<bar>c\<bar> \<le> \<bar>r\<bar> \<and>
           (0 \<le> r \<longrightarrow> 0 \<le> c) \<and> (r \<le> 0 \<longrightarrow> c \<le> 0) \<and>
           (spacing r \<le> p \<longrightarrow> \<bar>c\<bar> \<le> max 0 (\<bar>r\<bar> - MIN_VALUE))"
proof (rule rnd_nonneg_cases [OF p])
  assume "rnd p = PosInfinity"
  then show ?thesis
    by (simp add: axis_step64_def)
next
  fix d
  assume 3: "rnd p = Finite d" "d = fl p" "0 \<le> d" "is64 d"
  from friction_step64_props [OF r 3(4,3)] obtain a where
    a: "friction_step64 (Finite d) (Finite r) = Finite a" "is64 a" "\<bar>a\<bar> \<le> \<bar>r\<bar>"
      "0 \<le> r \<longrightarrow> 0 \<le> a" "r \<le> 0 \<longrightarrow> a \<le> 0"
      "spacing r \<le> d \<longrightarrow> \<bar>a\<bar> \<le> max 0 (\<bar>r\<bar> - MIN_VALUE)"
    by blast
  from clamp64_props [OF a(2) m] obtain c where
    c: "(if Finite a \<noteq> Finite 0 then clamp64 (Finite a) (neg64 (Finite m)) (Finite m)
         else Finite a) = Finite c" "is64 c" "\<bar>c\<bar> \<le> \<bar>a\<bar>" "0 \<le> a \<longrightarrow> 0 \<le> c" "a \<le> 0 \<longrightarrow> c \<le> 0"
    by blast
  have sp: "spacing r \<le> d" if "spacing r \<le> p"
    using fl_mono [OF that] 3(2) by (simp add: fl_spacing)
  have "axis_step64 (rnd p) (Finite m) (Finite r) = Finite c"
    unfolding axis_step64_def Let_def 3(1) a(1) by (rule c(1))
  moreover have "\<bar>c\<bar> \<le> \<bar>r\<bar>" using c(3) a(3) by simp
  moreover have "0 \<le> r \<longrightarrow> 0 \<le> c" using a(4) c(4) by simp
  moreover have "r \<le> 0 \<longrightarrow> c \<le> 0" using a(5) c(5) by simp
  moreover have "spacing r \<le> p \<longrightarrow> \<bar>c\<bar> \<le> max 0 (\<bar>r\<bar> - MIN_VALUE)"
    using sp a(6) c(3) by auto
  ultimately show ?thesis using c(2) by blast
qed

subsection \<open>Repeated calls\<close>

lemma axis_seq_inv:
  fixes X :: "nat \<Rightarrow> float64" and t :: "nat \<Rightarrow> real"
  assumes X0: "X 0 = Finite v"
    and step: "\<And>n. X (Suc n) = axis_step64 (rnd (f * t n)) (Finite m) (X n)"
    and v: "is64 v" and m: "is64 m" "0 \<le> m" and f: "0 < f" and t: "\<forall>i. 0 < t i"
  shows "\<exists>r. X n = Finite r \<and> is64 r \<and> \<bar>r\<bar> \<le> \<bar>v\<bar> \<and> (0 \<le> v \<longrightarrow> 0 \<le> r) \<and> (v \<le> 0 \<longrightarrow> r \<le> 0) \<and>
             ((\<forall>i. spacing v \<le> f * t i) \<longrightarrow> \<bar>r\<bar> \<le> max 0 (\<bar>v\<bar> - of_nat n * MIN_VALUE))"
proof (induction n)
  case 0
  with X0 v show ?case by simp
next
  case (Suc n)
  then obtain r where r: "X n = Finite r" "is64 r" "\<bar>r\<bar> \<le> \<bar>v\<bar>" "0 \<le> v \<longrightarrow> 0 \<le> r" "v \<le> 0 \<longrightarrow> r \<le> 0"
    "(\<forall>i. spacing v \<le> f * t i) \<longrightarrow> \<bar>r\<bar> \<le> max 0 (\<bar>v\<bar> - of_nat n * MIN_VALUE)"
    by blast
  have p: "0 \<le> f * t n"
    using f t by (simp add: less_imp_le)
  from axis_step64_props [OF r(2) m p] obtain c where
    c: "axis_step64 (rnd (f * t n)) (Finite m) (Finite r) = Finite c" "is64 c" "\<bar>c\<bar> \<le> \<bar>r\<bar>"
      "0 \<le> r \<longrightarrow> 0 \<le> c" "r \<le> 0 \<longrightarrow> c \<le> 0"
      "spacing r \<le> f * t n \<longrightarrow> \<bar>c\<bar> \<le> max 0 (\<bar>r\<bar> - MIN_VALUE)"
    by blast
  have "X (Suc n) = Finite c"
    unfolding step r(1) by (rule c(1))
  moreover have "\<bar>c\<bar> \<le> \<bar>v\<bar>" using c(3) r(3) by simp
  moreover have "0 \<le> v \<longrightarrow> 0 \<le> c" using r(4) c(4) by simp
  moreover have "v \<le> 0 \<longrightarrow> c \<le> 0" using r(5) c(5) by simp
  moreover have "(\<forall>i. spacing v \<le> f * t i) \<longrightarrow> \<bar>c\<bar> \<le> max 0 (\<bar>v\<bar> - of_nat (Suc n) * MIN_VALUE)"
  proof
    assume a: "\<forall>i. spacing v \<le> f * t i"
    have "spacing r \<le> spacing v" using r(3) by (rule spacing_mono)
    with a have "spacing r \<le> f * t n" using order_trans by blast
    with c(6) have "\<bar>c\<bar> \<le> max 0 (\<bar>r\<bar> - MIN_VALUE)" by simp
    moreover from a r(6) have "\<bar>r\<bar> \<le> max 0 (\<bar>v\<bar> - of_nat n * MIN_VALUE)" by simp
    moreover have "of_nat (Suc n) * MIN_VALUE = of_nat n * MIN_VALUE + MIN_VALUE"
      by (simp add: distrib_right)
    ultimately show "\<bar>c\<bar> \<le> max 0 (\<bar>v\<bar> - of_nat (Suc n) * MIN_VALUE)"
      using MIN_VALUE_pos by linarith
  qed
  ultimately show ?case using c(2) by blast
qed

lemma axis_seq_rest:
  fixes X :: "nat \<Rightarrow> float64" and t :: "nat \<Rightarrow> real"
  assumes X0: "X 0 = Finite v"
    and step: "\<And>n. X (Suc n) = axis_step64 (rnd (f * t n)) (Finite m) (X n)"
    and v: "is64 v" and m: "is64 m" "0 \<le> m" and f: "0 < f" and t: "\<forall>i. 0 < t i"
    and sp: "\<forall>i. spacing v \<le> f * t i"
  shows "\<exists>N. \<forall>n\<ge>N. X n = Finite 0"
proof -
  obtain N :: nat where N: "\<bar>v\<bar> < of_nat N * MIN_VALUE"
    using reals_Archimedean3 [OF MIN_VALUE_pos] by blast
  have "X n = Finite 0" if "N \<le> n" for n
  proof -
    from axis_seq_inv [OF X0 step v m f t, of n] sp obtain r where
      r: "X n = Finite r" "\<bar>r\<bar> \<le> max 0 (\<bar>v\<bar> - of_nat n * MIN_VALUE)"
      by blast
    have "of_nat N * MIN_VALUE \<le> of_nat n * MIN_VALUE"
      using that MIN_VALUE_pos by (intro mult_right_mono) (simp_all add: less_imp_le)
    with N have "\<bar>v\<bar> - of_nat n * MIN_VALUE \<le> 0" by linarith
    with r(2) have "\<bar>r\<bar> \<le> 0" by linarith
    with r(1) show ?thesis by simp
  qed
  then show ?thesis by blast
qed

lemma axis_seq:
  fixes X :: "nat \<Rightarrow> float64" and t :: "nat \<Rightarrow> real"
  assumes X0: "X 0 = Finite v"
    and step: "\<And>n. X (Suc n) = axis_step64 (rnd (f * t n)) (Finite m) (X n)"
    and v: "is64 v" and m: "is64 m" "0 \<le> m" and f: "0 < f" and t: "\<forall>i. 0 < t i"
  shows "(\<forall>n. \<exists>r r'. X n = Finite r \<and> is64 r \<and> X (Suc n) = Finite r' \<and> \<bar>r'\<bar> \<le> \<bar>r\<bar> \<and>
                 (0 \<le> v \<longrightarrow> 0 \<le> r) \<and> (v \<le> 0 \<longrightarrow> r \<le> 0)) \<and>
         ((\<forall>i. spacing v \<le> f * t i) \<longrightarrow> (\<exists>N. \<forall>n\<ge>N. X n = Finite 0))"
proof (intro conjI allI impI)
  fix n
  from axis_seq_inv [OF X0 step v m f t, of n] obtain r where
    r: "X n = Finite r" "is64 r" "0 \<le> v \<longrightarrow> 0 \<le> r" "v \<le> 0 \<longrightarrow> r \<le> 0"
    by blast
  have p: "0 \<le> f * t n"
    using f t by (simp add: less_imp_le)
  from axis_step64_props [OF r(2) m p] obtain c where
    c: "axis_step64 (rnd (f * t n)) (Finite m) (Finite r) = Finite c" "\<bar>c\<bar> \<le> \<bar>r\<bar>"
    by blast
  have "X (Suc n) = Finite c"
    unfolding step r(1) by (rule c(1))
  with r c(2) show "\<exists>r r'. X n = Finite r \<and> is64 r \<and> X (Suc n) = Finite r' \<and> \<bar>r'\<bar> \<le> \<bar>r\<bar> \<and>
                 (0 \<le> v \<longrightarrow> 0 \<le> r) \<and> (v \<le> 0 \<longrightarrow> r \<le> 0)"
    by blast
next
  assume "\<forall>i. spacing v \<le> f * t i"
  with axis_seq_rest [OF X0 step v m f t] show "\<exists>N. \<forall>n\<ge>N. X n = Finite 0" by blast
qed

lemma truthy64_Finite [simp]: "truthy64 (Finite a) = (a \<noteq> 0)"
  by (simp add: truthy64_def)

lemma updates64_x:
  assumes "x64 (friction64 this) = Finite f" "f \<noteq> 0" "x64 (maxVel64 this) = Finite m"
  shows "x64 (vel64 (updates64 (Suc n) (finite_ticks t) this)) =
           axis_step64 (rnd (f * t n)) (Finite m) (x64 (vel64 (updates64 n (finite_ticks t) this)))"
  using assms by (simp add: update64_x finite_ticks_def)

lemma updates64_y:
  assumes "y64 (friction64 this) = Finite f" "f \<noteq> 0" "y64 (maxVel64 this) = Finite m"
    "gravity64 this = Finite 0"
  shows "y64 (vel64 (updates64 (Suc n) (finite_ticks t) this)) =
           axis_step64 (rnd (f * t n)) (Finite m) (y64 (vel64 (updates64 n (finite_ticks t) this)))"
  using assms by (simp add: update64_y finite_ticks_def)

lemma applyFriction64_step:
  assumes "0 \<le> f" "0 < t"
  shows "(rnd (f * t) = PosInfinity \<longrightarrow> friction_step64 (rnd (f * t)) (Finite r) = Finite 0) \<and>
         (\<forall>d. rnd (f * t) = Finite d \<longrightarrow>
            friction_step64 (rnd (f * t)) (Finite r) =
              (if \<bar>r\<bar> \<le> d then Finite 0 else if 0 < r then rnd (r - d) else rnd (r + d)))"
proof (intro conjI impI allI)
  assume "rnd (f * t) = PosInfinity"
  then show "friction_step64 (rnd (f * t)) (Finite r) = Finite 0" by simp
next
  fix d
  assume d: "rnd (f * t) = Finite d"
  then have "is64 d" by (rule rnd_is64)
  moreover have "0 \<le> d"
    using rnd_sign(1) [OF d] assms by (simp add: fl_nonneg)
  ultimately show "friction_step64 (rnd (f * t)) (Finite r) =
              (if \<bar>r\<bar> \<le> d then Finite 0 else if 0 < r then rnd (r - d) else rnd (r + d))"
    unfolding d by (intro friction_step64_formula)
qed

text \<open>
  Claim C2, as amended. Numbers are binary64 values and every operation rounds. For a body
  without gravity and calls of \<^verbatim>\<open>update\<close> that each find a positive tick: on an axis where
  the friction is positive and the maximal velocity is not negative, the velocity stays a
  finite Number, its magnitude never grows, and it never changes sign (from a velocity
  that is not negative it is never negative, from one that is not positive never
  positive). If moreover the friction times the tick is, in every call, at least the
  spacing of binary64 values at the initial velocity, the velocity is exactly 0 after
  finitely many calls and stays there. One \<^verbatim>\<open>applyFriction\<close> step with a friction that is
  not negative sets the velocity on the axis to 0 when the friction times the tick, as
  computed, is infinite or at least the magnitude of the velocity, and otherwise moves it
  towards 0 by that amount, rounded.
\<close>

theorem friction_brings_to_rest:
  fixes t :: "nat \<Rightarrow> real"
  assumes "gravity64 this = Finite 0" and "\<forall>i. 0 < t i"
  shows
    "(x64 (friction64 this) = Finite f1 \<and> 0 < f1 \<and> x64 (maxVel64 this) = Finite m1 \<and> 0 \<le> m1 \<and>
      is64 m1 \<and> x64 (vel64 this) = Finite v1 \<and> is64 v1 \<longrightarrow>
        (\<forall>n. \<exists>r r'. x64 (vel64 (updates64 n (finite_ticks t) this)) = Finite r \<and> is64 r \<and>
                x64 (vel64 (updates64 (Suc n) (finite_ticks t) this)) = Finite r' \<and> \<bar>r'\<bar> \<le> \<bar>r\<bar> \<and>
                (0 \<le> v1 \<longrightarrow> 0 \<le> r) \<and> (v1 \<le> 0 \<longrightarrow> r \<le> 0)) \<and>
        ((\<forall>i. spacing v1 \<le> f1 * t i) \<longrightarrow>
           (\<exists>N. \<forall>n\<ge>N. x64 (vel64 (updates64 n (finite_ticks t) this)) = Finite 0))) \<and>
     (y64 (friction64 this) = Finite f2 \<and> 0 < f2 \<and> y64 (maxVel64 this) = Finite m2 \<and> 0 \<le> m2 \<and>
      is64 m2 \<and> y64 (vel64 this) = Finite v2 \<and> is64 v2 \<longrightarrow>
        (\<forall>n. \<exists>r r'. y64 (vel64 (updates64 n (finite_ticks t) this)) = Finite r \<and> is64 r \<and>
                y64 (vel64 (updates64 (Suc n) (finite_ticks t) this)) = Finite r' \<and> \<bar>r'\<bar> \<le> \<bar>r\<bar> \<and>
                (0 \<le> v2 \<longrightarrow> 0 \<le> r) \<and> (v2 \<le> 0 \<longrightarrow> r \<le> 0)) \<and>
        ((\<forall>i. spacing v2 \<le> f2 * t i) \<longrightarrow>
           (\<exists>N. \<forall>n\<ge>N. y64 (vel64 (updates64 n (finite_ticks t) this)) = Finite 0))) \<and>
     (\<forall>(w :: Vector64) r i. x64 (friction64 this) = Finite f1 \<and> 0 \<le> f1 \<and> x64 w = Finite r \<longrightarrow>
        (rnd (f1 * t i) = PosInfinity \<longrightarrow> x64 (applyFriction64 (Finite (t i)) w this) = Finite 0) \<and>
        (\<forall>d. rnd (f1 * t i) = Finite d \<longrightarrow>
           x64 (applyFriction64 (Finite (t i)) w this) =
             (if \<bar>r\<bar> \<le> d then Finite 0 else if 0 < r then rnd (r - d) else rnd (r + d)))) \<and>
     (\<forall>(w :: Vector64) r i. y64 (friction64 this) = Finite f2 \<and> 0 \<le> f2 \<and> y64 w = Finite r \<longrightarrow>
        (rnd (f2 * t i) = PosInfinity \<longrightarrow> y64 (applyFriction64 (Finite (t i)) w this) = Finite 0) \<and>
        (\<forall>d. rnd (f2 * t i) = Finite d \<longrightarrow>
           y64 (applyFriction64 (Finite (t i)) w this) =
             (if \<bar>r\<bar> \<le> d then Finite 0 else if 0 < r then rnd (r - d) else rnd (r + d))))"
proof (intro conjI)
  show "x64 (friction64 this) = Finite f1 \<and> 0 < f1 \<and> x64 (maxVel64 this) = Finite m1 \<and> 0 \<le> m1 \<and>
      is64 m1 \<and> x64 (vel64 this) = Finite v1 \<and> is64 v1 \<longrightarrow>
        (\<forall>n. \<exists>r r'. x64 (vel64 (updates64 n (finite_ticks t) this)) = Finite r \<and> is64 r \<and>
                x64 (vel64 (updates64 (Suc n) (finite_ticks t) this)) = Finite r' \<and> \<bar>r'\<bar> \<le> \<bar>r\<bar> \<and>
                (0 \<le> v1 \<longrightarrow> 0 \<le> r) \<and> (v1 \<le> 0 \<longrightarrow> r \<le> 0)) \<and>
        ((\<forall>i. spacing v1 \<le> f1 * t i) \<longrightarrow>
           (\<exists>N. \<forall>n\<ge>N. x64 (vel64 (updates64 n (finite_ticks t) this)) = Finite 0))"
  proof
    assume h: "x64 (friction64 this) = Finite f1 \<and> 0 < f1 \<and> x64 (maxVel64 this) = Finite m1 \<and>
      0 \<le> m1 \<and> is64 m1 \<and> x64 (vel64 this) = Finite v1 \<and> is64 v1"
    then have nz: "f1 \<noteq> 0" by simp
    have X0: "x64 (vel64 (updates64 0 (finite_ticks t) this)) = Finite v1"
      using h by simp
    from h have fr: "x64 (friction64 this) = Finite f1" and mx: "x64 (maxVel64 this) = Finite m1"
      and f: "0 < f1" and m: "is64 m1" "0 \<le> m1" and v: "is64 v1"
      by simp_all
    show "(\<forall>n. \<exists>r r'. x64 (vel64 (updates64 n (finite_ticks t) this)) = Finite r \<and> is64 r \<and>
                x64 (vel64 (updates64 (Suc n) (finite_ticks t) this)) = Finite r' \<and> \<bar>r'\<bar> \<le> \<bar>r\<bar> \<and>
                (0 \<le> v1 \<longrightarrow> 0 \<le> r) \<and> (v1 \<le> 0 \<longrightarrow> r \<le> 0)) \<and>
        ((\<forall>i. spacing v1 \<le> f1 * t i) \<longrightarrow>
           (\<exists>N. \<forall>n\<ge>N. x64 (vel64 (updates64 n (finite_ticks t) this)) = Finite 0))"
      by (rule axis_seq [OF X0 updates64_x [OF fr nz mx] v m f assms(2)])
  qed
next
  show "y64 (friction64 this) = Finite f2 \<and> 0 < f2 \<and> y64 (maxVel64 this) = Finite m2 \<and> 0 \<le> m2 \<and>
      is64 m2 \<and> y64 (vel64 this) = Finite v2 \<and> is64 v2 \<longrightarrow>
        (\<forall>n. \<exists>r r'. y64 (vel64 (updates64 n (finite_ticks t) this)) = Finite r \<and> is64 r \<and>
                y64 (vel64 (updates64 (Suc n) (finite_ticks t) this)) = Finite r' \<and> \<bar>r'\<bar> \<le> \<bar>r\<bar> \<and>
                (0 \<le> v2 \<longrightarrow> 0 \<le> r) \<and> (v2 \<le> 0 \<longrightarrow> r \<le> 0)) \<and>
        ((\<forall>i. spacing v2 \<le> f2 * t i) \<longrightarrow>
           (\<exists>N. \<forall>n\<ge>N. y64 (vel64 (updates64 n (finite_ticks t) this)) = Finite 0))"
  proof
    assume h: "y64 (friction64 this) = Finite f2 \<and> 0 < f2 \<and> y64 (maxVel64 this) = Finite m2 \<and>
      0 \<le> m2 \<and> is64 m2 \<and> y64 (vel64 this) = Finite v2 \<and> is64 v2"
    then have nz: "f2 \<noteq> 0" by simp
    have X0: "y64 (vel64 (updates64 0 (finite_ticks t) this)) = Finite v2"
      using h by simp
    from h have fr: "y64 (friction64 this) = Finite f2" and mx: "y64 (maxVel64 this) = Finite m2"
      and f: "0 < f2" and m: "is64 m2" "0 \<le> m2" and v: "is64 v2"
      by simp_all
    show "(\<forall>n. \<exists>r r'. y64 (vel64 (updates64 n (finite_ticks t) this)) = Finite r \<and> is64 r \<and>
                y64 (vel64 (updates64 (Suc n) (finite_ticks t) this)) = Finite r' \<and> \<bar>r'\<bar> \<le> \<bar>r\<bar> \<and>
                (0 \<le> v2 \<longrightarrow> 0 \<le> r) \<and> (v2 \<le> 0 \<longrightarrow> r \<le> 0)) \<and>
        ((\<forall>i. spacing v2 \<le> f2 * t i) \<longrightarrow>
           (\<exists>N. \<forall>n\<ge>N. y64 (vel64 (updates64 n (finite_ticks t) this)) = Finite 0))"
      by (rule axis_seq [OF X0 updates64_y [OF fr nz mx assms(1)] v m f assms(2)])
  qed
next
  show "\<forall>(w :: Vector64) r i. x64 (friction64 this) = Finite f1 \<and> 0 \<le> f1 \<and> x64 w = Finite r \<longrightarrow>
        (rnd (f1 * t i) = PosInfinity \<longrightarrow> x64 (applyFriction64 (Finite (t i)) w this) = Finite 0) \<and>
        (\<forall>d. rnd (f1 * t i) = Finite d \<longrightarrow>
           x64 (applyFriction64 (Finite (t i)) w this) =
             (if \<bar>r\<bar> \<le> d then Finite 0 else if 0 < r then rnd (r - d) else rnd (r + d)))"
  proof (intro allI impI)
    fix w :: Vector64 and r i
    assume h: "x64 (friction64 this) = Finite f1 \<and> 0 \<le> f1 \<and> x64 w = Finite r"
    from assms(2) have ti: "0 < t i" by simp
    from h have e: "x64 (applyFriction64 (Finite (t i)) w this) = friction_step64 (rnd (f1 * t i)) (Finite r)"
      by (simp add: applyFriction64_x)
    from h have "0 \<le> f1" by simp
    from applyFriction64_step [OF this ti, of r]
    show "(rnd (f1 * t i) = PosInfinity \<longrightarrow> x64 (applyFriction64 (Finite (t i)) w this) = Finite 0) \<and>
        (\<forall>d. rnd (f1 * t i) = Finite d \<longrightarrow>
           x64 (applyFriction64 (Finite (t i)) w this) =
             (if \<bar>r\<bar> \<le> d then Finite 0 else if 0 < r then rnd (r - d) else rnd (r + d)))"
      unfolding e .
  qed
next
  show "\<forall>(w :: Vector64) r i. y64 (friction64 this) = Finite f2 \<and> 0 \<le> f2 \<and> y64 w = Finite r \<longrightarrow>
        (rnd (f2 * t i) = PosInfinity \<longrightarrow> y64 (applyFriction64 (Finite (t i)) w this) = Finite 0) \<and>
        (\<forall>d. rnd (f2 * t i) = Finite d \<longrightarrow>
           y64 (applyFriction64 (Finite (t i)) w this) =
             (if \<bar>r\<bar> \<le> d then Finite 0 else if 0 < r then rnd (r - d) else rnd (r + d)))"
  proof (intro allI impI)
    fix w :: Vector64 and r i
    assume h: "y64 (friction64 this) = Finite f2 \<and> 0 \<le> f2 \<and> y64 w = Finite r"
    from assms(2) have ti: "0 < t i" by simp
    from h have e: "y64 (applyFriction64 (Finite (t i)) w this) = friction_step64 (rnd (f2 * t i)) (Finite r)"
      by (simp add: applyFriction64_y)
    from h have "0 \<le> f2" by simp
    from applyFriction64_step [OF this ti, of r]
    show "(rnd (f2 * t i) = PosInfinity \<longrightarrow> y64 (applyFriction64 (Finite (t i)) w this) = Finite 0) \<and>
        (\<forall>d. rnd (f2 * t i) = Finite d \<longrightarrow>
           y64 (applyFriction64 (Finite (t i)) w this) =
             (if \<bar>r\<bar> \<le> d then Finite 0 else if 0 < r then rnd (r - d) else rnd (r + d)))"
      unfolding e .
  qed
qed

lemma fl_exact: "is64 x \<Longrightarrow> fl x = x"
  by (simp add: is64_iff)

lemma rnd_exact: "is64 x \<Longrightarrow> rnd x = Finite x"
  by (simp add: is64_def)

lemma is64_numeral: "numeral n < (2 :: int) ^ 53 \<Longrightarrow> is64 (numeral n)"
  using is64_int [of "numeral n"] by simp

lemma is64_one: "is64 1"
  using is64_int [of 1] by simp

lemma is64_half: "is64 (1 / 2)"
  using is64_grid [of 1 "- 1"] by (simp add: power_int_minus field_simps)

lemma is64_halves: "numeral n < (2 :: int) ^ 53 \<Longrightarrow> is64 (numeral n / 2)"
  using is64_grid [of "numeral n" "- 1"] by (simp add: power_int_minus field_simps)

lemmas is64_values = is64_numeral is64_one is64_half is64_halves

lemma expo_values: "expo 5 = 2" "expo 2 = 1" "expo 1000 = 9"
  by (rule expo_binade, simp add: binade_def)+

lemma spacing_values: "spacing 5 = 1 / 2 ^ 50" "spacing (- 2) = 1 / 2 ^ 51" "spacing 1000 = 1 / 2 ^ 43"
  by (simp_all add: spacing_def expo_values power_int_minus field_simps)

lemma axis_step64_Finite:
  "axis_step64 (Finite d) (Finite m) (Finite r) =
     (let a = (if fl (r + d) < 0 then rnd (r + d) else if 0 < fl (r - d) then rnd (r - d) else Finite 0)
      in if a \<noteq> Finite 0 then clamp64 a (Finite (- m)) (Finite m) else a)"
  by (simp add: axis_step64_def friction_step64_finite Let_def)

lemma axis_step64_examples:
  "axis_step64 (Finite 2) (Finite 1000) (Finite 5) = Finite 3"
  "axis_step64 (Finite 1) (Finite 1000) (Finite 3) = Finite 2"
  "axis_step64 (Finite 2) (Finite 1000) (Finite 2) = Finite 0"
  "axis_step64 (Finite 1) (Finite 1000) (Finite (- 2)) = Finite (- 1)"
  "axis_step64 (Finite (1 / 2)) (Finite 1000) (Finite (- 1)) = Finite (- (1 / 2))"
  "axis_step64 (Finite 1) (Finite 1000) (Finite (- (1 / 2))) = Finite 0"
  "axis_step64 (Finite (- 2)) (Finite 1000) (Finite 1) = Finite (- 1)"
  "axis_step64 (Finite (- 2)) (Finite 1000) (Finite (- 1)) = Finite (- 3)"
  "axis_step64 (Finite 2) (Finite (- 3)) (Finite 5) = Finite (- 3)"
  "axis_step64 (Finite 2) (Finite (- 3)) (Finite (- 3)) = Finite 3"
  "axis_step64 (Finite 0) (Finite 1000) (Finite 5) = Finite 5"
  by (simp_all add: axis_step64_Finite clamp64_def gt64_def fl_exact rnd_exact is64_values)

lemma is64_friction: "is64 (1 / 2 ^ 46)"
  using is64_grid [of 1 "- 46"] by (simp add: power_int_minus field_simps)

lemma fl_absorbs: "fl (1000 + 1 / 2 ^ 46) = 1000" "fl (1000 - 1 / 2 ^ 46) = 1000"
proof -
  have "binade 9 (1000 + 1 / 2 ^ 46)"
    by (simp add: binade_def)
  then have e1: "expo (1000 + 1 / 2 ^ 46) = 9"
    by (rule expo_binade)
  have "binade 9 (1000 - 1 / 2 ^ 46)"
    by (simp add: binade_def)
  then have e2: "expo (1000 - 1 / 2 ^ 46) = 9"
    by (rule expo_binade)
  show "fl (1000 + 1 / 2 ^ 46) = 1000"
    unfolding fl_def e1 by (simp add: binary64_def round_ties_even_def power_int_minus Let_def)
  show "fl (1000 - 1 / 2 ^ 46) = 1000"
    unfolding fl_def e2 by (simp add: binary64_def round_ties_even_def power_int_minus Let_def)
qed

lemma axis_step64_absorbed:
  "axis_step64 (Finite (1 / 2 ^ 46)) (Finite 1000) (Finite 1000) = Finite 1000"
proof -
  have "is64 1000"
    by (simp add: is64_values)
  then have h: "\<bar>1000 :: real\<bar> < huge64"
    by (simp add: is64_iff)
  have r: "rnd (1000 - 1 / 2 ^ 46) = Finite 1000"
    unfolding rnd_Finite fl_absorbs using h by simp
  show ?thesis
    unfolding axis_step64_Finite Let_def fl_absorbs r
    by (simp add: clamp64_def gt64_def)
qed

lemma example_sliding64_fields:
  "gravity64 example_sliding64 = Finite 0"
  "friction64 example_sliding64 = \<lparr>x64 = Finite 2, y64 = Finite 1\<rparr>"
  "vel64 example_sliding64 = \<lparr>x64 = Finite 5, y64 = Finite (- 2)\<rparr>"
  "maxVel64 example_sliding64 = \<lparr>x64 = Finite 1000, y64 = Finite 1000\<rparr>"
  "accel64 example_sliding64 = \<lparr>x64 = Finite 0, y64 = Finite 0\<rparr>"
  by (simp_all add: example_sliding64_def)

lemma example_slipping64_fields:
  "gravity64 example_slipping64 = Finite 0"
  "friction64 example_slipping64 = \<lparr>x64 = Finite (- 2), y64 = Finite 0\<rparr>"
  "vel64 example_slipping64 = \<lparr>x64 = Finite 1, y64 = Finite 0\<rparr>"
  "maxVel64 example_slipping64 = \<lparr>x64 = Finite 1000, y64 = Finite 1000\<rparr>"
  "accel64 example_slipping64 = \<lparr>x64 = Finite 0, y64 = Finite 0\<rparr>"
  by (simp_all add: example_slipping64_def example_sliding64_def)

lemma example_absorbed64_fields:
  "gravity64 example_absorbed64 = Finite 0"
  "friction64 example_absorbed64 = \<lparr>x64 = Finite (1 / 2 ^ 46), y64 = Finite 0\<rparr>"
  "vel64 example_absorbed64 = \<lparr>x64 = Finite 1000, y64 = Finite 0\<rparr>"
  "maxVel64 example_absorbed64 = \<lparr>x64 = Finite 1000, y64 = Finite 1000\<rparr>"
  "accel64 example_absorbed64 = \<lparr>x64 = Finite 0, y64 = Finite 0\<rparr>"
  by (simp_all add: example_absorbed64_def example_sliding64_def)

lemma uneven_ticks_pos: "\<forall>i. 0 < uneven_ticks i"
  by (simp add: uneven_ticks_def)

lemma uneven_deltas:
  "rnd (2 * uneven_ticks 0) = Finite 2" "rnd (2 * uneven_ticks (Suc 0)) = Finite 1"
  "rnd (2 * uneven_ticks (Suc (Suc 0))) = Finite 2"
  "rnd (1 * uneven_ticks 0) = Finite 1" "rnd (1 * uneven_ticks (Suc 0)) = Finite (1 / 2)"
  "rnd (1 * uneven_ticks (Suc (Suc 0))) = Finite 1"
  by (simp_all add: uneven_ticks_def rnd_exact is64_values)

theorem friction_brings_to_rest_witness:
  "gravity64 example_sliding64 = Finite 0 \<and> (\<forall>i. 0 < uneven_ticks i) \<and>
   x64 (friction64 example_sliding64) = Finite 2 \<and> x64 (maxVel64 example_sliding64) = Finite 1000 \<and>
   x64 (vel64 example_sliding64) = Finite 5 \<and> is64 1000 \<and> is64 5 \<and>
   y64 (friction64 example_sliding64) = Finite 1 \<and> y64 (maxVel64 example_sliding64) = Finite 1000 \<and>
   y64 (vel64 example_sliding64) = Finite (- 2) \<and> is64 (- 2) \<and>
   (\<forall>i. spacing 5 \<le> 2 * uneven_ticks i) \<and> (\<forall>i. spacing (- 2) \<le> 1 * uneven_ticks i) \<and>
   (\<exists>N. \<forall>n\<ge>N. x64 (vel64 (updates64 n (finite_ticks uneven_ticks) example_sliding64)) = Finite 0) \<and>
   (\<exists>N. \<forall>n\<ge>N. y64 (vel64 (updates64 n (finite_ticks uneven_ticks) example_sliding64)) = Finite 0) \<and>
   (\<exists>r. x64 (vel64 (updates64 7 (finite_ticks uneven_ticks) example_sliding64)) = Finite r \<and> 0 \<le> r) \<and>
   (\<exists>r. y64 (vel64 (updates64 7 (finite_ticks uneven_ticks) example_sliding64)) = Finite r \<and> r \<le> 0) \<and>
   x64 (vel64 (updates64 1 (finite_ticks uneven_ticks) example_sliding64)) = Finite 3 \<and>
   x64 (vel64 (updates64 2 (finite_ticks uneven_ticks) example_sliding64)) = Finite 2 \<and>
   x64 (vel64 (updates64 3 (finite_ticks uneven_ticks) example_sliding64)) = Finite 0 \<and>
   y64 (vel64 (updates64 1 (finite_ticks uneven_ticks) example_sliding64)) = Finite (- 1) \<and>
   y64 (vel64 (updates64 2 (finite_ticks uneven_ticks) example_sliding64)) = Finite (- (1 / 2)) \<and>
   y64 (vel64 (updates64 3 (finite_ticks uneven_ticks) example_sliding64)) = Finite 0 \<and>
   x64 (applyFriction64 (Finite (uneven_ticks 1)) \<lparr>x64 = Finite 1, y64 = Finite (- 3)\<rparr> example_sliding64) =
     Finite 0 \<and>
   y64 (applyFriction64 (Finite (uneven_ticks 1)) \<lparr>x64 = Finite 1, y64 = Finite (- 3)\<rparr> example_sliding64) =
     Finite (- (5 / 2))"
proof -
  have g: "gravity64 example_sliding64 = Finite 0"
    by (rule example_sliding64_fields)
  have hx: "x64 (friction64 example_sliding64) = Finite 2 \<and> (0 :: real) < 2 \<and>
      x64 (maxVel64 example_sliding64) = Finite 1000 \<and> (0 :: real) \<le> 1000 \<and> is64 1000 \<and>
      x64 (vel64 example_sliding64) = Finite 5 \<and> is64 5"
    by (simp add: example_sliding64_fields is64_values)
  have hy: "y64 (friction64 example_sliding64) = Finite 1 \<and> (0 :: real) < 1 \<and>
      y64 (maxVel64 example_sliding64) = Finite 1000 \<and> (0 :: real) \<le> 1000 \<and> is64 1000 \<and>
      y64 (vel64 example_sliding64) = Finite (- 2) \<and> is64 (- 2)"
    by (simp add: example_sliding64_fields is64_values)
  have spx: "\<forall>i. spacing 5 \<le> 2 * uneven_ticks i"
    by (simp add: spacing_values uneven_ticks_def)
  have spy: "\<forall>i. spacing (- 2) \<le> 1 * uneven_ticks i"
    by (simp add: spacing_values uneven_ticks_def)
  note t = friction_brings_to_rest [OF g uneven_ticks_pos, of 2 1000 5 1 1000 "- 2"]
  from t hx spx
  have restx: "\<exists>N. \<forall>n\<ge>N. x64 (vel64 (updates64 n (finite_ticks uneven_ticks) example_sliding64)) = Finite 0"
    by blast
  from t hy spy
  have resty: "\<exists>N. \<forall>n\<ge>N. y64 (vel64 (updates64 n (finite_ticks uneven_ticks) example_sliding64)) = Finite 0"
    by blast
  from t hx have "\<forall>n. \<exists>r r'. x64 (vel64 (updates64 n (finite_ticks uneven_ticks) example_sliding64)) = Finite r \<and>
      is64 r \<and> x64 (vel64 (updates64 (Suc n) (finite_ticks uneven_ticks) example_sliding64)) = Finite r' \<and>
      \<bar>r'\<bar> \<le> \<bar>r\<bar> \<and> ((0 :: real) \<le> 5 \<longrightarrow> 0 \<le> r) \<and> ((5 :: real) \<le> 0 \<longrightarrow> r \<le> 0)"
    by blast
  then have signx: "\<exists>r. x64 (vel64 (updates64 7 (finite_ticks uneven_ticks) example_sliding64)) = Finite r \<and> 0 \<le> r"
    by (metis zero_le_numeral)
  from t hy have "\<forall>n. \<exists>r r'. y64 (vel64 (updates64 n (finite_ticks uneven_ticks) example_sliding64)) = Finite r \<and>
      is64 r \<and> y64 (vel64 (updates64 (Suc n) (finite_ticks uneven_ticks) example_sliding64)) = Finite r' \<and>
      \<bar>r'\<bar> \<le> \<bar>r\<bar> \<and> ((0 :: real) \<le> - 2 \<longrightarrow> 0 \<le> r) \<and> ((- 2 :: real) \<le> 0 \<longrightarrow> r \<le> 0)"
    by blast
  then have signy: "\<exists>r. y64 (vel64 (updates64 7 (finite_ticks uneven_ticks) example_sliding64)) = Finite r \<and> r \<le> 0"
    by (metis neg_numeral_le_zero)
  have t1: "(0 :: real) < uneven_ticks 1"
    by (simp add: uneven_ticks_def)
  from t hx have
    "\<forall>d. rnd (2 * uneven_ticks 1) = Finite d \<longrightarrow>
       x64 (applyFriction64 (Finite (uneven_ticks 1)) \<lparr>x64 = Finite 1, y64 = Finite (- 3)\<rparr> example_sliding64) =
         (if \<bar>1\<bar> \<le> d then Finite 0 else if (0 :: real) < 1 then rnd (1 - d) else rnd (1 + d))"
    by (simp add: less_imp_le)
  moreover have ex: "rnd (2 * uneven_ticks 1) = Finite 1"
    by (simp add: uneven_ticks_def rnd_exact is64_values)
  ultimately have "x64 (applyFriction64 (Finite (uneven_ticks 1)) \<lparr>x64 = Finite 1, y64 = Finite (- 3)\<rparr>
      example_sliding64) = (if \<bar>1\<bar> \<le> (1 :: real) then Finite 0 else if (0 :: real) < 1 then rnd (1 - 1) else rnd (1 + 1))"
    by blast
  then have onex: "x64 (applyFriction64 (Finite (uneven_ticks 1)) \<lparr>x64 = Finite 1, y64 = Finite (- 3)\<rparr>
      example_sliding64) = Finite 0"
    by simp
  from t hy have
    "\<forall>d. rnd (1 * uneven_ticks 1) = Finite d \<longrightarrow>
       y64 (applyFriction64 (Finite (uneven_ticks 1)) \<lparr>x64 = Finite 1, y64 = Finite (- 3)\<rparr> example_sliding64) =
         (if \<bar>- 3\<bar> \<le> d then Finite 0 else if (0 :: real) < - 3 then rnd (- 3 - d) else rnd (- 3 + d))"
    by (simp add: less_imp_le)
  moreover have ey: "rnd (1 * uneven_ticks 1) = Finite (1 / 2)"
    by (simp add: uneven_ticks_def rnd_exact is64_values)
  ultimately have "y64 (applyFriction64 (Finite (uneven_ticks 1)) \<lparr>x64 = Finite 1, y64 = Finite (- 3)\<rparr>
      example_sliding64) = (if \<bar>- 3\<bar> \<le> (1 / 2 :: real) then Finite 0
        else if (0 :: real) < - 3 then rnd (- 3 - 1 / 2) else rnd (- 3 + 1 / 2))"
    by blast
  then have oney: "y64 (applyFriction64 (Finite (uneven_ticks 1)) \<lparr>x64 = Finite 1, y64 = Finite (- 3)\<rparr>
      example_sliding64) = Finite (- (5 / 2))"
    by (simp add: rnd_exact is64_values)
  have frx: "x64 (friction64 example_sliding64) = Finite 2"
    and mxx: "x64 (maxVel64 example_sliding64) = Finite 1000"
    and fry: "y64 (friction64 example_sliding64) = Finite 1"
    and mxy: "y64 (maxVel64 example_sliding64) = Finite 1000"
    by (simp_all add: example_sliding64_fields)
  have nz: "(2 :: real) \<noteq> 0" "(1 :: real) \<noteq> 0" by simp_all
  note stx = updates64_x [OF frx nz(1) mxx, of _ uneven_ticks]
  note sty = updates64_y [OF fry nz(2) mxy g, of _ uneven_ticks]
  have x0: "x64 (vel64 (updates64 0 (finite_ticks uneven_ticks) example_sliding64)) = Finite 5"
    and y0: "y64 (vel64 (updates64 0 (finite_ticks uneven_ticks) example_sliding64)) = Finite (- 2)"
    by (simp_all add: example_sliding64_fields)
  have x1: "x64 (vel64 (updates64 (Suc 0) (finite_ticks uneven_ticks) example_sliding64)) = Finite 3"
    unfolding stx x0 uneven_deltas by (simp add: axis_step64_examples)
  have x2: "x64 (vel64 (updates64 (Suc (Suc 0)) (finite_ticks uneven_ticks) example_sliding64)) = Finite 2"
    unfolding stx [of "Suc 0"] x1 uneven_deltas by (simp add: axis_step64_examples)
  have x3: "x64 (vel64 (updates64 (Suc (Suc (Suc 0))) (finite_ticks uneven_ticks) example_sliding64)) = Finite 0"
    unfolding stx [of "Suc (Suc 0)"] x2 uneven_deltas by (simp add: axis_step64_examples)
  have y1: "y64 (vel64 (updates64 (Suc 0) (finite_ticks uneven_ticks) example_sliding64)) = Finite (- 1)"
    unfolding sty y0 uneven_deltas by (simp add: axis_step64_examples)
  have y2: "y64 (vel64 (updates64 (Suc (Suc 0)) (finite_ticks uneven_ticks) example_sliding64)) = Finite (- (1 / 2))"
    unfolding sty [of "Suc 0"] y1 uneven_deltas by (simp add: axis_step64_examples)
  have y3: "y64 (vel64 (updates64 (Suc (Suc (Suc 0))) (finite_ticks uneven_ticks) example_sliding64)) = Finite 0"
    unfolding sty [of "Suc (Suc 0)"] y2 uneven_deltas by (simp add: axis_step64_examples)
  have n: "(1 :: nat) = Suc 0" "(2 :: nat) = Suc (Suc 0)" "(3 :: nat) = Suc (Suc (Suc 0))"
    by simp_all
  have a: "gravity64 example_sliding64 = Finite 0 \<and> (\<forall>i. 0 < uneven_ticks i) \<and>
   x64 (friction64 example_sliding64) = Finite 2 \<and> x64 (maxVel64 example_sliding64) = Finite 1000 \<and>
   x64 (vel64 example_sliding64) = Finite 5 \<and> is64 1000 \<and> is64 5 \<and>
   y64 (friction64 example_sliding64) = Finite 1 \<and> y64 (maxVel64 example_sliding64) = Finite 1000 \<and>
   y64 (vel64 example_sliding64) = Finite (- 2) \<and> is64 (- 2)"
    using g uneven_ticks_pos hx hy by blast
  show ?thesis
    unfolding n
    using a spx spy restx resty signx signy x1 x2 x3 y1 y2 y3 onex oney
    unfolding n by blast
qed

lemma absorbed_step:
  "x64 (vel64 (updates64 (Suc n) (finite_ticks steady_ticks) example_absorbed64)) =
     axis_step64 (Finite (1 / 2 ^ 46)) (Finite 1000)
       (x64 (vel64 (updates64 n (finite_ticks steady_ticks) example_absorbed64)))"
proof -
  have fr: "x64 (friction64 example_absorbed64) = Finite (1 / 2 ^ 46)"
    and mx: "x64 (maxVel64 example_absorbed64) = Finite 1000"
    by (simp_all add: example_absorbed64_fields)
  have nz: "(1 :: real) / 2 ^ 46 \<noteq> 0" by simp
  have d: "rnd (1 / 2 ^ 46 * steady_ticks n) = Finite (1 / 2 ^ 46)"
    unfolding steady_ticks_def mult_1_right by (rule rnd_exact [OF is64_friction])
  show ?thesis
    unfolding updates64_x [OF fr nz mx] d ..
qed

text \<open>
  The friction of \<open>2^(-46)\<close> never moves the velocity of 1000, however many calls are made.
\<close>

lemma friction_absorbed:
  "x64 (vel64 (updates64 n (finite_ticks steady_ticks) example_absorbed64)) = Finite 1000"
proof (induction n)
  case 0
  show ?case by (simp add: example_absorbed64_fields)
next
  case (Suc n)
  show ?case
    unfolding absorbed_step Suc by (rule axis_step64_absorbed)
qed

text \<open>
  The claim as stated asks only for a friction other than zero, and for no more. With a
  friction of \<open>-2\<close> on the x axis, no gravity, no acceleration and a tick of 1, a velocity
  of 1 becomes \<open>-1\<close> after one \<^verbatim>\<open>update\<close> (line 486: \<open>nx = 1 + (-2) < 0\<close>) and \<open>-3\<close> after
  two: it changes sign and moves away from 0. With a friction of \<open>2^(-46)\<close> and a
  velocity of 1000, both \<open>1000 + 2^(-46)\<close> and \<open>1000 - 2^(-46)\<close> round to 1000, the
  spacing of binary64 values at 1000 being \<open>2^(-43)\<close>: \<^verbatim>\<open>update\<close> leaves the velocity as
  it found it, call after call.
\<close>

theorem friction_counterexample:
  "x64 (friction64 example_slipping64) = Finite (- 2) \<and>
   accel64 example_slipping64 = \<lparr>x64 = Finite 0, y64 = Finite 0\<rparr> \<and>
   gravity64 example_slipping64 = Finite 0 \<and>
   x64 (vel64 example_slipping64) = Finite 1 \<and>
   x64 (vel64 (updates64 1 (finite_ticks steady_ticks) example_slipping64)) = Finite (- 1) \<and>
   x64 (vel64 (updates64 2 (finite_ticks steady_ticks) example_slipping64)) = Finite (- 3) \<and>
   x64 (friction64 example_absorbed64) = Finite (1 / 2 ^ 46) \<and>
   x64 (friction64 example_absorbed64) \<noteq> Finite 0 \<and>
   accel64 example_absorbed64 = \<lparr>x64 = Finite 0, y64 = Finite 0\<rparr> \<and>
   gravity64 example_absorbed64 = Finite 0 \<and>
   x64 (vel64 example_absorbed64) = Finite 1000 \<and>
   vel64 (snd (update64 (Finite 1) example_absorbed64)) = vel64 example_absorbed64 \<and>
   x64 (vel64 (updates64 1 (finite_ticks steady_ticks) example_absorbed64)) = Finite 1000 \<and>
   x64 (vel64 (updates64 2 (finite_ticks steady_ticks) example_absorbed64)) = Finite 1000 \<and>
   x64 (vel64 (updates64 3 (finite_ticks steady_ticks) example_absorbed64)) = Finite 1000"
proof -
  have fr: "x64 (friction64 example_slipping64) = Finite (- 2)"
    and mx: "x64 (maxVel64 example_slipping64) = Finite 1000"
    by (simp_all add: example_slipping64_fields)
  have nz: "(- 2 :: real) \<noteq> 0" by simp
  have d: "rnd (- 2 * steady_ticks n) = Finite (- 2)" for n
    by (simp add: steady_ticks_def rnd_exact is64_values)
  note st = updates64_x [OF fr nz mx, of _ steady_ticks, unfolded d]
  have s1: "x64 (vel64 (updates64 1 (finite_ticks steady_ticks) example_slipping64)) = Finite (- 1)"
    unfolding One_nat_def st by (simp add: example_slipping64_fields axis_step64_examples)
  have s2: "x64 (vel64 (updates64 2 (finite_ticks steady_ticks) example_slipping64)) = Finite (- 3)"
    unfolding numeral_2_eq_2 st by (simp add: example_slipping64_fields axis_step64_examples)
  have one: "update64 (finite_ticks steady_ticks 0) example_absorbed64 = update64 (Finite 1) example_absorbed64"
    by (simp add: finite_ticks_def steady_ticks_def)
  have x: "x64 (vel64 (snd (update64 (Finite 1) example_absorbed64))) = Finite 1000"
    using friction_absorbed [of 1] by (simp add: one)
  have "\<not> truthy64 (gravity64 example_absorbed64)" "truthy64 (x64 (friction64 example_absorbed64))"
    by (simp_all add: example_absorbed64_fields)
  have y: "y64 (vel64 (snd (update64 (Finite 1) example_absorbed64))) = Finite 0"
    by (simp add: update64_vel computeVelocity64_fst applyFriction64_def example_absorbed64_fields
        Let_def sub64_def gt64_def rnd_exact)
  have v: "vel64 (snd (update64 (Finite 1) example_absorbed64)) = vel64 example_absorbed64"
    using x y by (simp add: example_absorbed64_fields Vector64.equality)
  show ?thesis
    using s1 s2 v friction_absorbed [of 1] friction_absorbed [of 2] friction_absorbed [of 3]
    by (simp add: example_slipping64_fields example_absorbed64_fields)
qed

text \<open>
  The two other conditions of the amended claim are needed as well. With a tick of 0 the
  friction does nothing and the velocity stays where it is. With a negative maximal
  velocity, as \<^verbatim>\<open>setVelocity(-3, 0)\<close> leaves it, the clamp to \<open>[-maxVel, maxVel] = [3, -3]\<close>
  turns 5 into \<open>-3\<close> and \<open>-3\<close> into 3.
\<close>

lemma friction_needs_tick:
  "x64 (vel64 (updates64 n (finite_ticks (\<lambda>i. 0)) example_sliding64)) = Finite 5"
proof (induction n)
  case 0
  show ?case by (simp add: example_sliding64_fields)
next
  case (Suc n)
  have fr: "x64 (friction64 example_sliding64) = Finite 2"
    and mx: "x64 (maxVel64 example_sliding64) = Finite 1000"
    by (simp_all add: example_sliding64_fields)
  have nz: "(2 :: real) \<noteq> 0" by simp
  have d: "rnd (2 * 0) = Finite 0"
    by (simp add: rnd_exact)
  show ?case
    unfolding updates64_x [OF fr nz mx] Suc d by (simp add: axis_step64_examples)
qed

lemma friction_needs_maxVel:
  "x64 (vel64 (updates64 1 (finite_ticks steady_ticks)
      (example_sliding64\<lparr>maxVel64 := \<lparr>x64 = Finite (- 3), y64 = Finite 0\<rparr>\<rparr>))) = Finite (- 3) \<and>
   x64 (vel64 (updates64 2 (finite_ticks steady_ticks)
      (example_sliding64\<lparr>maxVel64 := \<lparr>x64 = Finite (- 3), y64 = Finite 0\<rparr>\<rparr>))) = Finite 3"
proof -
  let ?b = "example_sliding64\<lparr>maxVel64 := \<lparr>x64 = Finite (- 3), y64 = Finite 0\<rparr>\<rparr>"
  have fr: "x64 (friction64 ?b) = Finite 2" and mx: "x64 (maxVel64 ?b) = Finite (- 3)"
    by (simp_all add: example_sliding64_fields)
  have nz: "(2 :: real) \<noteq> 0" by simp
  have d: "rnd (2 * steady_ticks n) = Finite 2" for n
    by (simp add: steady_ticks_def rnd_exact is64_values)
  note st = updates64_x [OF fr nz mx, of _ steady_ticks, unfolded d]
  have x0: "x64 (vel64 (updates64 0 (finite_ticks steady_ticks) ?b)) = Finite 5"
    by (simp add: example_sliding64_fields)
  have x1: "x64 (vel64 (updates64 (Suc 0) (finite_ticks steady_ticks) ?b)) = Finite (- 3)"
    unfolding st x0 by (simp add: axis_step64_examples)
  have x2: "x64 (vel64 (updates64 (Suc (Suc 0)) (finite_ticks steady_ticks) ?b)) = Finite 3"
    unfolding st [of "Suc 0"] x1 by (simp add: axis_step64_examples)
  show ?thesis
    using x1 x2 by (simp add: numeral_2_eq_2)
qed

section \<open>The state manager: lookup errors\<close>

text \<open>
  Claim C4, as amended. \<^verbatim>\<open>change(state)\<close> throws exactly when the registry has no entry
  for the state; the message is \<open>Undefined ScreenObject for state '<state>'\<close> and the
  module is left as it was. After any sequence of calls from the initial module, the
  registry has no entry for a state exactly when none of the calls was a \<^verbatim>\<open>set\<close> of a
  screen object for it (directly, or through \<^verbatim>\<open>init\<close> for the loading state). When the
  requested state is registered and is the current one, \<^verbatim>\<open>change\<close> returns with the module
  unchanged: nothing is destroyed or reset and nothing is scheduled.
\<close>

theorem change_lookup_error:
  "(m_screenObject s X = None \<longrightarrow>
      change X args s =
        (Inl (Error (''Undefined ScreenObject for state '' @ [CHR 0x27] @ show_int X @ [CHR 0x27])), s)) \<and>
   (m_screenObject s X \<noteq> None \<longrightarrow> fst (change X args s) = Inr ()) \<and>
   ((m_screenObject (run cs (sm_initial :: 'a StateManager)) X = None) =
      (\<forall>c\<in>set cs. \<not> registers X c)) \<and>
   (m_screenObject s X \<noteq> None \<and> X = m_state s \<longrightarrow> change X args s = (Inr (), s))"
proof -
  have "(m_screenObject (run cs (sm_initial :: 'a StateManager)) X = None) =
      (\<forall>c\<in>set cs. \<not> registers X c)"
    by (simp add: run_registry sm_initial_def)
  then show ?thesis
    using change_unregistered [of s X args] change_registered_returns [of s X args]
      change_current [of s X args]
    by blast
qed

theorem change_lookup_error_witness:
  "m_screenObject example_playing MENU = None \<and>
   change MENU [] example_playing =
     (Inl (Error (''Undefined ScreenObject for state '' @ [CHR 0x27] @ ''1'' @ [CHR 0x27])),
      example_playing) \<and>
   m_screenObject example_playing PLAY \<noteq> None \<and> PLAY = m_state example_playing \<and>
   change PLAY [] example_playing = (Inr (), example_playing) \<and>
   fst (change LOADING [] example_playing) = Inr () \<and>
   m_screenObject (run [Init 0, Set PLAY (ScreenObject 1)] (sm_initial :: nat StateManager)) MENU = None \<and>
   m_screenObject (run [Init 0, Set PLAY (ScreenObject 1)] (sm_initial :: nat StateManager)) PLAY \<noteq> None"
proof -
  have reg: "m_screenObject example_playing MENU = None"
    "m_screenObject example_playing PLAY \<noteq> None"
    "m_screenObject example_playing LOADING \<noteq> None"
    by (simp_all add: example_playing_fields example_sm_eq MENU_def PLAY_def LOADING_def)
  have cur: "PLAY = m_state example_playing"
    by (simp add: example_playing_fields)
  have sh: "show_int MENU = ''1''"
    by (simp add: MENU_def show_int_def digit_char_def)
  note t1 = change_lookup_error [of example_playing MENU "[]" "[Init 0, Set PLAY (ScreenObject 1)]"]
  note t2 = change_lookup_error [of example_playing PLAY "[]" "[Init 0, Set PLAY (ScreenObject 1)]"]
  note t3 = change_lookup_error [of example_playing LOADING "[]" "[]"]
  from t1 reg(1) have a: "change MENU [] example_playing =
     (Inl (Error (''Undefined ScreenObject for state '' @ [CHR 0x27] @ show_int MENU @ [CHR 0x27])),
      example_playing)"
    by blast
  from t2 reg(2) cur have b: "change PLAY [] example_playing = (Inr (), example_playing)"
    by blast
  from t3 reg(3) have c: "fst (change LOADING [] example_playing) = Inr ()"
    by blast
  from t1 have "(m_screenObject (run [Init 0, Set PLAY (ScreenObject 1)] (sm_initial :: nat StateManager)) MENU = None) =
      (\<forall>c\<in>set [Init 0, Set PLAY (ScreenObject 1) :: nat call]. \<not> registers MENU c)"
    by blast
  then have d: "m_screenObject (run [Init 0, Set PLAY (ScreenObject 1)] (sm_initial :: nat StateManager)) MENU = None"
    by (simp add: MENU_def PLAY_def LOADING_def)
  from t2 have "(m_screenObject (run [Init 0, Set PLAY (ScreenObject 1)] (sm_initial :: nat StateManager)) PLAY = None) =
      (\<forall>c\<in>set [Init 0, Set PLAY (ScreenObject 1) :: nat call]. \<not> registers PLAY c)"
    by blast
  then have e: "m_screenObject (run [Init 0, Set PLAY (ScreenObject 1)] (sm_initial :: nat StateManager)) PLAY \<noteq> None"
    by (simp add: MENU_def PLAY_def LOADING_def)
  show ?thesis
    using reg cur a b c d e by (simp only: sh) simp
qed

text \<open>
  The claim as stated makes \<^verbatim>\<open>change\<close> a silent no-op whenever the requested state is the
  current one. In the initial module the current state is \<open>-1\<close>, which has no screen:
  \<^verbatim>\<open>change(-1)\<close> throws the lookup error, because the registry is tested first (line 772).
\<close>

theorem change_current_counterexample:
  "m_state (sm_initial :: nat StateManager) = - 1 \<and>
   isCurrent (- 1) (sm_initial :: nat StateManager) \<and>
   change (- 1) [] (sm_initial :: nat StateManager) =
     (Inl (Error (''Undefined ScreenObject for state '' @ [CHR 0x27] @ ''-1'' @ [CHR 0x27])),
      sm_initial)"
  by (simp add: change_def isCurrent_def sm_initial_def show_int_def digit_char_def)

text \<open>
  Claim C9. Whenever the registry has no entry for the current state, \<^verbatim>\<open>current()\<close> fails
  with the TypeError of reading \<^verbatim>\<open>.screen\<close> of \<^verbatim>\<open>undefined\<close>; the initial module, whose
  current state is \<open>-1\<close>, is such a configuration.
\<close>

theorem current_unregistered:
  "(m_screenObject s (m_state s) = None \<longrightarrow> current s = Inl TypeError) \<and>
   m_state (sm_initial :: 'a StateManager) = - 1 \<and>
   current (sm_initial :: 'a StateManager) = Inl TypeError"
  by (simp add: current_def sm_initial_def)

theorem current_unregistered_witness:
  "m_state example_sm = - 1 \<and>
   m_screenObject example_sm (m_state example_sm) = None \<and>
   m_screenObject example_sm LOADING \<noteq> None \<and>
   current example_sm = Inl TypeError \<and>
   current example_playing = Inr 1"
proof -
  have h: "m_screenObject example_sm (m_state example_sm) = None"
    by (simp add: example_sm_eq sm_initial_def LOADING_def PLAY_def)
  have p: "current example_playing = Inr 1"
    by (simp add: current_def example_playing_fields example_sm_eq)
  from current_unregistered [of example_sm] h have "current example_sm = Inl TypeError"
    by blast
  then show ?thesis
    using h p by (simp add: example_sm_eq sm_initial_def)
qed

text \<open>
  The current state is \<open>-1\<close> or a registered state in every module reachable from the
  initial one: only \<^verbatim>\<open>_switchState\<close> assigns it, under the guard of line 361, and no call
  removes an entry from the registry.
\<close>

lemma startRunLoop_state [simp]: "m_state (startRunLoop s) = m_state s"
  by (simp add: startRunLoop_def Let_def)

lemma stopRunLoop_state [simp]: "m_state (stopRunLoop s) = m_state s"
  by (simp add: stopRunLoop_def)

lemma resumeRunLoop_state [simp]: "m_state (resumeRunLoop s) = m_state s"
  by (simp add: resumeRunLoop_def)

lemma pauseRunLoop_state [simp]: "m_state (pauseRunLoop s) = m_state s"
  by (simp add: pauseRunLoop_def)

lemma renderFrame_state [simp]: "m_state (renderFrame t s) = m_state s"
  by (simp add: renderFrame_def Let_def)

lemma stop_state [simp]: "m_state (stop music now s) = m_state s"
  by (simp add: stop_def Let_def split: option.splits)

lemma pause_state [simp]: "m_state (pause music now s) = m_state s"
  by (simp add: pause_def Let_def split: option.splits)

lemma restart_state [simp]: "m_state (restart music now s) = m_state s"
  by (simp add: restart_def Let_def split: option.splits)

lemma resume_state [simp]: "m_state (resume music now s) = m_state s"
  by (simp add: resume_def Let_def split: option.splits)

lemma transition_fn_state [simp]: "m_state (transition_fn e c d s) = m_state s"
  by (simp add: transition_fn_def)

lemma set_so_state [simp]: "m_state (snd (set_so state so s)) = m_state s"
  by (cases so) (simp_all add: set_so_def)

lemma setTransition_state [simp]: "m_state (snd (setTransition state enable s)) = m_state s"
  by (simp add: setTransition_def split: option.splits)

lemma change_state [simp]: "m_state (snd (change state args s)) = m_state s"
  by (simp add: change_def Let_def split: option.splits)

lemma fadeInComplete_state [simp]: "m_state (fadeInComplete s) = m_state s"
  by (simp add: fadeInComplete_def split: list.splits)

lemma switchState_state:
  "m_state (switchState X s) = (if m_screenObject s X = None then m_state s else X)"
  by (auto simp: switchState_def Let_def split: option.splits)

lemma runDeferred_state:
  "m_state (runDeferred s) = m_state s \<or>
   m_screenObject s (m_state (runDeferred s)) \<noteq> None"
  by (auto simp: runDeferred_def switchState_state split: list.splits)

lemma exec_state:
  "m_state (exec c s) = m_state s \<or> m_screenObject s (m_state (exec c s)) \<noteq> None"
proof (cases c)
  case (Init n)
  then show ?thesis by (simp add: init_def)
next
  case (AssignCallback l f)
  then show ?thesis by (cases l) simp_all
next
  case RunDeferred
  then show ?thesis using runDeferred_state [of s] by simp
qed simp_all


lemma run_state_registered:
  assumes "m_state s = - 1 \<or> m_screenObject s (m_state s) \<noteq> None"
  shows "m_state (run cs s) = - 1 \<or> m_screenObject (run cs s) (m_state (run cs s)) \<noteq> None"
  using assms
proof (induction cs arbitrary: s)
  case Nil
  then show ?case by simp
next
  case (Cons c cs)
  have "m_state (exec c s) = - 1 \<or> m_screenObject (exec c s) (m_state (exec c s)) \<noteq> None"
    using Cons.prems exec_state [of c s] exec_registry [of c s "m_state (exec c s)"]
    by auto
  then show ?case
    using Cons.IH [of "exec c s"] by simp
qed

text \<open>
  So \<^verbatim>\<open>current()\<close> fails in a reachable module exactly while no switch has completed yet
  (the current state is still \<open>-1\<close>) and no screen was registered under \<open>-1\<close> itself.
\<close>

theorem current_fails_only_before_first_switch:
  "(current (run cs (sm_initial :: 'a StateManager)) = Inl TypeError) =
     (m_state (run cs (sm_initial :: 'a StateManager)) = - 1 \<and>
      (\<forall>c\<in>set cs. \<not> registers (- 1) c))"
proof -
  let ?s = "run cs (sm_initial :: 'a StateManager)"
  have inv: "m_state ?s = - 1 \<or> m_screenObject ?s (m_state ?s) \<noteq> None"
    by (rule run_state_registered) (simp add: sm_initial_def)
  have reg: "(m_screenObject ?s (- 1) = None) = (\<forall>c\<in>set cs. \<not> registers (- 1) c)"
    by (simp add: run_registry sm_initial_def)
  have cur: "(current ?s = Inl TypeError) = (m_screenObject ?s (m_state ?s) = None)"
    by (simp add: current_def split: option.splits)
  show ?thesis
    using inv reg cur by metis
qed

theorem current_fails_only_before_first_switch_witness:
  "current (run [Init 0, Set PLAY (ScreenObject 1)] (sm_initial :: nat StateManager)) = Inl TypeError \<and>
   m_state (run [Init 0, Set PLAY (ScreenObject 1)] (sm_initial :: nat StateManager)) = - 1"
  using current_fails_only_before_first_switch [of "[Init 0, Set PLAY (ScreenObject 1) :: nat call]"]
  by (simp add: init_def set_so_def sm_initial_def LOADING_def PLAY_def)

section \<open>The pointer\<close>

lemma resize_pointer_fields [simp]:
  "pointerId (resize w h this) = pointerId this"
  "deltaY (resize w h this) = deltaY this"
  "deltaX (resize w h this) = deltaX this"
  "deltaMode (resize w h this) = deltaMode this"
  by (simp_all add: resize_def)

lemma setEvent_pointerId_eq:
  "pointerId (fst (setEvent host ev cx cy pid this)) = (if pid \<noteq> Undefined then pid else Num 1)"
  by (simp add: setEvent_def Let_def split_def)

lemma setEvent_deltaY_eq:
  "deltaY (fst (setEvent host ev cx cy pid this)) =
     (if ev_type ev = ''wheel'' then js_times (Num (- 1 / 40)) (ev_wheelDelta ev) else deltaY this)"
  by (simp add: setEvent_def Let_def split_def)

text \<open>
  Claim C7. \<^verbatim>\<open>setEvent\<close> called with the pointer id 0 stores 0; called with an undefined
  pointer id it stores 1; in general it stores the argument unless it is undefined.
\<close>

theorem setEvent_pointerId:
  "pointerId (fst (setEvent host ev cx cy (Num 0) this)) = Num 0 \<and>
   pointerId (fst (setEvent host ev cx cy Undefined this)) = Num 1 \<and>
   pointerId (fst (setEvent host ev cx cy pid this)) = (if pid = Undefined then Num 1 else pid)"
  by (simp add: setEvent_pointerId_eq)

theorem setEvent_pointerId_witness:
  "pointerId (fst (setEvent example_host example_event (Num 10) (Num 20) (Num 0)
      (Pointer_new Undefined Undefined Undefined Undefined))) = Num 0 \<and>
   pointerId (fst (setEvent example_host example_event (Num 10) (Num 20) Undefined
      (Pointer_new Undefined Undefined Undefined Undefined))) = Num 1 \<and>
   pointerId (fst (setEvent example_host example_event (Num 10) (Num 20) (Num 7)
      (Pointer_new Undefined Undefined Undefined Undefined))) = Num 7"
  using setEvent_pointerId [of example_host example_event "Num 10" "Num 20"
      "Pointer_new Undefined Undefined Undefined Undefined" "Num 7"]
  by simp

text \<open>
  Claim C8. On an event of type \<open>wheel\<close>, \<^verbatim>\<open>setEvent\<close> sets \<open>deltaY\<close> to \<open>-1/40\<close> times the
  event's \<open>wheelDelta\<close> (NaN when that is undefined); for a \<open>wheelDelta\<close> of 80 it is
  \<open>-2\<close>. (The rounding of the two operations is checked after the witness.)
\<close>

theorem setEvent_wheel:
  assumes "ev_type ev = ''wheel''"
  shows "deltaY (fst (setEvent host ev cx cy pid this)) = js_times (Num (- 1 / 40)) (ev_wheelDelta ev) \<and>
         (\<forall>w. ev_wheelDelta ev = Num w \<longrightarrow>
            deltaY (fst (setEvent host ev cx cy pid this)) = Num (- 1 / 40 * w)) \<and>
         (ev_wheelDelta ev = Num 80 \<longrightarrow>
            deltaY (fst (setEvent host ev cx cy pid this)) = Num (- 2))"
  using assms by (simp add: setEvent_deltaY_eq js_times_def)

theorem setEvent_wheel_witness:
  "ev_type example_event = ''wheel'' \<and> ev_wheelDelta example_event = Num 80 \<and>
   deltaY (fst (setEvent example_host example_event (Num 10) (Num 20) Undefined
      (Pointer_new Undefined Undefined Undefined Undefined))) = Num (- 2)"
proof -
  have h: "ev_type example_event = ''wheel''" "ev_wheelDelta example_event = Num 80"
    by (simp_all add: example_event_def)
  from setEvent_wheel [OF h(1), of example_host "Num 10" "Num 20" Undefined
      "Pointer_new Undefined Undefined Undefined Undefined"] h(2)
  have "deltaY (fst (setEvent example_host example_event (Num 10) (Num 20) Undefined
      (Pointer_new Undefined Undefined Undefined Undefined))) = Num (- 2)"
    by blast
  with h show ?thesis by simp
qed

text \<open>
  The theorem above computes with exact reals. In binary64 arithmetic the source first
  rounds \<open>-1/40\<close>, which is not a binary fraction, and then rounds the product with 80;
  the result is exactly \<open>-2\<close> all the same.
\<close>

theorem wheelDelta_80_binary64:
  "binade (- 6) (- 1 / 40) \<and>
   binary64 (- 6) (- 1 / 40) = - 7205759403792794 / 2 ^ 58 \<and>
   binade 1 (binary64 (- 6) (- 1 / 40) * 80) \<and>
   binary64 1 (binary64 (- 6) (- 1 / 40) * 80) = - 2"
proof -
  have a: "binade (- 6) (- 1 / 40)"
    by (simp add: binade_def power_int_minus)
  have b: "binary64 (- 6) (- 1 / 40) = - 7205759403792794 / 2 ^ 58"
    by (simp add: binary64_def round_ties_even_def power_int_minus Let_def)
  have c: "binade 1 (- 7205759403792794 / 2 ^ 58 * 80)"
    by (simp add: binade_def)
  have d: "binary64 1 (- 7205759403792794 / 2 ^ 58 * 80) = - 2"
    by (simp add: binary64_def round_ties_even_def power_int_minus Let_def)
  show ?thesis
    using a c d unfolding b by simp
qed

end
